(* ===== verification/Prelude.thy ===== *)
theory Prelude
  imports Complex_Main "HOL-Library.Sublist" "HOL-Library.Multiset"
begin

text \<open>
  Shared vocabulary of the development: how JavaScript values that the web client
  reads are represented in HOL, and the JavaScript primitives the components call.
  \<^item> A numeric field of a loosely typed Firestore document is \<open>int option\<close>:
    \<open>None\<close> is an absent (undefined) field, \<open>Some n\<close> a present number.
    JavaScript's \<open>x || 0\<close> is \<open>or0\<close>, its truthiness test is \<open>truthy\<close>,
    and \<open>a || b\<close> on two numbers is \<open>js_or\<close>.
  \<^item> Strings are \<open>string\<close> (byte lists). \<open>String.prototype.toLowerCase\<close> is
    \<open>to_lower\<close> (ASCII letters; other bytes are left alone), \<open>js_includes\<close> is
    substring search, and \<open>u.split('?')[0]\<close> is \<open>before_query\<close>.
  \<^item> \<open>Array.prototype.sort\<close> with a numeric comparator is \<open>js_sort\<close>: since
    ES2019 the sort is required to be stable, and \<open>js_sort\<close> is the stable insertion
    sort that puts an element before the first element it does not compare greater than.
    Its agreement with the library's \<open>sort_key\<close> is proved here once and reused by
    every component that sorts.
\<close>

section \<open>Definitions\<close>

named_theorems js_simps "evaluation rules of the JavaScript primitives"

type_synonym js_num = "int option"

definition or0 :: "js_num \<Rightarrow> int" where
  "or0 x = (case x of None \<Rightarrow> 0 | Some n \<Rightarrow> n)"

definition truthy :: "js_num \<Rightarrow> bool" where
  "truthy x \<longleftrightarrow> x \<noteq> None \<and> x \<noteq> Some 0"

definition js_or :: "js_num \<Rightarrow> js_num \<Rightarrow> js_num" where
  "js_or a b = (if truthy a then a else b)"

definition lower_char :: "char \<Rightarrow> char" where
  "lower_char c =
     (let n = (of_char c :: nat) in if 65 \<le> n \<and> n \<le> 90 then char_of (n + 32) else c)"

definition to_lower :: "string \<Rightarrow> string" where
  "to_lower s = map lower_char s"

text \<open>\<open>s.includes(t)\<close>: \<open>t\<close> occurs in \<open>s\<close> as a contiguous block.\<close>

primrec js_includes :: "string \<Rightarrow> string \<Rightarrow> bool" where
  "js_includes [] t \<longleftrightarrow> t = []"
| "js_includes (c # s) t \<longleftrightarrow> prefix t (c # s) \<or> js_includes s t"

text \<open>\<open>u.split('?')[0]\<close>: everything before the first question mark.\<close>

definition before_query :: "string \<Rightarrow> string" where
  "before_query u = takeWhile (\<lambda>c. c \<noteq> CHR ''?'') u"

text \<open>
  \<open>cmp a b\<close> is the comparator's number: negative or zero keeps \<open>a\<close> first.
  \<open>insert_by\<close> is one step of the insertion sort; \<open>js_sort\<close> inserts the head into
  the sorted tail, so equal elements keep their input order.
\<close>

text \<open>\<^verbatim>\<open>String.prototype.trim\<close> on the ASCII white space characters (tab, line
  feed, vertical tab, form feed, carriage return, space).\<close>

definition is_js_space :: "char \<Rightarrow> bool" where
  "is_js_space c \<longleftrightarrow> (let n = (of_char c :: nat) in (9 \<le> n \<and> n \<le> 13) \<or> n = 32)"

definition js_trim :: "string \<Rightarrow> string" where
  "js_trim s = rev (dropWhile is_js_space (rev (dropWhile is_js_space s)))"

text \<open>\<^verbatim>\<open>Math.round\<close>: halves round up, towards positive infinity.\<close>

definition js_round :: "rat \<Rightarrow> int" where
  "js_round x = \<lfloor>x + 1 / 2\<rfloor>"

fun insert_by :: "('a \<Rightarrow> 'a \<Rightarrow> int) \<Rightarrow> 'a \<Rightarrow> 'a list \<Rightarrow> 'a list" where
  "insert_by cmp x [] = [x]"
| "insert_by cmp x (y # ys) = (if cmp x y \<le> 0 then x # y # ys else y # insert_by cmp x ys)"

primrec js_sort :: "('a \<Rightarrow> 'a \<Rightarrow> int) \<Rightarrow> 'a list \<Rightarrow> 'a list" where
  "js_sort cmp [] = []"
| "js_sort cmp (x # xs) = insert_by cmp x (js_sort cmp xs)"

definition key_cmp :: "('a \<Rightarrow> int) \<Rightarrow> 'a \<Rightarrow> 'a \<Rightarrow> int" where
  "key_cmp k a b = k a - k b"

section \<open>Lemmas on the JavaScript primitives\<close>

lemma or0_simps [simp, js_simps]: "or0 None = 0" "or0 (Some n) = n"
  by (simp_all add: or0_def)

lemma truthy_simps [simp, js_simps]:
  "\<not> truthy None" "truthy (Some n) \<longleftrightarrow> n \<noteq> 0"
  by (simp_all add: truthy_def)

lemma js_or_simps [simp, js_simps]:
  "js_or None b = b" "js_or (Some n) b = (if n = 0 then b else Some n)"
  by (simp_all add: js_or_def)

lemma or0_truthy: "truthy x \<Longrightarrow> or0 x \<noteq> 0"
  by (cases x) simp_all

lemma js_includes_iff_sublist: "js_includes s t \<longleftrightarrow> sublist t s"
  by (induction s) (simp_all add: sublist_Cons_right)

lemma js_includes_Nil [simp]: "js_includes s []"
  by (simp add: js_includes_iff_sublist)

lemma length_to_lower [simp]: "length (to_lower s) = length s"
  by (simp add: to_lower_def)

lemma to_lower_Nil_iff [simp]: "to_lower s = [] \<longleftrightarrow> s = []"
  by (simp add: to_lower_def)

lemma to_lower_append [simp]: "to_lower (s @ t) = to_lower s @ to_lower t"
  by (simp add: to_lower_def)

lemma lower_char_idem [simp]: "lower_char (lower_char c) = lower_char c"
proof -
  have "of_char c < (256::nat)" by (rule nat_of_char_less_256)
  then show ?thesis
    by (auto simp add: lower_char_def Let_def)
qed

lemma to_lower_idem [simp]: "to_lower (to_lower s) = to_lower s"
  by (simp add: to_lower_def)

lemma before_query_no_query: "CHR ''?'' \<notin> set (before_query u)"
  by (auto simp add: before_query_def dest: set_takeWhileD)

lemma before_query_prefix: "prefix (before_query u) u"
  by (simp add: before_query_def takeWhile_is_prefix)

lemma dropWhile_hd_not:
  "dropWhile P xs \<noteq> [] \<Longrightarrow> \<not> P (hd (dropWhile P xs))"
  by (induction xs) auto

lemma last_dropWhile: "dropWhile P xs \<noteq> [] \<Longrightarrow> last (dropWhile P xs) = last xs"
  by (induction xs) auto

lemma js_trim_idem [simp]: "js_trim (js_trim s) = js_trim s"
proof -
  let ?u = "dropWhile is_js_space s"
  let ?w = "dropWhile is_js_space (rev ?u)"
  have "dropWhile is_js_space (rev ?w) = rev ?w"
  proof (cases "?w = []")
    case False
    have "?u \<noteq> []"
    proof
      assume "?u = []"
      with False show False by (simp only: rev.simps dropWhile.simps)
    qed
    have "hd (rev ?w) = last (rev ?u)"
      using False by (simp add: hd_rev last_dropWhile)
    also have "\<dots> = hd ?u" using \<open>?u \<noteq> []\<close> by (simp add: last_rev)
    finally have "\<not> is_js_space (hd (rev ?w))"
      using dropWhile_hd_not [of is_js_space s] \<open>?u \<noteq> []\<close> by simp
    then show ?thesis using False by (cases "rev ?w") auto
  next
    case True
    then show ?thesis by (simp only: rev.simps dropWhile.simps)
  qed
  moreover have "dropWhile is_js_space (rev (rev ?w)) = ?w"
    by simp
  ultimately show ?thesis by (simp add: js_trim_def)
qed

lemma insert_by_key_cmp: "insert_by (key_cmp k) x ys = insort_key k x ys"
  by (induction ys) (simp_all add: key_cmp_def)

text \<open>A comparator that subtracts keys sorts exactly as \<open>sort_key\<close> does.\<close>

lemma js_sort_key_cmp: "js_sort (key_cmp k) xs = sort_key k xs"
  by (induction xs) (simp_all add: insert_by_key_cmp)

lemma mset_js_sort_key [simp]: "mset (js_sort (key_cmp k) xs) = mset xs"
  by (simp add: js_sort_key_cmp)

lemma set_js_sort_key [simp]: "set (js_sort (key_cmp k) xs) = set xs"
  by (simp add: js_sort_key_cmp)

lemma length_js_sort_key [simp]: "length (js_sort (key_cmp k) xs) = length xs"
  by (simp add: js_sort_key_cmp)

lemma sorted_js_sort_key: "sorted (map k (js_sort (key_cmp k) xs))"
  by (simp add: js_sort_key_cmp)

lemma js_sort_key_stable:
  "filter (\<lambda>y. k y = v) (js_sort (key_cmp k) xs) = filter (\<lambda>y. k y = v) xs"
  by (simp add: js_sort_key_cmp sort_key_stable)

lemma js_sort_key_filter:
  "filter P (js_sort (key_cmp k) xs) = js_sort (key_cmp k) (filter P xs)"
  by (simp add: js_sort_key_cmp filter_sort)

lemma js_sort_key_sorted_id: "sorted (map k xs) \<Longrightarrow> js_sort (key_cmp k) xs = xs"
  by (simp add: js_sort_key_cmp sort_key_id_if_sorted)

lemmas js_sort_lemmas = js_sort_key_cmp sorted_js_sort_key js_sort_key_stable
  js_sort_key_filter js_sort_key_sorted_id

text \<open>
  \<open>sorted_wrt R xs\<close> says \<open>R (xs ! i) (xs ! j)\<close> for all \<open>i < j\<close>. The
  deduplicator keeps its accumulator in this shape; appending an element that
  is related to every earlier one keeps it.
\<close>

lemma sorted_wrt_snoc_iff:
  "sorted_wrt R (xs @ [x]) \<longleftrightarrow> sorted_wrt R xs \<and> (\<forall>y\<in>set xs. R y x)"
  by (simp add: sorted_wrt_append)

end
