(* ===== verification/Listing.thy ===== *)
theory Listing
  imports Prelude
begin

text \<open>
  The data model of \<^verbatim>\<open>src/web/src/types.ts\<close> and the field reconciler of
  \<^verbatim>\<open>fetchCars\<close> in \<^verbatim>\<open>src/web/src/App.tsx\<close>.
  The fields a stored document and a \<open>Car\<close> share are the record \<open>listing_fields\<close>;
  a \<open>Car\<close> (\<open>car\<close>) extends it by the document id, a stored document
  (\<open>raw_doc\<close>) by the \<open>id\<close> field the document data may itself carry and by the two
  legacy price fields \<open>import_price_czk\<close> and \<open>additional_costs\<close>. Numbers are
  \<open>js_num\<close> (absent or an integer), the Firestore timestamp is its \<open>seconds\<close>.
  The fields \<open>make\<close> and \<open>notes\<close> are \<open>car_make\<close> and \<open>car_notes\<close> here, since \<open>make\<close> names the record constructor and \<open>notes\<close> is a keyword.
\<close>

section \<open>Cost breakdown (\<^verbatim>\<open>CostBreakdown\<close>, \<^verbatim>\<open>CostBreakdownWarning\<close>)\<close>

datatype warning_type = Heat_pump_missing | High_mileage | Low_soh

record cb_warning =
  wtype :: warning_type
  wtext :: string

text \<open>EUR amounts are exact rationals: the breakdown's floating-point values are read as
  the decimals the analysis service writes.\<close>

record cost_breakdown =
  base_price_eur :: rat
  vat_adjustment_eur :: rat
  final_price_eur :: rat
  base_czk :: int
  logistics_czk :: int
  tires_czk :: int
  service_czk :: int
  total_czk :: int
  cb_warnings :: "cb_warning list"

section \<open>External links and listings (\<^verbatim>\<open>ExternalLink\<close>, \<^verbatim>\<open>Car\<close>)\<close>

datatype link_type = Video | Article | Forum | Other

record external_link =
  lurl :: string
  label :: string
  ltype :: link_type

record listing_fields =
  model :: "string option"
  car_make :: "string option"
  link :: "string option"
  url :: "string option"
  price_czk :: js_num
  real_price_czk :: js_num
  price_eur :: js_num
  mileage :: js_num
  year :: js_num
  location :: "string option"
  image :: "string option"
  timestamp :: "int option"
  expert_score :: js_num
  arbitrage_profit :: js_num
  soh :: js_num
  warnings :: "string list option"
  features :: "string list option"
  audit_verdict :: "string option"
  car_notes :: "string option"
  tags :: "string list option"
  external_links :: "external_link list option"
  cost_breakdown :: "cost_breakdown option"

record car = listing_fields +
  car_id :: string

record raw_doc = listing_fields +
  data_id :: "string option"
  import_price_czk :: js_num
  additional_costs :: js_num

type_synonym doc_id = string

section \<open>Field reconciler (\<^verbatim>\<open>fetchCars\<close>, the \<^verbatim>\<open>docs.map\<close> callback)\<close>

text \<open>
  \<^verbatim>\<open>data.import_price_czk + (data.additional_costs || 0)\<close>: with the import price absent
  the sum is \<open>NaN\<close>, which is falsy like an absent value, so it is \<open>None\<close> here.
\<close>

definition legacy_real_price :: "raw_doc \<Rightarrow> js_num" where
  "legacy_real_price d =
     (case import_price_czk d of None \<Rightarrow> None | Some a \<Rightarrow> Some (a + or0 (additional_costs d)))"

text \<open>
  \<^verbatim>\<open>{ id: doc.id, ...data, price_czk: ..., real_price_czk: ..., timestamp: data.timestamp }\<close>:
  the spread comes after \<open>id\<close>, so an \<open>id\<close> field in the data replaces the
  document id.
\<close>

definition reconcile :: "doc_id \<Rightarrow> raw_doc \<Rightarrow> car" where
  "reconcile i d =
     listing_fields.extend
       ((listing_fields.truncate d)
          \<lparr>price_czk := js_or (js_or (price_czk d) (import_price_czk d)) (Some 0),
           real_price_czk := js_or (js_or (real_price_czk d) (legacy_real_price d)) (Some 0),
           timestamp := timestamp d\<rparr>)
       (car.fields (case data_id d of None \<Rightarrow> i | Some j \<Rightarrow> j))"

definition reconcile_all :: "(doc_id \<times> raw_doc) list \<Rightarrow> car list" where
  "reconcile_all ds = map (\<lambda>(i, d). reconcile i d) ds"

text \<open>A reconciled listing has both CZK prices present.\<close>

definition reconciled :: "car \<Rightarrow> bool" where
  "reconciled c \<longleftrightarrow> price_czk c \<noteq> None \<and> real_price_czk c \<noteq> None"

text \<open>A stored document with no fields: the base of the concrete documents of the
  witnesses, which set the fields they need by record update.\<close>

definition empty_doc :: raw_doc where
  "empty_doc = \<lparr>model = None, car_make = None, link = None, url = None, price_czk = None,
     real_price_czk = None, price_eur = None, mileage = None, year = None, location = None,
     image = None, timestamp = None, expert_score = None, arbitrage_profit = None, soh = None,
     warnings = None, features = None, audit_verdict = None,
     car_notes = None, tags = None, external_links = None, cost_breakdown = None,
     data_id = None, import_price_czk = None, additional_costs = None\<rparr>"

section \<open>Characteristic equations of the reconciler\<close>

lemma reconcile_fields [simp]:
  "model (reconcile i d) = model d"
  "car_make (reconcile i d) = car_make d"
  "link (reconcile i d) = link d"
  "url (reconcile i d) = url d"
  "price_eur (reconcile i d) = price_eur d"
  "mileage (reconcile i d) = mileage d"
  "year (reconcile i d) = year d"
  "location (reconcile i d) = location d"
  "timestamp (reconcile i d) = timestamp d"
  "expert_score (reconcile i d) = expert_score d"
  "arbitrage_profit (reconcile i d) = arbitrage_profit d"
  "soh (reconcile i d) = soh d"
  "car_notes (reconcile i d) = car_notes d"
  "tags (reconcile i d) = tags d"
  "external_links (reconcile i d) = external_links d"
  "cost_breakdown (reconcile i d) = cost_breakdown d"
  by (simp_all add: reconcile_def listing_fields.defs car.defs)

lemma reconcile_car_id [simp]:
  "car_id (reconcile i d) = (case data_id d of None \<Rightarrow> i | Some j \<Rightarrow> j)"
  by (simp add: reconcile_def listing_fields.defs car.defs)

lemma reconcile_price_czk [simp]:
  "price_czk (reconcile i d) = js_or (js_or (price_czk d) (import_price_czk d)) (Some 0)"
  by (simp add: reconcile_def listing_fields.defs car.defs)

lemma reconcile_real_price_czk [simp]:
  "real_price_czk (reconcile i d) = js_or (js_or (real_price_czk d) (legacy_real_price d)) (Some 0)"
  by (simp add: reconcile_def listing_fields.defs car.defs)

lemma js_or_Some_not_None: "js_or a (Some n) \<noteq> None"
  by (cases a) simp_all

lemma js_or_js_or_Some_not_None: "js_or (js_or a b) (Some n) \<noteq> None"
  by (rule js_or_Some_not_None)

lemma length_reconcile_all [simp]: "length (reconcile_all ds) = length ds"
  by (simp add: reconcile_all_def)

lemma reconcile_all_Cons [simp]:
  "reconcile_all ((i, d) # ds) = reconcile i d # reconcile_all ds"
  "reconcile_all [] = []"
  by (simp_all add: reconcile_all_def)


section \<open>Properties of the reconciler\<close>

text \<open>The reconciler never fails and always produces both CZK prices: every
  listing read from the store is \<open>reconciled\<close>, whatever fields its document lacks.\<close>

theorem reconcile_reconciled: "reconciled (reconcile i d)"
  by (simp add: reconciled_def js_or_Some_not_None)

text \<open>C9. The price rule on every branch: \<open>price_czk\<close> is the stored price when it
  is truthy, else the legacy import price when that is truthy, else 0; the real price is
  the stored real price when truthy, else import price plus additional costs (absent
  additional costs counting as 0) when the import price is present and the sum is
  non-zero, else 0.\<close>

theorem reconcile_prices:
  "price_czk (reconcile i d) =
     Some (if truthy (price_czk d) then or0 (price_czk d)
           else if truthy (import_price_czk d) then or0 (import_price_czk d) else 0)
   \<and> real_price_czk (reconcile i d) =
     Some (if truthy (real_price_czk d) then or0 (real_price_czk d)
           else case import_price_czk d of
                  None \<Rightarrow> 0
                | Some a \<Rightarrow> a + or0 (additional_costs d))"
  by (cases "price_czk d"; cases "import_price_czk d"; cases "real_price_czk d";
      cases "additional_costs d") (simp_all add: legacy_real_price_def)

text \<open>Every field other than the id and the two CZK prices passes through the
  reconciler unchanged, so the reconciler commutes with an update of the user annotations
  notes, tags and external links that the detail view saves.\<close>

lemma reconcile_annotations_commute:
  "reconcile i (d\<lparr>car_notes := n, tags := t, external_links := l\<rparr>)
   = (reconcile i d)\<lparr>car_notes := n, tags := t, external_links := l\<rparr>"
proof -
  have "legacy_real_price (d\<lparr>car_notes := n, tags := t, external_links := l\<rparr>) = legacy_real_price d"
    by (simp add: legacy_real_price_def split: option.split)
  then show ?thesis
    by (simp add: reconcile_def listing_fields.defs car.defs)
qed

end
