(* ===== verification/Dedupe.thy ===== *)
theory Dedupe
  imports Listing
begin

text \<open>
  The normalizer and the deduplicator: the \<^verbatim>\<open>uniqueCars\<close> expression of
  \<^verbatim>\<open>src/web/src/App.tsx\<close> (lines 208--241). The listings are sorted newest first
  by the timestamp's seconds (\<open>time_desc_cmp\<close>, absent counting as 0), then folded
  (\<^verbatim>\<open>reduce\<close>, here \<open>foldl\<close>) into an accumulator: a listing is dropped when the
  accumulator already holds one with the same URL key, or, failing that, one with the
  same EUR price and mileage and a positive EUR price; otherwise it is appended.
  \<open>is_dup item current\<close> is the disjunction of the two tests the fold makes.
\<close>

section \<open>Normalizer (\<^verbatim>\<open>normalizeUrl\<close>)\<close>

definition normalize_url :: "string option \<Rightarrow> string" where
  "normalize_url u =
     (case u of None \<Rightarrow> [] | Some s \<Rightarrow> if s = [] then [] else to_lower (before_query s))"

text \<open>\<^verbatim>\<open>normalizeUrl(current.link) || normalizeUrl(current.url)\<close>\<close>

definition dedup_key :: "car \<Rightarrow> string" where
  "dedup_key c = (let k = normalize_url (link c) in if k \<noteq> [] then k else normalize_url (url c))"

section \<open>Deduplicator (\<^verbatim>\<open>uniqueCars\<close>)\<close>

text \<open>\<^verbatim>\<open>a.timestamp?.seconds || 0\<close>\<close>

definition ts_seconds :: "car \<Rightarrow> int" where
  "ts_seconds c = or0 (timestamp c)"

text \<open>\<^verbatim>\<open>(a, b) => timeB - timeA\<close>: newest first.\<close>

definition time_desc_cmp :: "car \<Rightarrow> car \<Rightarrow> int" where
  "time_desc_cmp a b = ts_seconds b - ts_seconds a"

text \<open>\<^verbatim>\<open>item.price_eur > 0\<close>: \<open>undefined > 0\<close> is false.\<close>

definition pos_price :: "js_num \<Rightarrow> bool" where
  "pos_price p = (case p of None \<Rightarrow> False | Some n \<Rightarrow> 0 < n)"

text \<open>
  One call of the \<^verbatim>\<open>reduce\<close> callback. Both searches are \<^verbatim>\<open>acc.find\<close>, and a
  found listing, an object, is truthy, so the accumulator is returned unchanged.
\<close>

definition dedupe_step :: "car list \<Rightarrow> car \<Rightarrow> car list" where
  "dedupe_step acc current =
     (let currentUrl = dedup_key current in
      if currentUrl \<noteq> [] \<and> find (\<lambda>item. dedup_key item = currentUrl) acc \<noteq> None then acc
      else if find (\<lambda>item. price_eur item = price_eur current \<and> mileage item = mileage current
                         \<and> pos_price (price_eur item)) acc \<noteq> None then acc
      else acc @ [current])"

definition unique_cars :: "car list \<Rightarrow> car list" where
  "unique_cars cars = foldl dedupe_step [] (js_sort time_desc_cmp cars)"

text \<open>The duplicate relation the two searches test, as one predicate.\<close>

definition is_dup :: "car \<Rightarrow> car \<Rightarrow> bool" where
  "is_dup item current \<longleftrightarrow>
     (dedup_key current \<noteq> [] \<and> dedup_key item = dedup_key current)
     \<or> (price_eur item = price_eur current \<and> mileage item = mileage current
        \<and> pos_price (price_eur item))"

text \<open>A listing the deduplicator cannot identify: no URL key and no positive EUR price.\<close>

definition unidentifiable :: "car \<Rightarrow> bool" where
  "unidentifiable c \<longleftrightarrow> dedup_key c = [] \<and> \<not> pos_price (price_eur c)"

section \<open>The fold, one step at a time\<close>

lemma find_not_None_iff: "find P xs \<noteq> None \<longleftrightarrow> (\<exists>x\<in>set xs. P x)"
  by (auto simp add: find_None_iff)

lemma dedupe_step_is_dup:
  "dedupe_step acc x = (if \<exists>y\<in>set acc. is_dup y x then acc else acc @ [x])"
  by (auto simp add: dedupe_step_def is_dup_def find_None_iff Let_def)

lemma dedupe_step_drop: "\<exists>y\<in>set acc. is_dup y x \<Longrightarrow> dedupe_step acc x = acc"
  by (simp add: dedupe_step_is_dup)

lemma dedupe_step_keep: "\<not> (\<exists>y\<in>set acc. is_dup y x) \<Longrightarrow> dedupe_step acc x = acc @ [x]"
  by (simp add: dedupe_step_is_dup)

lemmas dedupe_step_cases = dedupe_step_drop dedupe_step_keep

lemma set_dedupe_step: "set (dedupe_step acc x) \<subseteq> insert x (set acc)"
  by (auto simp add: dedupe_step_is_dup)

lemma is_dup_sym: "is_dup a b \<longleftrightarrow> is_dup b a"
  by (auto simp add: is_dup_def)

lemma time_desc_cmp_key: "time_desc_cmp = key_cmp (\<lambda>c. - ts_seconds c)"
  by (simp add: fun_eq_iff time_desc_cmp_def key_cmp_def)

lemma sorted_by_time: "sorted (map (\<lambda>c. - ts_seconds c) (js_sort time_desc_cmp cs))"
  by (simp add: time_desc_cmp_key sorted_js_sort_key)

lemma set_sort_by_time [simp]: "set (js_sort time_desc_cmp cs) = set cs"
  by (simp add: time_desc_cmp_key)

lemma unidentifiable_no_dup: "unidentifiable x \<Longrightarrow> \<not> is_dup y x"
  by (auto simp add: unidentifiable_def is_dup_def)

lemma sorted_wrt_subseq: "subseq xs ys \<Longrightarrow> sorted_wrt R ys \<Longrightarrow> sorted_wrt R xs"
  by (induction rule: list_emb.induct) (auto dest: list_emb_set)

text \<open>The accumulator only grows at its end.\<close>

lemma dedupe_fold_prefix: "prefix acc (foldl dedupe_step acc xs)"
proof (induction xs arbitrary: acc)
  case Nil
  then show ?case by simp
next
  case (Cons x xs)
  have "prefix acc (dedupe_step acc x)"
    by (simp add: dedupe_step_is_dup)
  then show ?case
    using Cons.IH [of "dedupe_step acc x"] by (simp add: prefix_order.trans)
qed

lemma unique_cars_Nil_iff: "unique_cars cs = [] \<longleftrightarrow> cs = []"
proof
  assume e: "unique_cars cs = []"
  show "cs = []"
  proof (rule ccontr)
    assume "cs \<noteq> []"
    then obtain y ys where s: "js_sort time_desc_cmp cs = y # ys"
      by (metis length_0_conv length_js_sort_key time_desc_cmp_key neq_Nil_conv)
    have "prefix [y] (foldl dedupe_step (dedupe_step [] y) ys)"
      using dedupe_fold_prefix [of "dedupe_step [] y" ys] by (simp add: dedupe_step_is_dup)
    with e s show False by (simp add: unique_cars_def)
  qed
qed (simp add: unique_cars_def)

lemma dedupe_fold_subseq: "subseq (foldl dedupe_step acc xs) (acc @ xs)"
proof (induction xs arbitrary: acc)
  case Nil
  then show ?case by simp
next
  case (Cons x xs)
  show ?case
  proof (cases "\<exists>y\<in>set acc. is_dup y x")
    case True
    then have "subseq (foldl dedupe_step acc (x # xs)) (acc @ xs)"
      using Cons.IH [of acc] by (simp add: dedupe_step_cases)
    moreover have "subseq (acc @ xs) (acc @ x # xs)"
      using subseq_drop_many [of xs xs "[x]"] by (simp add: subseq_append')
    ultimately show ?thesis by (rule subseq_order.trans)
  next
    case False
    then show ?thesis
      using Cons.IH [of "acc @ [x]"] by (simp add: dedupe_step_cases)
  qed
qed

text \<open>No kept listing is a duplicate of an earlier kept one.\<close>

lemma dedupe_fold_no_dup:
  "sorted_wrt (\<lambda>a b. \<not> is_dup a b) acc
   \<Longrightarrow> sorted_wrt (\<lambda>a b. \<not> is_dup a b) (foldl dedupe_step acc xs)"
proof (induction xs arbitrary: acc)
  case Nil
  then show ?case by simp
next
  case (Cons x xs)
  have "sorted_wrt (\<lambda>a b. \<not> is_dup a b) (dedupe_step acc x)"
    using Cons.prems by (simp add: dedupe_step_is_dup sorted_wrt_snoc_iff)
  then show ?case using Cons.IH by simp
qed

text \<open>On an input with no duplicates the fold keeps everything.\<close>

lemma dedupe_fold_id:
  "sorted_wrt (\<lambda>a b. \<not> is_dup a b) (acc @ xs) \<Longrightarrow> foldl dedupe_step acc xs = acc @ xs"
proof (induction xs arbitrary: acc)
  case Nil
  then show ?case by simp
next
  case (Cons x xs)
  from Cons.prems have "\<not> (\<exists>y\<in>set acc. is_dup y x)"
    by (simp add: sorted_wrt_append)
  then have "dedupe_step acc x = acc @ [x]"
    by (simp add: dedupe_step_cases)
  with Cons.prems Cons.IH [of "acc @ [x]"] show ?case by simp
qed

text \<open>Listings the deduplicator cannot identify pass the fold untouched.\<close>

lemma dedupe_fold_unidentifiable:
  "filter unidentifiable (foldl dedupe_step acc xs) = filter unidentifiable (acc @ xs)"
proof (induction xs arbitrary: acc)
  case Nil
  then show ?case by simp
next
  case (Cons x xs)
  have "filter unidentifiable (dedupe_step acc x) = filter unidentifiable (acc @ [x])"
    by (auto simp add: dedupe_step_is_dup dest: unidentifiable_no_dup)
  then show ?case
    using Cons.IH [of "dedupe_step acc x"] by simp
qed

text \<open>
  Every listing of a newest-first input is kept or has a kept duplicate at least as
  recent, provided the accumulator holds only listings at least as recent as the input.
\<close>

lemma dedupe_fold_covers:
  assumes "sorted (map (\<lambda>c. - ts_seconds c) xs)"
    and "\<forall>a\<in>set acc. \<forall>b\<in>set xs. ts_seconds b \<le> ts_seconds a"
    and "x \<in> set xs"
  shows "x \<in> set (foldl dedupe_step acc xs)
         \<or> (\<exists>y\<in>set (foldl dedupe_step acc xs). is_dup y x \<and> ts_seconds x \<le> ts_seconds y)"
  using assms
proof (induction xs arbitrary: acc)
  case Nil
  then show ?case by simp
next
  case (Cons z xs)
  let ?acc' = "dedupe_step acc z"
  let ?res = "foldl dedupe_step ?acc' xs"
  have sub: "set ?acc' \<subseteq> set ?res"
    using dedupe_fold_prefix [of ?acc' xs] by (auto dest: set_mono_prefix)
  show ?case
  proof (cases "x = z")
    case True
    show ?thesis
    proof (cases "\<exists>y\<in>set acc. is_dup y z")
      case True
      then obtain y where y: "y \<in> set acc" "is_dup y z" by blast
      have "dedupe_step acc z = acc"
        using True by (rule dedupe_step_drop)
      with y sub have "y \<in> set ?res" by auto
      moreover have "ts_seconds z \<le> ts_seconds y"
        using Cons.prems(2) y(1) by simp
      ultimately show ?thesis using y(2) \<open>x = z\<close> by auto
    next
      case False
      with \<open>x = z\<close> sub show ?thesis by (auto simp add: dedupe_step_cases)
    qed
  next
    case False
    with Cons.prems(3) have "x \<in> set xs" by simp
    moreover have "\<forall>a\<in>set ?acc'. \<forall>b\<in>set xs. ts_seconds b \<le> ts_seconds a"
      using Cons.prems(1,2) set_dedupe_step [of acc z] by fastforce
    moreover have "sorted (map (\<lambda>c. - ts_seconds c) xs)"
      using Cons.prems(1) by simp
    ultimately show ?thesis using Cons.IH by simp
  qed
qed


lemma subseq_sorted_map: "subseq xs ys \<Longrightarrow> sorted (map f ys) \<Longrightarrow> sorted (map f xs)"
  by (simp add: sorted_wrt_map sorted_wrt_subseq)

section \<open>Properties of the deduplicator\<close>

text \<open>C2. No two listings that \<open>uniqueCars\<close> keeps are duplicates of each other: for
  every earlier kept listing \<open>a\<close> and later kept listing \<open>b\<close>, neither the URL test nor
  the price-and-mileage test of the fold matches.\<close>

theorem unique_cars_no_duplicates: "sorted_wrt (\<lambda>a b. \<not> is_dup a b) (unique_cars cs)"
  unfolding unique_cars_def by (rule dedupe_fold_no_dup) simp

text \<open>C6. \<open>uniqueCars\<close> is an order-preserving selection of the listings sorted newest
  first: it is a subsequence of the stable sort by descending timestamp seconds, and so
  is itself ordered newest first.\<close>

theorem unique_cars_newest_first_subseq:
  "subseq (unique_cars cs) (js_sort time_desc_cmp cs)
   \<and> sorted (map (\<lambda>c. - ts_seconds c) (unique_cars cs))"
proof -
  have "subseq (unique_cars cs) (js_sort time_desc_cmp cs)"
    using dedupe_fold_subseq [of "[]"] by (simp add: unique_cars_def)
  moreover have "sorted (map (\<lambda>c. - ts_seconds c) (js_sort time_desc_cmp cs))"
    by (rule sorted_by_time)
  ultimately show ?thesis by (blast intro: subseq_sorted_map)
qed

text \<open>C3. Recency preference and coverage: every input listing is either kept or has
  a kept duplicate whose timestamp is at least its own, so a dropped listing is always
  represented by a listing at least as recent.\<close>

theorem unique_cars_covers:
  "\<forall>x\<in>set cs. x \<in> set (unique_cars cs)
     \<or> (\<exists>y\<in>set (unique_cars cs). is_dup y x \<and> ts_seconds x \<le> ts_seconds y)"
proof
  fix x assume "x \<in> set cs"
  then have "x \<in> set (js_sort time_desc_cmp cs)" by simp
  with sorted_by_time [of cs] show "x \<in> set (unique_cars cs)
     \<or> (\<exists>y\<in>set (unique_cars cs). is_dup y x \<and> ts_seconds x \<le> ts_seconds y)"
    unfolding unique_cars_def by (intro dedupe_fold_covers) simp_all
qed

text \<open>C1. Idempotence: deduplicating the deduplicated list changes nothing.\<close>

theorem unique_cars_idempotent: "unique_cars (unique_cars cs) = unique_cars cs"
proof -
  let ?u = "unique_cars cs"
  have "subseq ?u (js_sort time_desc_cmp cs)"
    using dedupe_fold_subseq [of "[]"] by (simp add: unique_cars_def)
  then have "sorted (map (\<lambda>c. - ts_seconds c) ?u)"
    using sorted_by_time by (rule subseq_sorted_map)
  then have sorted_id: "js_sort time_desc_cmp ?u = ?u"
    by (simp add: time_desc_cmp_key js_sort_key_sorted_id)
  have "sorted_wrt (\<lambda>a b. \<not> is_dup a b) ?u"
    unfolding unique_cars_def by (rule dedupe_fold_no_dup) simp
  then have "foldl dedupe_step [] ?u = ?u"
    using dedupe_fold_id [of "[]"] by simp
  with sorted_id show ?thesis by (simp add: unique_cars_def [of ?u])
qed

text \<open>Listings with neither a URL key nor a positive EUR price are never removed:
  the unidentifiable listings of the output are exactly those of the sorted input, in
  the same order and with the same multiplicity.\<close>

theorem unique_cars_keeps_unidentifiable:
  "filter unidentifiable (unique_cars cs) = filter unidentifiable (js_sort time_desc_cmp cs)"
  using dedupe_fold_unidentifiable [of "[]"] by (simp add: unique_cars_def)

text \<open>C4. URL priority with recency: of two listings with the same non-empty URL key,
  exactly one survives, the newer one (the first of the two on a tie, as the sort is
  stable).\<close>

theorem unique_cars_same_url:
  assumes "dedup_key a = dedup_key b" and "dedup_key a \<noteq> []"
  shows "unique_cars [a, b] = (if ts_seconds b \<le> ts_seconds a then [a] else [b])"
  using assms
  by (simp add: unique_cars_def time_desc_cmp_def dedupe_step_is_dup is_dup_def)

text \<open>C5. Price-and-mileage fallback: two listings with no URL key and equal EUR price
  and mileage collapse to one exactly when that EUR price is positive; with a zero or
  absent EUR price both are kept.\<close>

theorem unique_cars_price_fallback:
  assumes "dedup_key a = []" and "dedup_key b = []"
    and "price_eur a = price_eur b" and "mileage a = mileage b"
  shows "length (unique_cars [a, b]) = (if pos_price (price_eur a) then 1 else 2)"
  using assms
  by (simp add: unique_cars_def time_desc_cmp_def dedupe_step_is_dup is_dup_def)

text \<open>The duplicate relation is not transitive, so a group of listings sharing one
  URL can vanish entirely: here two listings with the URL key \<open>''v''\<close> are each
  dropped as a price-and-mileage duplicate of a newer listing with another URL.\<close>

theorem unique_cars_url_group_vanishes:
  "let D = reconcile ''D'' (empty_doc\<lparr>link := Some ''w'', price_eur := Some 20000,
             mileage := Some 20, timestamp := Some 4\<rparr>);
       A = reconcile ''A'' (empty_doc\<lparr>link := Some ''u'', price_eur := Some 10000,
             mileage := Some 10, timestamp := Some 3\<rparr>);
       B = reconcile ''B'' (empty_doc\<lparr>link := Some ''v'', price_eur := Some 10000,
             mileage := Some 10, timestamp := Some 2\<rparr>);
       C = reconcile ''C'' (empty_doc\<lparr>url := Some ''v'', price_eur := Some 20000,
             mileage := Some 20, timestamp := Some 1\<rparr>)
   in dedup_key B = dedup_key C \<and> dedup_key B \<noteq> []
      \<and> unique_cars [A, B, C, D] = [D, A]"
  by code_simp

section \<open>Witnesses\<close>

theorem unique_cars_covers_witness:
  "let A = reconcile ''A'' (empty_doc\<lparr>link := Some ''https://mobile.de/ad/7?x=1'',
             timestamp := Some 100, price_czk := Some 500000\<rparr>);
       B = reconcile ''B'' (empty_doc\<lparr>link := Some ''https://MOBILE.de/ad/7'',
             timestamp := Some 200, price_czk := Some 520000\<rparr>)
   in (\<forall>x\<in>set [A, B]. x \<in> set (unique_cars [A, B])
        \<or> (\<exists>y\<in>set (unique_cars [A, B]). is_dup y x \<and> ts_seconds x \<le> ts_seconds y))
      \<and> unique_cars [A, B] = [B]"
proof -
  have "unique_cars [reconcile ''A'' (empty_doc\<lparr>link := Some ''https://mobile.de/ad/7?x=1'',
             timestamp := Some 100, price_czk := Some 500000\<rparr>),
         reconcile ''B'' (empty_doc\<lparr>link := Some ''https://MOBILE.de/ad/7'',
             timestamp := Some 200, price_czk := Some 520000\<rparr>)]
        = [reconcile ''B'' (empty_doc\<lparr>link := Some ''https://MOBILE.de/ad/7'',
             timestamp := Some 200, price_czk := Some 520000\<rparr>)]"
    by code_simp
  then show ?thesis using unique_cars_covers by (simp add: Let_def)
qed

theorem unique_cars_same_url_witness:
  "let A = reconcile ''A'' (empty_doc\<lparr>link := Some ''https://mobile.de/ad/7?x=1'',
             timestamp := Some 100, price_czk := Some 500000\<rparr>);
       B = reconcile ''B'' (empty_doc\<lparr>link := Some ''https://MOBILE.de/ad/7'',
             timestamp := Some 200, price_czk := Some 520000\<rparr>)
   in dedup_key A = dedup_key B \<and> dedup_key A \<noteq> [] \<and> unique_cars [A, B] = [B]"
proof -
  let ?A = "reconcile ''A'' (empty_doc\<lparr>link := Some ''https://mobile.de/ad/7?x=1'',
             timestamp := Some 100, price_czk := Some 500000\<rparr>)"
  let ?B = "reconcile ''B'' (empty_doc\<lparr>link := Some ''https://MOBILE.de/ad/7'',
             timestamp := Some 200, price_czk := Some 520000\<rparr>)"
  have k: "dedup_key ?A = dedup_key ?B" by code_simp
  have n: "dedup_key ?A \<noteq> []" by code_simp
  have t: "\<not> ts_seconds ?B \<le> ts_seconds ?A" by code_simp
  show ?thesis using unique_cars_same_url [OF k n] k n t by (simp add: Let_def)
qed

theorem unique_cars_price_fallback_witness:
  "let A = reconcile ''A'' (empty_doc\<lparr>price_eur := Some 31000, mileage := Some 42000,
             timestamp := Some 5\<rparr>);
       B = reconcile ''B'' (empty_doc\<lparr>price_eur := Some 31000, mileage := Some 42000,
             timestamp := Some 9\<rparr>);
       Z1 = reconcile ''Z1'' (empty_doc\<lparr>price_eur := Some 0, mileage := Some 42000\<rparr>);
       Z2 = reconcile ''Z2'' (empty_doc\<lparr>price_eur := Some 0, mileage := Some 42000\<rparr>)
   in length (unique_cars [A, B]) = 1 \<and> length (unique_cars [Z1, Z2]) = 2"
proof -
  let ?A = "reconcile ''A'' (empty_doc\<lparr>price_eur := Some 31000, mileage := Some 42000,
             timestamp := Some 5\<rparr>)"
  let ?B = "reconcile ''B'' (empty_doc\<lparr>price_eur := Some 31000, mileage := Some 42000,
             timestamp := Some 9\<rparr>)"
  let ?Z1 = "reconcile ''Z1'' (empty_doc\<lparr>price_eur := Some 0, mileage := Some 42000\<rparr>)"
  let ?Z2 = "reconcile ''Z2'' (empty_doc\<lparr>price_eur := Some 0, mileage := Some 42000\<rparr>)"
  have ka: "dedup_key ?A = []" and kb: "dedup_key ?B = []" by code_simp+
  have kz1: "dedup_key ?Z1 = []" and kz2: "dedup_key ?Z2 = []" by code_simp+
  have p: "price_eur ?A = price_eur ?B" "mileage ?A = mileage ?B"
    and pz: "price_eur ?Z1 = price_eur ?Z2" "mileage ?Z1 = mileage ?Z2"
    by (simp_all add: empty_doc_def)
  have pos: "pos_price (price_eur ?A)" and npos: "\<not> pos_price (price_eur ?Z1)"
    by (simp_all add: empty_doc_def pos_price_def)
  show ?thesis
    using unique_cars_price_fallback [OF ka kb p] unique_cars_price_fallback [OF kz1 kz2 pz]
      pos npos by (simp add: Let_def)
qed

end
