(* ===== verification/Selection.thy ===== *)
theory Selection
  imports Dedupe
begin

text \<open>
  The filter and sort engine: the \<^verbatim>\<open>processedCars\<close> expression of
  \<^verbatim>\<open>src/web/src/App.tsx\<close> (lines 243--270) over the deduplicated listings, with the
  sort option of the \<^verbatim>\<open>sortOption\<close> state (line 28). The filter keeps a listing
  when the lower-cased filter text occurs in its lower-cased model, make, location or
  notes, or in one of its tags; an empty filter keeps everything. The sort is the
  stable \<open>js_sort\<close> of the prelude with the comparator of the chosen option; each
  comparator subtracts two numeric keys (absent numbers counting as 0), so it sorts as
  \<open>sort_key\<close> with the key \<open>sort_key_of\<close>.
\<close>

section \<open>Definitions\<close>

datatype sort_option = Date_desc | Price_asc | Price_desc | Mileage_asc | Score_desc

text \<open>\<^verbatim>\<open>car.model?.toLowerCase().includes(searchLower)\<close>: an absent field never matches.\<close>

definition field_includes :: "string option \<Rightarrow> string \<Rightarrow> bool" where
  "field_includes fld s = (case fld of None \<Rightarrow> False | Some v \<Rightarrow> js_includes (to_lower v) s)"

definition matches_filter :: "string \<Rightarrow> car \<Rightarrow> bool" where
  "matches_filter filterText c =
     (if filterText = [] then True
      else let searchLower = to_lower filterText in
        field_includes (model c) searchLower
        \<or> field_includes (car_make c) searchLower
        \<or> field_includes (location c) searchLower
        \<or> field_includes (car_notes c) searchLower
        \<or> (case tags c of None \<Rightarrow> False
           | Some ts \<Rightarrow> list_ex (\<lambda>tag. js_includes (to_lower tag) searchLower) ts))"

text \<open>The comparator of the \<^verbatim>\<open>switch (sortOption)\<close>, one branch per option.\<close>

fun sort_cmp :: "sort_option \<Rightarrow> car \<Rightarrow> car \<Rightarrow> int" where
  "sort_cmp Price_asc a b = or0 (price_czk a) - or0 (price_czk b)"
| "sort_cmp Price_desc a b = or0 (price_czk b) - or0 (price_czk a)"
| "sort_cmp Mileage_asc a b = or0 (mileage a) - or0 (mileage b)"
| "sort_cmp Score_desc a b = or0 (expert_score b) - or0 (expert_score a)"
| "sort_cmp Date_desc a b = ts_seconds b - ts_seconds a"

definition processed_cars :: "string \<Rightarrow> sort_option \<Rightarrow> car list \<Rightarrow> car list" where
  "processed_cars filterText opt cars =
     js_sort (sort_cmp opt) (filter (matches_filter filterText) cars)"

text \<open>The abstract order each option promises: ascending in this key.\<close>

fun sort_key_of :: "sort_option \<Rightarrow> car \<Rightarrow> int" where
  "sort_key_of Price_asc c = or0 (price_czk c)"
| "sort_key_of Price_desc c = - or0 (price_czk c)"
| "sort_key_of Mileage_asc c = or0 (mileage c)"
| "sort_key_of Score_desc c = - or0 (expert_score c)"
| "sort_key_of Date_desc c = - ts_seconds c"

text \<open>The texts the filter searches, in the order the code tries them.\<close>

definition searchable_fields :: "car \<Rightarrow> string list" where
  "searchable_fields c =
     List.map_filter id [model c, car_make c, location c, car_notes c]
     @ (case tags c of None \<Rightarrow> [] | Some ts \<Rightarrow> ts)"

section \<open>Lemmas\<close>

lemma sort_cmp_key: "sort_cmp opt = key_cmp (sort_key_of opt)"
  by (cases opt) (simp_all add: fun_eq_iff key_cmp_def)

lemma processed_cars_sort_key:
  "processed_cars f opt cs = sort_key (sort_key_of opt) (filter (matches_filter f) cs)"
  by (simp add: processed_cars_def sort_cmp_key js_sort_key_cmp)


lemma field_includes_sublist:
  "field_includes fld s \<longleftrightarrow> (\<exists>v. fld = Some v \<and> sublist s (to_lower v))"
  by (cases fld) (simp_all add: field_includes_def js_includes_iff_sublist)

lemma map_filter_id_Cons:
  "List.map_filter id (x # xs) = (case x of None \<Rightarrow> List.map_filter id xs | Some v \<Rightarrow> v # List.map_filter id xs)"
  by (cases x) (simp_all add: List.map_filter_def)

lemma list_ex_includes: "list_ex (\<lambda>t. js_includes (to_lower t) s) ts \<longleftrightarrow> (\<exists>t\<in>set ts. sublist s (to_lower t))"
  by (simp add: list_ex_iff js_includes_iff_sublist)

section \<open>Properties of the filter and sort engine\<close>

text \<open>Filtering and sorting commute: sorting the filtered listings gives the same
  list as filtering the sorted listings, for every filter text and sort option.\<close>

theorem filter_sort_commute:
  "js_sort (sort_cmp opt) (filter (matches_filter f) cs)
   = filter (matches_filter f) (js_sort (sort_cmp opt) cs)"
  by (simp add: sort_cmp_key js_sort_key_filter)

text \<open>C7. Refinement of the sort contract: the processed list is exactly the list that
  (1) is a permutation of the listings the filter keeps, (2) keeps listings with equal
  sort keys in their input order (stability), and (3) is ascending in the option's key;
  no other list has these three properties.\<close>

theorem processed_cars_iff_stable_sorted:
  "processed_cars f opt cs = ys \<longleftrightarrow>
     mset ys = mset (filter (matches_filter f) cs)
     \<and> (\<forall>k. filter (\<lambda>c. sort_key_of opt c = k) ys
            = filter (\<lambda>c. sort_key_of opt c = k) (filter (matches_filter f) cs))
     \<and> sorted (map (sort_key_of opt) ys)"
proof
  assume "processed_cars f opt cs = ys"
  then show "mset ys = mset (filter (matches_filter f) cs)
     \<and> (\<forall>k. filter (\<lambda>c. sort_key_of opt c = k) ys
            = filter (\<lambda>c. sort_key_of opt c = k) (filter (matches_filter f) cs))
     \<and> sorted (map (sort_key_of opt) ys)"
    by (auto simp add: processed_cars_sort_key sort_key_stable)
next
  assume a: "mset ys = mset (filter (matches_filter f) cs)
     \<and> (\<forall>k. filter (\<lambda>c. sort_key_of opt c = k) ys
            = filter (\<lambda>c. sort_key_of opt c = k) (filter (matches_filter f) cs))
     \<and> sorted (map (sort_key_of opt) ys)"
  have "sort_key (sort_key_of opt) (filter (matches_filter f) cs) = ys"
  proof (rule properties_for_sort_key)
    fix k
    from a have "filter (\<lambda>c. sort_key_of opt c = sort_key_of opt k) ys
      = filter (\<lambda>c. sort_key_of opt c = sort_key_of opt k) (filter (matches_filter f) cs)"
      by blast
    then show "filter (\<lambda>x. sort_key_of opt k = sort_key_of opt x) ys
      = filter (\<lambda>x. sort_key_of opt k = sort_key_of opt x) (filter (matches_filter f) cs)"
      by (simp add: eq_commute [of "sort_key_of opt k"])
  qed (use a in simp_all)
  then show "processed_cars f opt cs = ys"
    by (simp add: processed_cars_sort_key)
qed

text \<open>C8. The filter is a case-insensitive substring search: a listing matches a
  non-empty filter text exactly when the lower-cased text occurs in the lower-cased value
  of one of its present fields model, make, location, notes, or of one of its tags.\<close>

theorem matches_filter_iff_substring:
  "matches_filter f c \<longleftrightarrow>
     f = [] \<or> (\<exists>v\<in>set (searchable_fields c). sublist (to_lower f) (to_lower v))"
  by (cases "model c"; cases "car_make c"; cases "location c"; cases "car_notes c";
      cases "tags c")
     (auto simp add: matches_filter_def searchable_fields_def map_filter_id_Cons
        field_includes_sublist list_ex_includes Let_def List.map_filter_def)

text \<open>The example of the specification: a listing whose model is \<open>Model Y\<close>
  matches the filter texts \<open>model y\<close> and \<open>MODEL\<close>, and a listing without model,
  make, location, notes or tags matches no non-empty filter text.\<close>

theorem matches_filter_model_y:
  "let c = reconcile ''1'' (empty_doc\<lparr>model := Some ''Model Y''\<rparr>)
   in matches_filter ''model y'' c \<and> matches_filter ''MODEL'' c
      \<and> \<not> matches_filter ''tesla'' c
      \<and> \<not> matches_filter ''x'' (reconcile ''2'' empty_doc)"
  by code_simp

section \<open>Witnesses\<close>

text \<open>The stability example of the specification: listings 1 and 2 with score 50
  and listing 3 with score 90, sorted by descending expert score, come out as 3, 1, 2.\<close>

theorem score_desc_stable_example:
  "let c1 = reconcile ''1'' (empty_doc\<lparr>expert_score := Some 50\<rparr>);
       c2 = reconcile ''2'' (empty_doc\<lparr>expert_score := Some 50\<rparr>);
       c3 = reconcile ''3'' (empty_doc\<lparr>expert_score := Some 90\<rparr>)
   in processed_cars [] Score_desc [c1, c2, c3] = [c3, c1, c2]
      \<and> sorted (map (sort_key_of Score_desc) [c3, c1, c2])"
proof -
  let ?c1 = "reconcile ''1'' (empty_doc\<lparr>expert_score := Some 50\<rparr>)"
  let ?c2 = "reconcile ''2'' (empty_doc\<lparr>expert_score := Some 50\<rparr>)"
  let ?c3 = "reconcile ''3'' (empty_doc\<lparr>expert_score := Some 90\<rparr>)"
  have p: "processed_cars [] Score_desc [?c1, ?c2, ?c3] = [?c3, ?c1, ?c2]"
    by code_simp
  then show ?thesis
    using processed_cars_iff_stable_sorted [of "[]" Score_desc "[?c1, ?c2, ?c3]" "[?c3, ?c1, ?c2]"]
    by (simp add: Let_def)
qed

end
