(* ===== verification/StaticData.thy ===== *)
theory StaticData
  imports Prelude
begin

text \<open>
  The record types of the static catalogue data: the interfaces of
  \<^verbatim>\<open>src/web/src/data/cars_static.ts\<close> (\<^verbatim>\<open>Review\<close>, \<^verbatim>\<open>Bank\<close>,
  \<^verbatim>\<open>Insurance\<close>, \<^verbatim>\<open>CarStaticData\<close>) and of
  \<^verbatim>\<open>src/web/src/data/brandLogos.ts\<close> (\<^verbatim>\<open>BrandModel\<close>, \<^verbatim>\<open>BrandInfo\<close>).
  The data tables themselves (\<^verbatim>\<open>CARS_DATA\<close>, \<^verbatim>\<open>BRAND_CATALOG\<close>) are constants
  of these types and are not transcribed; the catalogue's operations are stated for any
  table. A brand's logo is an SVG component; here it is the component's name. Interest
  rates are exact rationals.
\<close>

record review =
  rv_title :: string
  rv_url :: string
  rv_thumbnail :: string
  rv_channel :: string

record bank =
  bank_name :: string
  rate :: rat
  bank_link :: string
  term_years :: nat

record insurance =
  provider :: string
  ins_link :: string
  ins_description :: string

record bazaar_links =
  mobile_de :: string
  autoscout :: string
  carvago :: string
  sauto :: string

record car_static =
  cs_id :: string
  cs_make :: string
  cs_model :: string
  variant :: string
  price_from :: int
  range_wltp :: int
  battery :: int
  charging :: int
  cs_image :: string
  bazaar_links :: bazaar_links
  youtube_reviews :: "review list"
  financing :: "bank list"
  cs_insurance :: "insurance list"

record brand_model =
  bm_name :: string
  badge :: "string option"

datatype segment = Mainstream | Premium | Budget

record brand_info =
  bi_make :: string
  display_name :: string
  text_logo :: string
  logo_component :: string
  accent_color :: string
  bi_description :: string
  bi_segment :: segment
  bi_models :: "brand_model list"

end
