(* ===== verification/Garage.thy ===== *)
theory Garage
  imports Selection StaticData
begin

text \<open>
  The garage controller: the state of the \<^verbatim>\<open>App\<close> component of
  \<^verbatim>\<open>src/web/src/App.tsx\<close> (lines 18--36) and its handlers \<^verbatim>\<open>fetchCars\<close>,
  \<^verbatim>\<open>handleDeleteCar\<close>, \<^verbatim>\<open>handleClearGarage\<close>, \<^verbatim>\<open>handleAnalyze\<close>, the mount
  effect and \<^verbatim>\<open>handleUpdateCar\<close> (lines 38--206), over an explicit Firestore
  collection. The whole system is a record \<open>garage\<close>: the stored documents, the UI
  state, the fetches whose \<^verbatim>\<open>getDocs\<close> has been issued but whose result has not yet
  been applied (\<open>in_flight\<close>, each holding the result it will deliver), and the pending
  \<^verbatim>\<open>setTimeout\<close> callbacks (\<open>timers\<close>). Each handler is one step; what the
  environment decides (the user's \<^verbatim>\<open>confirm\<close>, whether a Firestore call or the HTTP
  request succeeds, which pending callback or response comes next) is a parameter of the
  step's event. Firestore semantics used: \<^verbatim>\<open>orderBy("timestamp", "desc")\<close> returns
  only documents that have the field, newest first; \<^verbatim>\<open>deleteDoc\<close> of a missing
  document succeeds; \<^verbatim>\<open>updateDoc\<close> of a missing document fails.
\<close>

section \<open>State\<close>

datatype main_tab = Catalog_tab | Garage_tab
datatype view_mode = Grid_mode | Table_mode
datatype input_mode = Url_mode | Text_mode
datatype notif_kind = Success | Failure

text \<open>The notification texts, one constructor per message of the code.\<close>

datatype message =
  Msg_deleted | Msg_delete_error | Msg_cleared | Msg_clear_error
| Msg_analyze_ok string string | Msg_analyze_error string | Msg_connect_error
| Msg_saved | Msg_save_error

record app_state =
  cars :: "car list"
  loading :: bool
  selected_car :: "car option"
  selected_catalog_car :: "car_static option"
  main_tab :: main_tab
  view_mode :: view_mode
  filter_text :: string
  sort_opt :: sort_option
  input_mode :: input_mode
  url_input :: string
  text_input :: string
  api_key :: string
  analyzing :: bool
  notification :: "(notif_kind \<times> message) option"

definition app_init :: app_state where
  "app_init = \<lparr>cars = [], loading = True, selected_car = None, selected_catalog_car = None,
     main_tab = Catalog_tab, view_mode = Grid_mode, filter_text = [], sort_opt = Date_desc,
     input_mode = Url_mode, url_input = [], text_input = [], api_key = [], analyzing = False,
     notification = None\<rparr>"

type_synonym store = "(doc_id \<times> raw_doc) list"

datatype fetch_result = Fetched store | Fetch_failed

datatype endpoint = Analyze_url | Analyze_text

datatype request_body = Url_body string "string option" | Text_body string "string option"

datatype timer = Clear_notification | Refetch | Analyze_import string

record garage =
  store :: store
  app :: app_state
  in_flight :: "fetch_result list"
  timers :: "timer list"

text \<open>The annotation fields \<^verbatim>\<open>handleSave\<close> of the detail modal passes to
  \<^verbatim>\<open>onUpdate\<close>: notes, tags and external links, all three at once.\<close>

record car_patch =
  p_notes :: string
  p_tags :: "string list"
  p_links :: "external_link list"

datatype analyze_outcome = Resp_ok string string | Resp_error string | Network_error


section \<open>Firestore calls\<close>

text \<open>\<^verbatim>\<open>getDocs(query(collection(db, ...), orderBy("timestamp", "desc")))\<close>: the
  documents with a timestamp, newest first.\<close>

definition doc_seconds :: "doc_id \<times> raw_doc \<Rightarrow> int" where
  "doc_seconds e = or0 (timestamp (snd e))"

definition query_by_timestamp :: "store \<Rightarrow> store" where
  "query_by_timestamp st =
     js_sort (\<lambda>a b. doc_seconds b - doc_seconds a) (filter (\<lambda>e. timestamp (snd e) \<noteq> None) st)"

definition doc_ids :: "store \<Rightarrow> doc_id list" where
  "doc_ids st = map fst st"

text \<open>\<^verbatim>\<open>deleteDoc(doc(db, ..., id))\<close>\<close>

definition delete_doc :: "doc_id \<Rightarrow> store \<Rightarrow> store" where
  "delete_doc i st = filter (\<lambda>e. fst e \<noteq> i) st"

text \<open>\<^verbatim>\<open>updateDoc(carRef, data)\<close> with the three annotation fields.\<close>

definition patch_doc :: "car_patch \<Rightarrow> raw_doc \<Rightarrow> raw_doc" where
  "patch_doc p d = d\<lparr>car_notes := Some (p_notes p), tags := Some (p_tags p),
                     external_links := Some (p_links p)\<rparr>"

definition update_doc :: "doc_id \<Rightarrow> car_patch \<Rightarrow> store \<Rightarrow> store" where
  "update_doc i p st = map (\<lambda>e. if fst e = i then (fst e, patch_doc p (snd e)) else e) st"

text \<open>\<^verbatim>\<open>{ ...c, ...data }\<close> on the local copy.\<close>

definition patch_car :: "car_patch \<Rightarrow> car \<Rightarrow> car" where
  "patch_car p c = c\<lparr>car_notes := Some (p_notes p), tags := Some (p_tags p),
                     external_links := Some (p_links p)\<rparr>"

section \<open>Handlers\<close>

text \<open>\<^verbatim>\<open>fetchCars\<close>, first half: \<^verbatim>\<open>setLoading(true)\<close> and the query, whose result
  (the snapshot of this moment, or a failure) is applied later.\<close>

definition fetch_request :: "bool \<Rightarrow> garage \<Rightarrow> garage" where
  "fetch_request ok g =
     g\<lparr>app := (app g)\<lparr>loading := True\<rparr>,
       in_flight := in_flight g @ [if ok then Fetched (query_by_timestamp (store g)) else Fetch_failed]\<rparr>"

text \<open>\<^verbatim>\<open>fetchCars\<close>, second half: \<^verbatim>\<open>setCars(carsData)\<close> or, in the \<^verbatim>\<open>catch\<close>,
  \<^verbatim>\<open>setCars([])\<close>; then \<^verbatim>\<open>setLoading(false)\<close>.\<close>

definition fetch_apply :: "fetch_result \<Rightarrow> app_state \<Rightarrow> app_state" where
  "fetch_apply r a =
     (case r of Fetched docs \<Rightarrow> a\<lparr>cars := reconcile_all docs, loading := False\<rparr>
      | Fetch_failed \<Rightarrow> a\<lparr>cars := [], loading := False\<rparr>)"

definition notify :: "notif_kind \<Rightarrow> message \<Rightarrow> garage \<Rightarrow> garage" where
  "notify k m g = g\<lparr>app := (app g)\<lparr>notification := Some (k, m)\<rparr>\<rparr>"

definition add_timer :: "timer \<Rightarrow> garage \<Rightarrow> garage" where
  "add_timer t g = g\<lparr>timers := timers g @ [t]\<rparr>"

text \<open>\<^verbatim>\<open>handleDeleteCar\<close>: \<open>confirmed\<close> is the answer to \<^verbatim>\<open>confirm\<close>,
  \<open>ok\<close> whether \<^verbatim>\<open>deleteDoc\<close> resolves, \<open>fetch_ok\<close> whether the re-fetch will.\<close>

definition handle_delete_car :: "doc_id \<Rightarrow> bool \<Rightarrow> bool \<Rightarrow> bool \<Rightarrow> garage \<Rightarrow> garage" where
  "handle_delete_car i confirmed ok fetch_ok g =
     (if \<not> confirmed then g
      else if ok then
        (let g1 = notify Success Msg_deleted (g\<lparr>store := delete_doc i (store g)\<rparr>);
             g2 = add_timer Clear_notification (fetch_request fetch_ok g1);
             a2 = app g2
         in g2\<lparr>app := (if map_option car_id (selected_car a2) = Some i
                        then a2\<lparr>selected_car := None\<rparr> else a2)\<rparr>)
      else notify Failure Msg_delete_error g)"

text \<open>\<^verbatim>\<open>handleClearGarage\<close>: \<open>read_ok\<close> for \<^verbatim>\<open>getDocs\<close>, \<open>commit_ok\<close> for the
  batch commit that deletes every document read.\<close>

definition handle_clear_garage :: "bool \<Rightarrow> bool \<Rightarrow> bool \<Rightarrow> bool \<Rightarrow> garage \<Rightarrow> garage" where
  "handle_clear_garage confirmed read_ok commit_ok fetch_ok g =
     (if \<not> confirmed then g
      else if read_ok \<and> commit_ok then
        (let snapshot = doc_ids (store g);
             g1 = g\<lparr>app := (app g)\<lparr>loading := True\<rparr>,
                    store := filter (\<lambda>e. fst e \<notin> set snapshot) (store g)\<rparr>
         in add_timer Clear_notification (fetch_request fetch_ok (notify Success Msg_cleared g1)))
      else (let g1 = notify Failure Msg_clear_error g in g1\<lparr>app := (app g1)\<lparr>loading := False\<rparr>\<rparr>))"

text \<open>\<^verbatim>\<open>handleUpdateCar\<close>: \<^verbatim>\<open>updateDoc\<close> succeeds when the network does and the
  document exists; then the local list and the selected listing are patched.\<close>

definition handle_update_car :: "doc_id \<Rightarrow> car_patch \<Rightarrow> bool \<Rightarrow> garage \<Rightarrow> garage" where
  "handle_update_car i p net_ok g =
     (if net_ok \<and> i \<in> set (doc_ids (store g)) then
        (let a = app g;
             a1 = a\<lparr>cars := map (\<lambda>c. if car_id c = i then patch_car p c else c) (cars a)\<rparr>;
             a2 = (case selected_car a1 of
                     Some s \<Rightarrow> if car_id s = i then a1\<lparr>selected_car := Some (patch_car p s)\<rparr> else a1
                   | None \<Rightarrow> a1)
         in add_timer Clear_notification
              (notify Success Msg_saved (g\<lparr>store := update_doc i p (store g), app := a2\<rparr>)))
      else notify Failure Msg_save_error g)"

text \<open>The request \<^verbatim>\<open>handleAnalyze\<close> sends, or \<open>None\<close> for its early returns.\<close>

definition analyze_request ::
  "app_state \<Rightarrow> string option \<Rightarrow> (endpoint \<times> request_body) option" where
  "analyze_request a override =
     (let overrideUrl = (case override of None \<Rightarrow> [] | Some u \<Rightarrow> u);
          finalUrl = (if overrideUrl \<noteq> [] then overrideUrl else url_input a);
          key = (if api_key a = [] then None else Some (api_key a))
      in if input_mode a = Url_mode \<or> overrideUrl \<noteq> [] then
           (if finalUrl = [] then None else Some (Analyze_url, Url_body finalUrl key))
         else if text_input a = [] then None
         else Some (Analyze_text, Text_body (text_input a) key))"

text \<open>\<^verbatim>\<open>handleAnalyze\<close>: \<^verbatim>\<open>analyzing\<close> is set at the start and cleared in
  \<^verbatim>\<open>finally\<close>, so it is clear again after the step. \<open>closure\<close> is the state of the
  render whose \<^verbatim>\<open>handleAnalyze\<close> runs: the current one for a click, the first one for
  the import timer set on mount.\<close>

definition handle_analyze ::
  "app_state \<Rightarrow> string option \<Rightarrow> analyze_outcome \<Rightarrow> garage \<Rightarrow> garage" where
  "handle_analyze closure override outcome g =
     (case analyze_request closure override of
        None \<Rightarrow> g
      | Some _ \<Rightarrow>
          (let g1 = (case outcome of
                 Resp_ok m pr \<Rightarrow>
                   add_timer Clear_notification (add_timer Refetch
                     (let g0 = notify Success (Msg_analyze_ok m pr) g
                      in g0\<lparr>app := (app g0)\<lparr>url_input := [], text_input := []\<rparr>\<rparr>))
               | Resp_error d \<Rightarrow> add_timer Clear_notification (notify Failure (Msg_analyze_error d) g)
               | Network_error \<Rightarrow> add_timer Clear_notification (notify Failure Msg_connect_error g))
           in g1\<lparr>app := (app g1)\<lparr>analyzing := False\<rparr>\<rparr>))"


text \<open>The mount effect: \<^verbatim>\<open>fetchCars()\<close>, then, for a non-empty \<^verbatim>\<open>?import=\<close>
  parameter, switch to the garage in URL mode with the URL filled in and analyse it after
  500 ms.\<close>

definition handle_mount :: "string option \<Rightarrow> bool \<Rightarrow> garage \<Rightarrow> garage" where
  "handle_mount importUrl fetch_ok g =
     (let g1 = fetch_request fetch_ok g in
      case importUrl of
        Some u \<Rightarrow>
          if u \<noteq> [] then
            add_timer (Analyze_import u)
              (g1\<lparr>app := (app g1)\<lparr>main_tab := Garage_tab, input_mode := Url_mode, url_input := u\<rparr>\<rparr>)
          else g1
      | None \<Rightarrow> g1)"

text \<open>The catalogue modal's \<^verbatim>\<open>onAnalyze\<close> (lines 616--622).\<close>

definition catalog_analyze :: "string \<Rightarrow> analyze_outcome \<Rightarrow> garage \<Rightarrow> garage" where
  "catalog_analyze u outcome g =
     (let a = app g;
          g1 = g\<lparr>app := a\<lparr>selected_catalog_car := None, main_tab := Garage_tab,
                              input_mode := Url_mode, url_input := u\<rparr>\<rparr>
      in handle_analyze a (Some u) outcome g1)"

definition remove_nth :: "nat \<Rightarrow> 'a list \<Rightarrow> 'a list" where
  "remove_nth k xs = take k xs @ drop (Suc k) xs"

text \<open>A pending \<^verbatim>\<open>setTimeout\<close> callback runs.\<close>

definition fire_timer :: "nat \<Rightarrow> bool \<Rightarrow> analyze_outcome \<Rightarrow> garage \<Rightarrow> garage" where
  "fire_timer k fetch_ok outcome g =
     (if k < length (timers g) then
        (let g1 = g\<lparr>timers := remove_nth k (timers g)\<rparr> in
         case timers g ! k of
           Clear_notification \<Rightarrow> g1\<lparr>app := (app g1)\<lparr>notification := None\<rparr>\<rparr>
         | Refetch \<Rightarrow> fetch_request fetch_ok g1
         | Analyze_import u \<Rightarrow> handle_analyze app_init (Some u) outcome g1)
      else g)"

text \<open>A fetch whose query was issued earlier delivers its result.\<close>

definition fetch_arrives :: "nat \<Rightarrow> garage \<Rightarrow> garage" where
  "fetch_arrives k g =
     (if k < length (in_flight g)
      then g\<lparr>app := fetch_apply (in_flight g ! k) (app g), in_flight := remove_nth k (in_flight g)\<rparr>
      else g)"

text \<open>The analysis service stores a new document under a fresh id.\<close>

definition server_creates :: "doc_id \<Rightarrow> raw_doc \<Rightarrow> garage \<Rightarrow> garage" where
  "server_creates i d g =
     (if i \<in> set (doc_ids (store g)) then g else g\<lparr>store := store g @ [(i, d)]\<rparr>)"

section \<open>Events and reachable states\<close>

datatype event =
  Mount "string option" bool
| Delete_car doc_id bool bool bool
| Clear_garage bool bool bool bool
| Update_car doc_id car_patch bool
| Analyze "string option" analyze_outcome
| Catalog_analyze string analyze_outcome
| Fire_timer nat bool analyze_outcome
| Fetch_arrives nat
| Server_creates doc_id raw_doc
| Set_filter string
| Set_sort sort_option
| Set_view view_mode
| Set_tab main_tab
| Set_input_mode input_mode
| Set_url string
| Set_text string
| Set_api_key string
| Select_car "car option"
| Select_catalog "car_static option"

definition set_app :: "(app_state \<Rightarrow> app_state) \<Rightarrow> garage \<Rightarrow> garage" where
  "set_app f g = g\<lparr>app := f (app g)\<rparr>"

fun garage_step :: "event \<Rightarrow> garage \<Rightarrow> garage" where
  "garage_step (Mount u ok) g = handle_mount u ok g"
| "garage_step (Delete_car i c ok fok) g = handle_delete_car i c ok fok g"
| "garage_step (Clear_garage c r ok fok) g = handle_clear_garage c r ok fok g"
| "garage_step (Update_car i p ok) g = handle_update_car i p ok g"
| "garage_step (Analyze u out) g = handle_analyze (app g) u out g"
| "garage_step (Catalog_analyze u out) g = catalog_analyze u out g"
| "garage_step (Fire_timer k ok out) g = fire_timer k ok out g"
| "garage_step (Fetch_arrives k) g = fetch_arrives k g"
| "garage_step (Server_creates i d) g = server_creates i d g"
| "garage_step (Set_filter f) g = set_app (\<lambda>a. a\<lparr>filter_text := f\<rparr>) g"
| "garage_step (Set_sort s) g = set_app (\<lambda>a. a\<lparr>sort_opt := s\<rparr>) g"
| "garage_step (Set_view v) g = set_app (\<lambda>a. a\<lparr>view_mode := v\<rparr>) g"
| "garage_step (Set_tab t) g = set_app (\<lambda>a. a\<lparr>main_tab := t\<rparr>) g"
| "garage_step (Set_input_mode m) g = set_app (\<lambda>a. a\<lparr>input_mode := m\<rparr>) g"
| "garage_step (Set_url u) g = set_app (\<lambda>a. a\<lparr>url_input := u\<rparr>) g"
| "garage_step (Set_text t) g = set_app (\<lambda>a. a\<lparr>text_input := t\<rparr>) g"
| "garage_step (Set_api_key k) g = set_app (\<lambda>a. a\<lparr>api_key := k\<rparr>) g"
| "garage_step (Select_car c) g = set_app (\<lambda>a. a\<lparr>selected_car := c\<rparr>) g"
| "garage_step (Select_catalog c) g = set_app (\<lambda>a. a\<lparr>selected_catalog_car := c\<rparr>) g"

definition garage_init :: "store \<Rightarrow> garage" where
  "garage_init st = \<lparr>store = st, app = app_init, in_flight = [], timers = []\<rparr>"

fun garage_run :: "event list \<Rightarrow> garage \<Rightarrow> garage" where
  "garage_run [] g = g"
| "garage_run (e # es) g = garage_run es (garage_step e g)"

inductive garage_reachable :: "store \<Rightarrow> garage \<Rightarrow> bool" for st0 where
  start: "garage_reachable st0 (garage_init st0)"
| step: "garage_reachable st0 g \<Longrightarrow> garage_reachable st0 (garage_step e g)"


text \<open>Every listing shown has a timestamp, and so has every document a pending fetch
  will deliver.\<close>

definition ts_inv :: "garage \<Rightarrow> bool" where
  "ts_inv g \<longleftrightarrow>
     list_all (\<lambda>c. timestamp c \<noteq> None) (cars (app g))
     \<and> list_all (\<lambda>r. case r of Fetched docs \<Rightarrow> list_all (\<lambda>e. timestamp (snd e) \<noteq> None) docs
                              | Fetch_failed \<Rightarrow> True) (in_flight g)"

section \<open>Lemmas\<close>

lemma doc_seconds_cmp: "(\<lambda>a b. doc_seconds b - doc_seconds a) = key_cmp (\<lambda>e. - doc_seconds e)"
  by (simp add: fun_eq_iff key_cmp_def)

lemma set_query_by_timestamp:
  "set (query_by_timestamp st) = {e \<in> set st. timestamp (snd e) \<noteq> None}"
  by (auto simp add: query_by_timestamp_def doc_seconds_cmp)

lemma set_remove_nth: "set (remove_nth k xs) \<subseteq> set xs"
  by (auto simp add: remove_nth_def dest: in_set_takeD in_set_dropD)

lemma ts_inv_fetch_request: "ts_inv g \<Longrightarrow> ts_inv (fetch_request ok g)"
  by (auto simp add: ts_inv_def fetch_request_def list_all_iff set_query_by_timestamp)

lemma ts_inv_notify [simp]: "ts_inv (notify k m g) = ts_inv g"
  by (simp add: ts_inv_def notify_def)

lemma ts_inv_add_timer [simp]: "ts_inv (add_timer t g) = ts_inv g"
  by (simp add: ts_inv_def add_timer_def)

lemma ts_inv_store [simp]: "ts_inv (g\<lparr>store := s\<rparr>) = ts_inv g"
  by (simp add: ts_inv_def)

lemma ts_inv_timers [simp]: "ts_inv (g\<lparr>timers := t\<rparr>) = ts_inv g"
  by (simp add: ts_inv_def)

lemma ts_inv_app: "cars a = cars (app g) \<Longrightarrow> ts_inv (g\<lparr>app := a\<rparr>) = ts_inv g"
  by (simp add: ts_inv_def)

lemma timestamp_reconcile_all:
  "c \<in> set (reconcile_all docs) \<Longrightarrow> \<exists>e\<in>set docs. timestamp c = timestamp (snd e)"
  by (force simp add: reconcile_all_def)

lemma ts_inv_fetch_arrives: "ts_inv g \<Longrightarrow> ts_inv (fetch_arrives k g)"
proof -
  assume inv: "ts_inv g"
  show ?thesis
  proof (cases "k < length (in_flight g)")
    case True
    then have mem: "in_flight g ! k \<in> set (in_flight g)" by simp
    have "list_all (\<lambda>c. timestamp c \<noteq> None) (cars (fetch_apply (in_flight g ! k) (app g)))"
    proof (cases "in_flight g ! k")
      case (Fetched docs)
      with inv mem have "list_all (\<lambda>e. timestamp (snd e) \<noteq> None) docs"
        by (force simp add: ts_inv_def list_all_iff)
      with Fetched show ?thesis
        by (auto simp add: fetch_apply_def list_all_iff dest!: timestamp_reconcile_all)
    next
      case Fetch_failed
      then show ?thesis by (simp add: fetch_apply_def)
    qed
    with inv True show ?thesis
      using set_remove_nth [of k "in_flight g"]
      by (auto simp add: fetch_arrives_def ts_inv_def list_all_iff)
  next
    case False
    with inv show ?thesis by (simp add: fetch_arrives_def)
  qed
qed

lemma ts_inv_handle_analyze: "ts_inv g \<Longrightarrow> ts_inv (handle_analyze c u out g)"
  by (simp add: handle_analyze_def Let_def ts_inv_app
      split: option.split analyze_outcome.split)

lemma ts_inv_step: "ts_inv g \<Longrightarrow> ts_inv (garage_step e g)"
proof (cases e)
  case (Mount u ok)
  assume "ts_inv g"
  then have "ts_inv (fetch_request ok g)" by (rule ts_inv_fetch_request)
  with Mount show ?thesis
    by (simp add: handle_mount_def Let_def ts_inv_app split: option.split)
next
  case (Delete_car i c ok fok)
  assume inv: "ts_inv g"
  have "ts_inv (fetch_request fok (notify Success Msg_deleted (g\<lparr>store := delete_doc i (store g)\<rparr>)))"
    using inv by (simp add: ts_inv_fetch_request)
  with inv Delete_car show ?thesis
    by (simp add: handle_delete_car_def Let_def ts_inv_app)
next
  case (Clear_garage c r ok fok)
  assume inv: "ts_inv g"
  let ?g1 = "notify Success Msg_cleared (g\<lparr>app := (app g)\<lparr>loading := True\<rparr>,
               store := filter (\<lambda>e. fst e \<notin> set (doc_ids (store g))) (store g)\<rparr>)"
  have "ts_inv ?g1" using inv by (simp add: ts_inv_def notify_def)
  then have "ts_inv (fetch_request fok ?g1)" by (rule ts_inv_fetch_request)
  with inv Clear_garage show ?thesis
    by (simp add: handle_clear_garage_def Let_def ts_inv_app)
next
  case (Update_car i p ok)
  assume "ts_inv g"
  with Update_car show ?thesis
    by (auto simp add: handle_update_car_def ts_inv_def notify_def add_timer_def Let_def
        list_all_iff patch_car_def split: option.split)
next
  case (Analyze u out)
  assume "ts_inv g"
  with Analyze show ?thesis by (simp add: ts_inv_handle_analyze)
next
  case (Catalog_analyze u out)
  assume "ts_inv g"
  with Catalog_analyze show ?thesis
    by (simp add: catalog_analyze_def Let_def ts_inv_handle_analyze ts_inv_app)
next
  case (Fire_timer k ok out)
  assume inv: "ts_inv g"
  show ?thesis
  proof (cases "k < length (timers g)")
    case True
    with Fire_timer inv show ?thesis
      by (cases "timers g ! k")
         (simp_all add: fire_timer_def Let_def ts_inv_fetch_request ts_inv_handle_analyze ts_inv_app)
  next
    case False
    with Fire_timer inv show ?thesis by (simp add: fire_timer_def)
  qed
next
  case (Fetch_arrives k)
  assume "ts_inv g"
  with Fetch_arrives show ?thesis by (simp add: ts_inv_fetch_arrives)
next
  case (Server_creates i d)
  assume "ts_inv g"
  with Server_creates show ?thesis by (simp add: server_creates_def)
qed (simp_all add: set_app_def ts_inv_app)

lemma garage_reachable_ts_inv: "garage_reachable st0 g \<Longrightarrow> ts_inv g"
proof (induction rule: garage_reachable.induct)
  case start
  show ?case by (simp add: ts_inv_def garage_init_def app_init_def)
next
  case (step g e)
  from step.IH show ?case by (rule ts_inv_step)
qed

lemma garage_run_reachable:
  "garage_reachable st0 g \<Longrightarrow> garage_reachable st0 (garage_run es g)"
proof (induction es arbitrary: g)
  case Nil
  then show ?case by simp
next
  case (Cons e es)
  then show ?case by (simp add: garage_reachable.step)
qed

lemma insort_key_map_keep:
  "(\<And>x. f (h x) = f x) \<Longrightarrow> insort_key f (h x) (map h ys) = map h (insort_key f x ys)"
  by (induction ys) simp_all

lemma sort_key_map_keep:
  "(\<And>x. f (h x) = f x) \<Longrightarrow> sort_key f (map h xs) = map h (sort_key f xs)"
  by (induction xs) (simp_all add: insort_key_map_keep)

lemma filter_map_keep:
  "(\<And>x. P (h x) = P x) \<Longrightarrow> filter P (map h xs) = map h (filter P xs)"
  by (induction xs) simp_all

lemma query_update_doc:
  "query_by_timestamp (update_doc i p st)
   = map (\<lambda>e. if fst e = i then (fst e, patch_doc p (snd e)) else e) (query_by_timestamp st)"
proof -
  let ?h = "\<lambda>e. if fst e = i then (fst e, patch_doc p (snd e)) else e"
  let ?P = "\<lambda>e. timestamp (snd e) \<noteq> None"
  let ?K = "\<lambda>e. - doc_seconds e"
  have f: "filter ?P (map ?h st) = map ?h (filter ?P st)"
    by (rule filter_map_keep) (simp add: patch_doc_def)
  have s: "sort_key ?K (map ?h xs) = map ?h (sort_key ?K xs)" for xs
    by (rule sort_key_map_keep) (simp add: doc_seconds_def patch_doc_def)
  show ?thesis
    by (simp only: query_by_timestamp_def doc_seconds_cmp js_sort_key_cmp update_doc_def f s)
qed

lemma reconcile_patch_doc: "reconcile j (patch_doc p d) = patch_car p (reconcile j d)"
  unfolding patch_doc_def patch_car_def by (rule reconcile_annotations_commute)

lemma reconcile_all_update:
  "\<forall>e\<in>set docs. data_id (snd e) = None \<Longrightarrow>
   reconcile_all (map (\<lambda>e. if fst e = i then (fst e, patch_doc p (snd e)) else e) docs)
   = map (\<lambda>c. if car_id c = i then patch_car p c else c) (reconcile_all docs)"
  by (induction docs) (auto simp add: reconcile_patch_doc)

lemma handle_update_car_ok:
  assumes "ok \<and> i \<in> set (doc_ids (store g))"
  shows "cars (app (handle_update_car i p ok g))
           = map (\<lambda>c. if car_id c = i then patch_car p c else c) (cars (app g))"
    and "store (handle_update_car i p ok g) = update_doc i p (store g)"
  using assms
  by (cases "selected_car (app g)"; simp add: handle_update_car_def notify_def add_timer_def Let_def)+

lemma handle_update_car_fail:
  "\<not> (ok \<and> i \<in> set (doc_ids (store g))) \<Longrightarrow> handle_update_car i p ok g = notify Failure Msg_save_error g"
  unfolding handle_update_car_def by (rule if_not_P)

lemma doc_ids_delete_doc: "set (doc_ids (delete_doc i st)) = set (doc_ids st) - {i}"
  by (auto simp add: doc_ids_def delete_doc_def image_iff)

lemma set_query_subset: "set (query_by_timestamp st) \<subseteq> set st"
  by (auto simp add: set_query_by_timestamp)

lemma reconcile_in_cars:
  "(i, d) \<in> set st \<Longrightarrow> timestamp d \<noteq> None
   \<Longrightarrow> reconcile i d \<in> set (reconcile_all (query_by_timestamp st))"
  by (force simp add: reconcile_all_def set_query_by_timestamp)

section \<open>Properties of the garage controller\<close>

text \<open>C12. Because the fetch query orders by timestamp, Firestore returns only documents
  that have one: in every reachable state every listing held by the garage, and every
  document of a fetch result still in flight, has a timestamp, whatever the store holds
  and whatever happens.\<close>

theorem garage_cars_have_timestamps:
  assumes "garage_reachable st0 g"
  shows "(\<forall>c\<in>set (cars (app g)). timestamp c \<noteq> None)
         \<and> (\<forall>docs. Fetched docs \<in> set (in_flight g) \<longrightarrow> (\<forall>e\<in>set docs. timestamp (snd e) \<noteq> None))"
  using garage_reachable_ts_inv [OF assms]
  by (fastforce simp add: ts_inv_def list_all_iff)

text \<open>C13. The local update of \<^verbatim>\<open>handleUpdateCar\<close> refines a re-fetch: when the
  garage's listings are the reconciled result of the query and no document carries its
  own \<open>id\<close> field, then after the update (successful or not) they are again exactly the
  reconciled result of the query on the updated store.\<close>

theorem update_car_matches_refetch:
  assumes "cars (app g) = reconcile_all (query_by_timestamp (store g))"
    and "\<forall>e\<in>set (store g). data_id (snd e) = None"
  shows "cars (app (handle_update_car i p ok g))
         = reconcile_all (query_by_timestamp (store (handle_update_car i p ok g)))"
proof (cases "ok \<and> i \<in> set (doc_ids (store g))")
  case True
  have "\<forall>e\<in>set (query_by_timestamp (store g)). data_id (snd e) = None"
    using assms(2) set_query_subset by blast
  then have eq: "reconcile_all (query_by_timestamp (update_doc i p (store g)))
       = map (\<lambda>c. if car_id c = i then patch_car p c else c) (cars (app g))"
    by (simp add: query_update_doc reconcile_all_update assms(1))
  have "cars (app (handle_update_car i p ok g))
        = map (\<lambda>c. if car_id c = i then patch_car p c else c) (cars (app g))"
    using True by (rule handle_update_car_ok)
  also have "\<dots> = reconcile_all (query_by_timestamp (update_doc i p (store g)))"
    by (rule eq [symmetric])
  also have "\<dots> = reconcile_all (query_by_timestamp (store (handle_update_car i p ok g)))"
    using True by (simp add: handle_update_car_ok)
  finally show ?thesis .
next
  case False
  with assms(1) show ?thesis by (simp add: handle_update_car_fail notify_def)
qed


text \<open>C29. Responses of overlapping fetches are applied in arrival order, not request
  order. In any state with no fetch in flight, deleting another listing and then a stored,
  timestamped listing issues two re-fetches; if the older one answers last, the garage
  shows the deleted listing, which is no longer stored, and no fetch is pending that
  would correct it.\<close>

theorem stale_fetch_overwrites:
  assumes "in_flight g = []" and "(i, d) \<in> set (store g)" and "timestamp d \<noteq> None"
    and "j \<noteq> i"
  shows "let g' = garage_run [Delete_car j True True True, Delete_car i True True True,
                             Fetch_arrives 1, Fetch_arrives 0] g
         in reconcile i d \<in> set (cars (app g')) \<and> i \<notin> set (doc_ids (store g'))
            \<and> in_flight g' = []"
proof -
  have m: "(i, d) \<in> set (delete_doc j (store g))"
    using assms(2,4) by (simp add: delete_doc_def)
  show ?thesis
    using assms(1) reconcile_in_cars [OF m assms(3)]
    by (simp add: handle_delete_car_def notify_def add_timer_def fetch_request_def
        fetch_arrives_def fetch_apply_def remove_nth_def Let_def doc_ids_delete_doc)
qed

text \<open>C30. A stored document whose data carries its own \<open>id\<close> field, naming no stored
  document, is shown under that id, because the spread \<^verbatim>\<open>...data\<close> comes after
  \<^verbatim>\<open>id: doc.id\<close>. Deleting it (confirmed, and \<^verbatim>\<open>deleteDoc\<close> resolving) then
  deletes a document that does not exist: the user is told the listing was deleted, the
  store is unchanged, and the re-fetch shows the listing again.\<close>

theorem stored_id_field_defeats_delete:
  assumes "(k, d) \<in> set (store g)" and "data_id d = Some j"
    and "j \<notin> set (doc_ids (store g))" and "timestamp d \<noteq> None"
  shows "let g' = handle_delete_car j True True True g
         in car_id (reconcile k d) = j \<and> store g' = store g
            \<and> notification (app g') = Some (Success, Msg_deleted)
            \<and> reconcile k d \<in> set (cars (app (fetch_arrives (length (in_flight g)) g')))"
proof -
  have del: "delete_doc j (store g) = store g"
    using assms(3) by (auto simp add: delete_doc_def doc_ids_def filter_id_conv)
  have c: "car_id (reconcile k d) = j"
    using assms(2) by simp
  show ?thesis
    using reconcile_in_cars [OF assms(1) assms(4)] c del
    by (simp add: handle_delete_car_def notify_def add_timer_def fetch_request_def
        fetch_arrives_def fetch_apply_def remove_nth_def Let_def nth_append)
qed

text \<open>The analysis request is never sent with an empty payload: a URL request
  carries a non-empty URL (the non-empty override, else the URL input) and goes to the
  URL endpoint exactly when the mode is URL or an override is given; a text request
  carries the non-empty text input; the API key is sent as null when empty.\<close>

theorem analyze_request_payload:
  assumes "analyze_request a ov = Some (ep, body)"
  shows "(ep = Analyze_url \<longleftrightarrow> input_mode a = Url_mode \<or> (\<exists>u. ov = Some u \<and> u \<noteq> []))
         \<and> (case body of
              Url_body u k \<Rightarrow> ep = Analyze_url \<and> u \<noteq> []
                 \<and> u = (case ov of Some v \<Rightarrow> if v \<noteq> [] then v else url_input a | None \<Rightarrow> url_input a)
                 \<and> k = (if api_key a = [] then None else Some (api_key a))
            | Text_body t k \<Rightarrow> ep = Analyze_text \<and> t = text_input a \<and> t \<noteq> []
                 \<and> k = (if api_key a = [] then None else Some (api_key a)))"
  using assms
  by (cases ov) (auto simp add: analyze_request_def Let_def split: if_splits)

text \<open>\<^verbatim>\<open>handleAnalyze\<close> always ends with \<^verbatim>\<open>analyzing\<close> cleared when it sends a
  request, and an early return (no request) leaves the whole state unchanged; a sent
  request always schedules the notification to be cleared.\<close>

theorem handle_analyze_finally:
  "(analyze_request c ov = None \<longrightarrow> handle_analyze c ov out g = g)
   \<and> (analyze_request c ov \<noteq> None \<longrightarrow>
        \<not> analyzing (app (handle_analyze c ov out g))
        \<and> Clear_notification \<in> set (timers (handle_analyze c ov out g)))"
  by (auto simp add: handle_analyze_def add_timer_def notify_def Let_def
      split: option.split analyze_outcome.split)

text \<open>C14. \<^verbatim>\<open>handleDeleteCar\<close> on every branch: cancelled, nothing changes; a failed
  \<^verbatim>\<open>deleteDoc\<close> changes only the notification (an error); a successful one removes every
  document with that id from the store, reports success, starts a re-fetch (loading) of
  the new store, and closes the detail view exactly when it showed that listing.\<close>

theorem handle_delete_car_branches:
  "(\<not> c \<longrightarrow> handle_delete_car i c ok fok g = g)
   \<and> (c \<and> \<not> ok \<longrightarrow> handle_delete_car i c ok fok g = notify Failure Msg_delete_error g)
   \<and> (c \<and> ok \<longrightarrow>
        (let g' = handle_delete_car i c ok fok g in
         store g' = delete_doc i (store g) \<and> i \<notin> set (doc_ids (store g'))
         \<and> notification (app g') = Some (Success, Msg_deleted) \<and> loading (app g')
         \<and> in_flight g' = in_flight g @ [if fok then Fetched (query_by_timestamp (store g'))
                                       else Fetch_failed]
         \<and> selected_car (app g') = (if map_option car_id (selected_car (app g)) = Some i
                                    then None else selected_car (app g))))"
  by (auto simp add: handle_delete_car_def notify_def add_timer_def fetch_request_def Let_def
      doc_ids_delete_doc)

text \<open>C15. \<^verbatim>\<open>handleClearGarage\<close> on every branch: cancelled, nothing changes; when
  reading or committing fails the store is unchanged, loading is cleared and an error is
  shown; when both succeed the store is empty, success is shown and a re-fetch runs.\<close>

theorem handle_clear_garage_branches:
  "(\<not> c \<longrightarrow> handle_clear_garage c r ok fok g = g)
   \<and> (c \<and> \<not> (r \<and> ok) \<longrightarrow>
        store (handle_clear_garage c r ok fok g) = store g
        \<and> \<not> loading (app (handle_clear_garage c r ok fok g))
        \<and> notification (app (handle_clear_garage c r ok fok g)) = Some (Failure, Msg_clear_error))
   \<and> (c \<and> r \<and> ok \<longrightarrow>
        store (handle_clear_garage c r ok fok g) = []
        \<and> loading (app (handle_clear_garage c r ok fok g))
        \<and> notification (app (handle_clear_garage c r ok fok g)) = Some (Success, Msg_cleared)
        \<and> in_flight (handle_clear_garage c r ok fok g)
            = in_flight g @ [if fok then Fetched [] else Fetch_failed])"
  by (auto simp add: handle_clear_garage_def notify_def add_timer_def fetch_request_def Let_def
      doc_ids_def query_by_timestamp_def filter_empty_conv)

section \<open>Witnesses\<close>

theorem garage_cars_have_timestamps_witness:
  "let st0 = [(''a'', empty_doc\<lparr>link := Some ''https://a'', timestamp := Some 7\<rparr>),
              (''n'', empty_doc\<lparr>link := Some ''https://n''\<rparr>)];
       g = garage_run [Mount None True, Fetch_arrives 0] (garage_init st0)
   in garage_reachable st0 g \<and> (\<forall>c\<in>set (cars (app g)). timestamp c \<noteq> None)
      \<and> map car_id (cars (app g)) = [''a'']"
proof -
  let ?st0 = "[(''a'', empty_doc\<lparr>link := Some ''https://a'', timestamp := Some 7\<rparr>),
              (''n'', empty_doc\<lparr>link := Some ''https://n''\<rparr>)]"
  let ?g = "garage_run [Mount None True, Fetch_arrives 0] (garage_init ?st0)"
  have r: "garage_reachable ?st0 ?g"
    by (rule garage_run_reachable [OF garage_reachable.start])
  have v: "map car_id (cars (app ?g)) = [''a'']" by code_simp
  show ?thesis using r v garage_cars_have_timestamps [OF r] by (simp add: Let_def)
qed

theorem update_car_matches_refetch_witness:
  "let st0 = [(''a'', empty_doc\<lparr>link := Some ''https://a'', timestamp := Some 7\<rparr>)];
       g = garage_run [Mount None True, Fetch_arrives 0] (garage_init st0);
       p = \<lparr>p_notes = ''call seller'', p_tags = [''fav''], p_links = []\<rparr>
   in cars (app g) = reconcile_all (query_by_timestamp (store g))
      \<and> (\<forall>e\<in>set (store g). data_id (snd e) = None)
      \<and> cars (app (handle_update_car ''a'' p True g))
         = reconcile_all (query_by_timestamp (store (handle_update_car ''a'' p True g)))
      \<and> map car_notes (cars (app (handle_update_car ''a'' p True g))) = [Some ''call seller'']"
proof -
  let ?st0 = "[(''a'', empty_doc\<lparr>link := Some ''https://a'', timestamp := Some 7\<rparr>)]"
  let ?g = "garage_run [Mount None True, Fetch_arrives 0] (garage_init ?st0)"
  let ?p = "\<lparr>p_notes = ''call seller'', p_tags = [''fav''], p_links = []\<rparr>"
  have h1: "cars (app ?g) = reconcile_all (query_by_timestamp (store ?g))" by code_simp
  have h2: "\<forall>e\<in>set (store ?g). data_id (snd e) = None" by code_simp
  have n: "map car_notes (cars (app (handle_update_car ''a'' ?p True ?g))) = [Some ''call seller'']"
    by code_simp
  show ?thesis using h1 h2 n update_car_matches_refetch [OF h1 h2, of "''a''" ?p True]
    by (simp add: Let_def)
qed

theorem analyze_request_payload_witness:
  "let a = app_init\<lparr>input_mode := Text_mode, text_input := ''Tesla Model 3, 2021''\<rparr>
   in analyze_request a (Some ''https://mobile.de/1'')
        = Some (Analyze_url, Url_body ''https://mobile.de/1'' None)
      \<and> analyze_request a None = Some (Analyze_text, Text_body ''Tesla Model 3, 2021'' None)
      \<and> analyze_request (a\<lparr>text_input := []\<rparr>) None = None"
proof -
  let ?a = "app_init\<lparr>input_mode := Text_mode, text_input := ''Tesla Model 3, 2021''\<rparr>"
  have r1: "analyze_request ?a (Some ''https://mobile.de/1'')
        = Some (Analyze_url, Url_body ''https://mobile.de/1'' None)"
    by (simp add: analyze_request_def app_init_def)
  have r2: "analyze_request ?a None = Some (Analyze_text, Text_body ''Tesla Model 3, 2021'' None)"
    by (simp add: analyze_request_def app_init_def)
  have r3: "analyze_request (?a\<lparr>text_input := []\<rparr>) None = None"
    by (simp add: analyze_request_def app_init_def)
  from analyze_request_payload [OF r1] analyze_request_payload [OF r2] r1 r2 r3
  show ?thesis by (simp add: Let_def)
qed

theorem handle_analyze_finally_witness:
  "let g = garage_init [(''a'', empty_doc\<lparr>timestamp := Some 1\<rparr>)];
       c = app_init\<lparr>url_input := ''https://mobile.de/1'', analyzing := True\<rparr>
   in analyze_request c None \<noteq> None \<and> analyze_request app_init None = None
      \<and> \<not> analyzing (app (handle_analyze c None Network_error g))
      \<and> Clear_notification \<in> set (timers (handle_analyze c None Network_error g))
      \<and> handle_analyze app_init None Network_error g = g"
proof -
  let ?g = "garage_init [(''a'', empty_doc\<lparr>timestamp := Some 1\<rparr>)]"
  let ?c = "app_init\<lparr>url_input := ''https://mobile.de/1'', analyzing := True\<rparr>"
  have a1: "analyze_request ?c None \<noteq> None" by (simp add: analyze_request_def app_init_def)
  have a2: "analyze_request app_init None = None" by (simp add: analyze_request_def app_init_def)
  show ?thesis
    using handle_analyze_finally [of ?c None Network_error ?g]
      handle_analyze_finally [of app_init None Network_error ?g] a1 a2
    by (simp add: Let_def)
qed

theorem handle_delete_car_branches_witness:
  "let g = garage_init [(''a'', empty_doc\<lparr>timestamp := Some 1\<rparr>)]
   in handle_delete_car ''a'' False True True g = g
      \<and> handle_delete_car ''a'' True False True g = notify Failure Msg_delete_error g
      \<and> store (handle_delete_car ''a'' True True True g) = []
      \<and> notification (app (handle_delete_car ''a'' True True True g)) = Some (Success, Msg_deleted)"
proof -
  let ?g = "garage_init [(''a'', empty_doc\<lparr>timestamp := Some 1\<rparr>)]"
  have "store ?g = [(''a'', empty_doc\<lparr>timestamp := Some 1\<rparr>)]" by (simp add: garage_init_def)
  then show ?thesis
    using handle_delete_car_branches [of False "''a''" True True ?g]
      handle_delete_car_branches [of True "''a''" False True ?g]
      handle_delete_car_branches [of True "''a''" True True ?g]
    by (simp add: Let_def delete_doc_def)
qed

theorem handle_clear_garage_branches_witness:
  "let g = garage_init [(''a'', empty_doc\<lparr>timestamp := Some 1\<rparr>)]
   in handle_clear_garage False True True True g = g
      \<and> store (handle_clear_garage True True False True g) = store g
      \<and> notification (app (handle_clear_garage True True False True g)) = Some (Failure, Msg_clear_error)
      \<and> store (handle_clear_garage True True True True g) = []
      \<and> in_flight (handle_clear_garage True True True True g) = [Fetched []]"
proof -
  let ?g = "garage_init [(''a'', empty_doc\<lparr>timestamp := Some 1\<rparr>)]"
  have "in_flight ?g = []" by (simp add: garage_init_def)
  then show ?thesis
    using handle_clear_garage_branches [of False True True True ?g]
      handle_clear_garage_branches [of True True False True ?g]
      handle_clear_garage_branches [of True True True True ?g]
    by (simp add: Let_def)
qed

theorem stale_fetch_overwrites_witness:
  "let st0 = [(''a'', empty_doc\<lparr>link := Some ''https://a'', timestamp := Some 2\<rparr>),
              (''b'', empty_doc\<lparr>link := Some ''https://b'', timestamp := Some 1\<rparr>)];
       g = garage_run [Mount None True, Fetch_arrives 0] (garage_init st0);
       g' = garage_run [Delete_car ''a'' True True True, Delete_car ''b'' True True True,
                        Fetch_arrives 1, Fetch_arrives 0] g
   in garage_reachable st0 g' \<and> in_flight g = []
      \<and> reconcile ''b'' (empty_doc\<lparr>link := Some ''https://b'', timestamp := Some 1\<rparr>)
          \<in> set (cars (app g'))
      \<and> store g' = [] \<and> in_flight g' = []"
proof -
  let ?d = "empty_doc\<lparr>link := Some ''https://b'', timestamp := Some 1\<rparr>"
  let ?st0 = "[(''a'', empty_doc\<lparr>link := Some ''https://a'', timestamp := Some 2\<rparr>),
              (''b'', ?d)]"
  let ?g = "garage_run [Mount None True, Fetch_arrives 0] (garage_init ?st0)"
  let ?es = "[Delete_car ''a'' True True True, Delete_car ''b'' True True True,
              Fetch_arrives 1, Fetch_arrives 0]"
  have r: "garage_reachable ?st0 (garage_run ?es ?g)"
    by (rule garage_run_reachable [OF garage_run_reachable [OF garage_reachable.start]])
  have h1: "in_flight ?g = []" by code_simp
  have h2: "(''b'', ?d) \<in> set (store ?g)" by code_simp
  have h3: "timestamp ?d \<noteq> None" by simp
  have h4: "''a'' \<noteq> ''b''" by simp
  note t = stale_fetch_overwrites [OF h1 h2 h3 h4]
  have v: "store (garage_run ?es ?g) = []" by code_simp
  from r h1 t v show ?thesis by (simp add: Let_def)
qed

theorem stored_id_field_defeats_delete_witness:
  "let d = empty_doc\<lparr>data_id := Some ''x'', timestamp := Some 5\<rparr>;
       st0 = [(''d1'', d)];
       g = garage_run [Mount None True, Fetch_arrives 0] (garage_init st0);
       g' = handle_delete_car ''x'' True True True g
   in garage_reachable st0 g \<and> reconcile ''d1'' d \<in> set (cars (app g))
      \<and> car_id (reconcile ''d1'' d) = ''x''
      \<and> notification (app g') = Some (Success, Msg_deleted) \<and> store g' = st0
      \<and> reconcile ''d1'' d \<in> set (cars (app (fetch_arrives (length (in_flight g)) g')))"
proof -
  let ?d = "empty_doc\<lparr>data_id := Some ''x'', timestamp := Some 5\<rparr>"
  let ?st0 = "[(''d1'', ?d)]"
  let ?g = "garage_run [Mount None True, Fetch_arrives 0] (garage_init ?st0)"
  have r: "garage_reachable ?st0 ?g"
    by (rule garage_run_reachable [OF garage_reachable.start])
  have s: "store ?g = ?st0" by code_simp
  have h1: "(''d1'', ?d) \<in> set (store ?g)" unfolding s by simp
  have h2: "data_id ?d = Some ''x''" by simp
  have h3: "''x'' \<notin> set (doc_ids (store ?g))" unfolding s by (simp add: doc_ids_def)
  have h4: "timestamp ?d \<noteq> None" by simp
  note t = stored_id_field_defeats_delete [OF h1 h2 h3 h4]
  have c: "cars (app ?g) = reconcile_all (query_by_timestamp ?st0)" by code_simp
  have shown: "reconcile ''d1'' ?d \<in> set (cars (app ?g))"
    unfolding c by (rule reconcile_in_cars) simp_all
  from r shown t show ?thesis unfolding Let_def s by simp
qed

end
