(* ===== verification/GarageView.thy ===== *)
theory GarageView
  imports Garage
begin

text \<open>
  What the garage shows: the view logic of \<^verbatim>\<open>src/web/src/components/CarCard.tsx\<close>
  (a listing card) and of the render of \<^verbatim>\<open>src/web/src/App.tsx\<close> (lines 272--631):
  the navigation badge, the notification toast, the analysis form's button, the count of
  saved listings, the bulk-delete button, and the listing area (loading indicator, empty
  message, grid of cards or table of rows). Markup, styling and icons are not modelled;
  a view is the record of the values the markup shows and the conditions it tests.
  The listing area renders \<^verbatim>\<open>uniqueCars\<close>, while the count next to the heading is
  \<^verbatim>\<open>processedCars.length\<close>: the filter and sort of the toolbar change the count but
  not the listings shown.
\<close>

section \<open>Listing card\<close>

datatype profit_color = Profit_green | Profit_primary | Profit_red

text \<open>\<^verbatim>\<open>data.model || 'Neznamy model'\<close>\<close>

datatype card_title = Model_title string | Unknown_model

text \<open>The colour bands of lines 16--19; the initial grey is always overwritten.\<close>

definition profit_color_of :: "int \<Rightarrow> profit_color" where
  "profit_color_of profit =
     (if 40000 \<le> profit then Profit_green else if 0 < profit then Profit_primary else Profit_red)"

definition title_of :: "string option \<Rightarrow> card_title" where
  "title_of m = (case m of Some s \<Rightarrow> if s \<noteq> [] then Model_title s else Unknown_model
                 | None \<Rightarrow> Unknown_model)"

record card_view =
  card_id :: string
  card_title :: card_title
  card_year :: js_num
  card_image :: "string option"
  card_expert_choice :: bool
  card_mileage :: int
  card_soh_low :: bool
  card_soh :: js_num
  card_real_price :: int
  card_profit :: int
  card_profit_plus :: bool
  card_profit_color :: profit_color
  card_delete_target :: "doc_id option"

text \<open>\<^verbatim>\<open>CarCard\<close>: \<open>card_soh = None\<close> is the \<^verbatim>\<open>'?'\<close> of \<^verbatim>\<open>data.soh || '?'\<close>;
  the delete button calls \<^verbatim>\<open>onDelete\<close> only when \<^verbatim>\<open>data.id\<close> is truthy.\<close>

definition card_view_of :: "car \<Rightarrow> card_view" where
  "card_view_of c =
     (let profit = or0 (arbitrage_profit c) in
      \<lparr>card_id = car_id c,
       card_title = title_of (model c),
       card_year = year c,
       card_image = (case image c of Some s \<Rightarrow> if s \<noteq> [] then Some s else None | None \<Rightarrow> None),
       card_expert_choice = 90 \<le> or0 (expert_score c),
       card_mileage = or0 (mileage c),
       card_soh_low = or0 (soh c) < 90,
       card_soh = (if truthy (soh c) then soh c else None),
       card_real_price = or0 (real_price_czk c),
       card_profit = profit,
       card_profit_plus = 0 < profit,
       card_profit_color = profit_color_of profit,
       card_delete_target = (if car_id c \<noteq> [] then Some (car_id c) else None)\<rparr>)"

section \<open>Table row\<close>

text \<open>One row of the table view (lines 537--591). \<open>row_price = None\<close> is
  \<^verbatim>\<open>'N/A'\<close>, \<open>row_profit = None\<close> is \<^verbatim>\<open>'-'\<close>; the score bar's width is
  \<^verbatim>\<open>Math.min(car.expert_score || 0, 100)\<close> per cent.\<close>

record row_view =
  row_car :: doc_id
  row_model :: "string option"
  row_link :: "string option"
  row_price :: "int option"
  row_mileage :: js_num
  row_year :: js_num
  row_profit_positive :: bool
  row_profit :: "int option"
  row_score_bar :: int
  row_score :: int

definition row_view_of :: "car \<Rightarrow> row_view" where
  "row_view_of c =
     \<lparr>row_car = car_id c,
      row_model = model c,
      row_link = link c,
      row_price = (if truthy (price_czk c) then price_czk c else None),
      row_mileage = mileage c,
      row_year = year c,
      row_profit_positive = 0 < or0 (arbitrage_profit c),
      row_profit = (if truthy (arbitrage_profit c) then arbitrage_profit c else None),
      row_score_bar = min (or0 (expert_score c)) 100,
      row_score = or0 (expert_score c)\<rparr>"

section \<open>The garage page and the application view\<close>

datatype listing_area =
  Area_loading | Area_empty | Area_grid "card_view list" | Area_table "row_view list"

record garage_view =
  gv_count :: nat
  gv_filter_clear :: bool
  gv_clear_button :: bool
  gv_analyze_disabled :: bool
  gv_area :: listing_area

text \<open>The garage tab (lines 338--598): \<^verbatim>\<open>processedCars.length\<close> next to the heading,
  the filter's clear button, the bulk-delete button when \<^verbatim>\<open>cars.length > 0\<close>, the
  analysis button disabled while analysing or with an empty input, and the listing area:
  the loading indicator when loading and not analysing, else the empty message when there
  are no listings, else \<^verbatim>\<open>uniqueCars\<close> as cards or table rows.\<close>

definition garage_view_of :: "app_state \<Rightarrow> garage_view" where
  "garage_view_of a =
     (let uniqueCars = unique_cars (cars a);
          processedCars = processed_cars (filter_text a) (sort_opt a) uniqueCars
      in \<lparr>gv_count = length processedCars,
          gv_filter_clear = filter_text a \<noteq> [],
          gv_clear_button = cars a \<noteq> [],
          gv_analyze_disabled =
            analyzing a \<or> (if input_mode a = Url_mode then url_input a = [] else text_input a = []),
          gv_area =
            (if loading a \<and> \<not> analyzing a then Area_loading
             else if cars a = [] then Area_empty
             else if view_mode a = Grid_mode then Area_grid (map card_view_of uniqueCars)
             else Area_table (map row_view_of uniqueCars))\<rparr>)"

datatype page = Catalog_page | Garage_page garage_view

record app_view =
  av_badge :: "nat option"
  av_notification :: "(notif_kind \<times> message) option"
  av_page :: page
  av_detail :: "car option"
  av_catalog_detail :: "car_static option"

text \<open>The whole render: the badge on the garage tab shows \<^verbatim>\<open>uniqueCars.length\<close> when
  positive (lines 296--300), the toast the notification (313--318), the page of the
  selected tab, and the two detail modals (604--624).\<close>

definition app_view_of :: "app_state \<Rightarrow> app_view" where
  "app_view_of a =
     (let n = length (unique_cars (cars a)) in
      \<lparr>av_badge = (if 0 < n then Some n else None),
       av_notification = notification a,
       av_page = (case main_tab a of Catalog_tab \<Rightarrow> Catalog_page
                  | Garage_tab \<Rightarrow> Garage_page (garage_view_of a)),
       av_detail = selected_car a,
       av_catalog_detail = selected_catalog_car a\<rparr>)"

text \<open>The rank of a profit colour, from worst to best.\<close>

definition color_rank :: "profit_color \<Rightarrow> nat" where
  "color_rank p = (case p of Profit_red \<Rightarrow> 0 | Profit_primary \<Rightarrow> 1 | Profit_green \<Rightarrow> 2)"

section \<open>Lemmas\<close>

lemma length_processed_cars:
  "length (processed_cars f s cs) = length (filter (matches_filter f) cs)"
  by (simp add: processed_cars_sort_key)

section \<open>Properties of the garage view\<close>

text \<open>The listing area does not depend on the filter text or the sort option: it
  always shows \<^verbatim>\<open>uniqueCars\<close> in deduplication order, while the count next to the
  heading is the number of deduplicated listings the filter keeps.\<close>

theorem listing_area_ignores_filter_sort:
  "gv_area (garage_view_of (a\<lparr>filter_text := f, sort_opt := s\<rparr>)) = gv_area (garage_view_of a)
   \<and> gv_count (garage_view_of a) = length (filter (matches_filter (filter_text a)) (unique_cars (cars a)))"
  by (simp add: garage_view_of_def Let_def length_processed_cars)

text \<open>A concrete garage showing the disagreement: with the filter text \<open>tesla\<close>
  and one stored Kia listing, the heading counts 0 listings while the grid shows the Kia's
  card.\<close>

theorem filter_count_disagrees_with_grid:
  "let a = app_init\<lparr>main_tab := Garage_tab, loading := False, filter_text := ''tesla'',
                    cars := [reconcile ''k'' (empty_doc\<lparr>model := Some ''Kia Niro'', timestamp := Some 1\<rparr>)]\<rparr>
   in gv_count (garage_view_of a) = 0
      \<and> (case gv_area (garage_view_of a) of Area_grid cs \<Rightarrow> map card_id cs = [''k''] | _ \<Rightarrow> False)"
  by code_simp

text \<open>The empty-garage message, the badge and the bulk-delete button agree: the
  message shows exactly when nothing is loading (or an analysis runs) and there are no
  listings; the badge is absent exactly when there are no listings, and then the
  bulk-delete button is absent too; the grid and the table are never empty.\<close>

theorem garage_view_empty_consistent:
  "(gv_area (garage_view_of a) = Area_empty \<longleftrightarrow> \<not> (loading a \<and> \<not> analyzing a) \<and> cars a = [])
   \<and> (av_badge (app_view_of a) = None \<longleftrightarrow> cars a = [])
   \<and> (gv_clear_button (garage_view_of a) \<longleftrightarrow> av_badge (app_view_of a) \<noteq> None)
   \<and> gv_area (garage_view_of a) \<noteq> Area_grid [] \<and> gv_area (garage_view_of a) \<noteq> Area_table []"
  by (simp add: garage_view_of_def app_view_of_def Let_def unique_cars_Nil_iff)

text \<open>A failed fetch is not reported: when the result that arrives is a failure, the
  garage shows the empty-garage message (the listings are cleared and loading ends) and
  the notification is left as it was, so no error is shown.\<close>

theorem failed_fetch_shows_empty_garage:
  assumes "k < length (in_flight g)" and "in_flight g ! k = Fetch_failed"
  shows "gv_area (garage_view_of (app (fetch_arrives k g))) = Area_empty
         \<and> notification (app (fetch_arrives k g)) = notification (app g)"
  using assms by (simp add: fetch_arrives_def fetch_apply_def garage_view_of_def Let_def)

text \<open>The profit colour of a card is monotone in the profit: a listing with a
  larger profit never gets a worse colour; a listing without profit is red.\<close>

theorem card_profit_color_monotone:
  assumes "or0 (arbitrage_profit c) \<le> or0 (arbitrage_profit d)"
  shows "color_rank (card_profit_color (card_view_of c)) \<le> color_rank (card_profit_color (card_view_of d))
         \<and> (arbitrage_profit c = None \<longrightarrow> card_profit_color (card_view_of c) = Profit_red)"
  using assms by (simp add: card_view_of_def Let_def profit_color_of_def color_rank_def)

section \<open>Witnesses\<close>

theorem failed_fetch_shows_empty_garage_witness:
  "let st0 = [(''a'', empty_doc\<lparr>timestamp := Some 1\<rparr>)];
       g = garage_run [Set_tab Garage_tab, Mount None False] (garage_init st0)
   in 0 < length (in_flight g) \<and> in_flight g ! 0 = Fetch_failed
      \<and> gv_area (garage_view_of (app (fetch_arrives 0 g))) = Area_empty
      \<and> notification (app (fetch_arrives 0 g)) = None"
proof -
  let ?g = "garage_run [Set_tab Garage_tab, Mount None False]
              (garage_init [(''a'', empty_doc\<lparr>timestamp := Some 1\<rparr>)])"
  have h1: "0 < length (in_flight ?g)" by code_simp
  have h2: "in_flight ?g ! 0 = Fetch_failed" by code_simp
  have n: "notification (app ?g) = None" by code_simp
  show ?thesis using failed_fetch_shows_empty_garage [OF h1 h2] h1 h2 n by (simp add: Let_def)
qed

theorem card_profit_color_monotone_witness:
  "let c = reconcile ''1'' (empty_doc\<lparr>arbitrage_profit := Some 12000\<rparr>);
       d = reconcile ''2'' (empty_doc\<lparr>arbitrage_profit := Some 45000\<rparr>)
   in or0 (arbitrage_profit c) \<le> or0 (arbitrage_profit d)
      \<and> card_profit_color (card_view_of c) = Profit_primary
      \<and> card_profit_color (card_view_of d) = Profit_green
      \<and> color_rank (card_profit_color (card_view_of c)) \<le> color_rank (card_profit_color (card_view_of d))"
proof -
  let ?c = "reconcile ''1'' (empty_doc\<lparr>arbitrage_profit := Some 12000\<rparr>)"
  let ?d = "reconcile ''2'' (empty_doc\<lparr>arbitrage_profit := Some 45000\<rparr>)"
  have h: "or0 (arbitrage_profit ?c) \<le> or0 (arbitrage_profit ?d)" by (simp add: empty_doc_def)
  have cc: "card_profit_color (card_view_of ?c) = Profit_primary"
    by (simp add: card_view_of_def profit_color_of_def empty_doc_def)
  have cd: "card_profit_color (card_view_of ?d) = Profit_green"
    by (simp add: card_view_of_def profit_color_of_def empty_doc_def)
  show ?thesis using card_profit_color_monotone [OF h] h cc cd by (simp add: Let_def)
qed

end
