(* ===== verification/CostBreakdown.thy ===== *)
theory CostBreakdown
  imports Listing
begin

text \<open>
  The cost breakdown presenter of \<^verbatim>\<open>src/web/src/components/ScrollytellingCalculator.tsx\<close>.
  \<open>build_sections\<close> is the \<^verbatim>\<open>sections\<close> memo (lines 108--170): base price, the VAT
  correction when \<open>|vat_adjustment_eur| > 1\<close>, logistics, tyres and service when
  positive, in that order. The reveal state is the \<^verbatim>\<open>visibleSections\<close> set and the
  \<^verbatim>\<open>pulseKey\<close> counter, changed only by the intersection observer callback
  (\<open>observer_callback\<close>, lines 188--204). The elements the observer watches are the
  sections and, when the breakdown has warnings, the warnings block, which carries
  \<^verbatim>\<open>data-section-id="warnings"\<close>; so the set holds \<open>scroll_id\<close>s, not only
  section ids. \<open>current_total\<close> and \<open>show_warning_header\<close> are the two derived
  values of lines 173--185, \<open>calc_view\<close> what the component renders, and
  \<open>breakdown_view\<close> the wrapper that falls back to the simplified view for listings
  without a breakdown. Labels and icons are fixed per section and are not modelled; the
  notes are the \<open>section_note\<close> values.
\<close>

section \<open>Definitions\<close>

datatype section_id = Sec_base | Sec_vat | Sec_logistics | Sec_tires | Sec_service

datatype section_note =
  Note_base rat | Note_vat_saving | Note_vat_recompute | Note_logistics | Note_tires | Note_service

record cost_section =
  sec_id :: section_id
  amount :: int
  sec_note :: section_note
  always_show :: bool
  route_visual :: bool

text \<open>\<^verbatim>\<open>Math.round(breakdown.vat_adjustment_eur * 25.2)\<close>\<close>

definition vat_czk :: "cost_breakdown \<Rightarrow> int" where
  "vat_czk b = js_round (vat_adjustment_eur b * (252 / 10))"

definition build_sections :: "cost_breakdown \<Rightarrow> cost_section list" where
  "build_sections b =
     (let s1 = [\<lparr>sec_id = Sec_base, amount = base_czk b, sec_note = Note_base (base_price_eur b),
                 always_show = True, route_visual = False\<rparr>];
          s2 = (if 1 < \<bar>vat_adjustment_eur b\<bar>
                then (let v = vat_czk b in
                      s1 @ [\<lparr>sec_id = Sec_vat, amount = v,
                             sec_note = (if v < 0 then Note_vat_saving else Note_vat_recompute),
                             always_show = True, route_visual = False\<rparr>])
                else s1);
          s3 = s2 @ [\<lparr>sec_id = Sec_logistics, amount = logistics_czk b, sec_note = Note_logistics,
                      always_show = True, route_visual = True\<rparr>];
          s4 = (if 0 < tires_czk b
                then s3 @ [\<lparr>sec_id = Sec_tires, amount = tires_czk b, sec_note = Note_tires,
                            always_show = False, route_visual = False\<rparr>]
                else s3);
          s5 = (if 0 < service_czk b
                then s4 @ [\<lparr>sec_id = Sec_service, amount = service_czk b, sec_note = Note_service,
                            always_show = False, route_visual = False\<rparr>]
                else s4)
      in s5)"

text \<open>The \<^verbatim>\<open>data-section-id\<close> values the observer sees.\<close>

datatype scroll_id = Sec section_id | Warnings_block

record reveal_state =
  visible :: "scroll_id list"
  pulse_key :: nat

definition reveal_init :: reveal_state where
  "reveal_init = \<lparr>visible = [], pulse_key = 0\<rparr>"

text \<open>An \<^verbatim>\<open>IntersectionObserverEntry\<close>: the target's \<^verbatim>\<open>dataset.sectionId\<close>
  (possibly absent) and \<^verbatim>\<open>isIntersecting\<close>.\<close>

record observer_entry =
  target_id :: "scroll_id option"
  is_intersecting :: bool

text \<open>The \<^verbatim>\<open>entries.forEach\<close> loop: \<^verbatim>\<open>next.add(id)\<close> appends a new member to the
  insertion-ordered set and records that something changed.\<close>

fun add_entries :: "scroll_id list \<times> bool \<Rightarrow> observer_entry list \<Rightarrow> scroll_id list \<times> bool" where
  "add_entries acc [] = acc"
| "add_entries (nxt, changed) (e # es) =
     (case target_id e of
        Some i \<Rightarrow>
          if is_intersecting e \<and> i \<notin> set nxt then add_entries (nxt @ [i], True) es
          else add_entries (nxt, changed) es
      | None \<Rightarrow> add_entries (nxt, changed) es)"

definition observer_callback :: "reveal_state \<Rightarrow> observer_entry list \<Rightarrow> reveal_state" where
  "observer_callback st entries =
     (let (nxt, changed) = add_entries (visible st, False) entries in
      if changed then st\<lparr>visible := nxt, pulse_key := Suc (pulse_key st)\<rparr> else st)"

text \<open>\<^verbatim>\<open>currentTotal\<close>: the loop over the sections, adding the revealed ones.\<close>

fun current_total :: "cost_section list \<Rightarrow> scroll_id list \<Rightarrow> int" where
  "current_total [] vis = 0"
| "current_total (s # ss) vis =
     (if Sec (sec_id s) \<in> set vis then amount s else 0) + current_total ss vis"

definition has_warnings :: "cost_breakdown \<Rightarrow> bool" where
  "has_warnings b \<longleftrightarrow> cb_warnings b \<noteq> []"

text \<open>\<^verbatim>\<open>hasWarnings && visibleSections.size === sections.length\<close>\<close>

definition show_warning_header :: "cost_breakdown \<Rightarrow> reveal_state \<Rightarrow> bool" where
  "show_warning_header b st \<longleftrightarrow>
     has_warnings b \<and> length (visible st) = length (build_sections b)"

text \<open>The observed elements of the rendered component, in document order.\<close>

definition observed_ids :: "cost_breakdown \<Rightarrow> scroll_id list" where
  "observed_ids b =
     map (\<lambda>s. Sec (sec_id s)) (build_sections b) @ (if has_warnings b then [Warnings_block] else [])"

text \<open>What one rendered section shows: its id, whether it is revealed, its amount, whether
  the amount is shown as a saving (green), whether its note is shown, and whether it has
  the active route illustration.\<close>

record section_row =
  row_id :: section_id
  row_visible :: bool
  row_amount :: int
  row_saving :: bool
  row_note_shown :: bool
  row_route :: "bool option"

record calc_view =
  header_total :: int
  header_warning :: bool
  header_pulse :: bool
  rows :: "section_row list"
  warnings_block :: "bool option"
  summary_rows :: "(section_id \<times> int) list"
  summary_total :: int
  summary_warnings :: "string list"

definition section_row_of :: "reveal_state \<Rightarrow> cost_section \<Rightarrow> section_row" where
  "section_row_of st s =
     (let isVisible = Sec (sec_id s) \<in> set (visible st) in
      \<lparr>row_id = sec_id s, row_visible = isVisible, row_amount = amount s,
       row_saving = amount s < 0, row_note_shown = isVisible,
       row_route = (if route_visual s then Some isVisible else None)\<rparr>)"

text \<open>\<^verbatim>\<open>RouteIllustration\<close> (lines 46--76), drawn in the logistics section with
  \<^verbatim>\<open>active={isVisible}\<close>: the flags, the route path and its labels are fixed; the path
  is drawn (animated, full opacity) and the truck dot is shown only when active.\<close>

record route_illustration =
  ri_route_drawn :: bool
  ri_truck_dot :: bool

definition route_illustration_of :: "bool \<Rightarrow> route_illustration" where
  "route_illustration_of active = \<lparr>ri_route_drawn = active, ri_truck_dot = active\<rparr>"

definition calc_view_of :: "cost_breakdown \<Rightarrow> reveal_state \<Rightarrow> calc_view" where
  "calc_view_of b st =
     (let sections = build_sections b; hdr = show_warning_header b st in
      \<lparr>header_total = current_total sections (visible st),
       header_warning = hdr,
       header_pulse = 1 < pulse_key st,
       rows = map (section_row_of st) sections,
       warnings_block = (if has_warnings b then Some (Warnings_block \<in> set (visible st) \<or> hdr)
                         else None),
       summary_rows = map (\<lambda>s. (sec_id s, amount s)) sections,
       summary_total = total_czk b,
       summary_warnings = (if has_warnings b then map wtext (cb_warnings b) else [])\<rparr>)"

text \<open>\<^verbatim>\<open>FallbackBreakdown\<close>: the listing price, and the real price when it differs.\<close>

definition fallback_view :: "car \<Rightarrow> int \<times> int option" where
  "fallback_view c =
     (let priceCzk = or0 (price_czk c);
          realPrice = (if truthy (real_price_czk c) then or0 (real_price_czk c) else priceCzk)
      in (priceCzk, if realPrice \<noteq> priceCzk then Some realPrice else None))"

datatype breakdown_view = Fallback "int \<times> int option" | Calculator calc_view

definition breakdown_view_of :: "car \<Rightarrow> reveal_state \<Rightarrow> breakdown_view" where
  "breakdown_view_of c st =
     (case cost_breakdown c of
        None \<Rightarrow> Fallback (fallback_view c)
      | Some b \<Rightarrow> Calculator (calc_view_of b st))"

text \<open>The reveal states the component can reach: the observer reports only elements
  it observes.\<close>

inductive reveal_reachable :: "cost_breakdown \<Rightarrow> reveal_state \<Rightarrow> bool" for b where
  start: "reveal_reachable b reveal_init"
| observe: "reveal_reachable b st
    \<Longrightarrow> \<forall>e\<in>set es. \<forall>i. target_id e = Some i \<longrightarrow> i \<in> set (observed_ids b)
    \<Longrightarrow> reveal_reachable b (observer_callback st es)"

text \<open>The ids of the entries reported as intersecting, in report order, and
  \<^verbatim>\<open>Set.prototype.add\<close> on an insertion-ordered set: the reference reading of the
  callback's loop.\<close>

definition intersecting_ids :: "observer_entry list \<Rightarrow> scroll_id list" where
  "intersecting_ids es = List.map_filter (\<lambda>e. if is_intersecting e then target_id e else None) es"

definition set_add :: "scroll_id list \<Rightarrow> scroll_id \<Rightarrow> scroll_id list" where
  "set_add xs i = (if i \<in> set xs then xs else xs @ [i])"

section \<open>Lemmas\<close>

lemma map_sec_id_build_sections:
  "map sec_id (build_sections b) =
     [Sec_base] @ (if 1 < \<bar>vat_adjustment_eur b\<bar> then [Sec_vat] else []) @ [Sec_logistics]
     @ (if 0 < tires_czk b then [Sec_tires] else []) @ (if 0 < service_czk b then [Sec_service] else [])"
  by (simp add: build_sections_def Let_def)

lemma length_build_sections:
  "length (build_sections b) =
     2 + (if 1 < \<bar>vat_adjustment_eur b\<bar> then 1 else 0) + (if 0 < tires_czk b then 1 else 0)
     + (if 0 < service_czk b then 1 else 0)"
proof -
  have "length (build_sections b) = length (map sec_id (build_sections b))" by simp
  also have "\<dots> = 2 + (if 1 < \<bar>vat_adjustment_eur b\<bar> then 1 else 0)
      + (if 0 < tires_czk b then 1 else 0) + (if 0 < service_czk b then 1 else 0)"
    by (simp only: map_sec_id_build_sections) simp
  finally show ?thesis .
qed

lemma add_entries_mono: "set (fst acc) \<subseteq> set (fst (add_entries acc es))"
  by (induction acc es rule: add_entries.induct) (auto split: option.splits)

lemma add_entries_distinct: "distinct (fst acc) \<Longrightarrow> distinct (fst (add_entries acc es))"
  by (induction acc es rule: add_entries.induct) (auto split: option.splits)

lemma add_entries_set:
  "set (fst (add_entries acc es))
   = set (fst acc) \<union> {i. \<exists>e\<in>set es. target_id e = Some i \<and> is_intersecting e}"
  by (induction acc es rule: add_entries.induct) (auto split: option.splits)

lemma current_total_cong:
  "set vis = set vis' \<Longrightarrow> current_total ss vis = current_total ss vis'"
  by (induction ss) simp_all

lemma current_total_all:
  "\<forall>s\<in>set ss. Sec (sec_id s) \<in> set vis \<Longrightarrow> current_total ss vis = sum_list (map amount ss)"
  by (induction ss) simp_all


lemma add_entries_shape: "\<exists>ws. add_entries (v, c) es = (v @ ws, c \<or> ws \<noteq> [])"
proof (induction es arbitrary: v c)
  case Nil
  then show ?case by simp
next
  case (Cons e es)
  show ?case
  proof (cases "\<exists>i. target_id e = Some i \<and> is_intersecting e \<and> i \<notin> set v")
    case True
    then obtain i where i: "target_id e = Some i" "is_intersecting e" "i \<notin> set v" by blast
    obtain ws where "add_entries (v @ [i], True) es = (v @ [i] @ ws, True \<or> ws \<noteq> [])"
      using Cons.IH [of "v @ [i]" True] by auto
    with i show ?thesis by (intro exI [of _ "i # ws"]) simp
  next
    case False
    obtain ws where ws: "add_entries (v, c) es = (v @ ws, c \<or> ws \<noteq> [])"
      using Cons.IH [of v c] by blast
    from False have "add_entries (v, c) (e # es) = add_entries (v, c) es"
      by (cases "target_id e") auto
    with ws show ?thesis by auto
  qed
qed

lemma set_visible_observer_callback:
  "set (visible (observer_callback st es))
   = set (visible st) \<union> {i. \<exists>e\<in>set es. target_id e = Some i \<and> is_intersecting e}"
proof -
  obtain ws where ws: "add_entries (visible st, False) es = (visible st @ ws, ws \<noteq> [])"
    using add_entries_shape [of "visible st" False es] by auto
  have "set (visible st @ ws)
        = set (visible st) \<union> {i. \<exists>e\<in>set es. target_id e = Some i \<and> is_intersecting e}"
    using add_entries_set [of "(visible st, False)" es] ws by simp
  with ws show ?thesis by (cases "ws = []") (simp_all add: observer_callback_def)
qed

lemma distinct_visible_observer_callback:
  "distinct (visible st) \<Longrightarrow> distinct (visible (observer_callback st es))"
  using add_entries_distinct [of "(visible st, False)" es]
  by (cases "add_entries (visible st, False) es") (auto simp add: observer_callback_def)

lemma intersecting_ids_simps [simp]:
  "intersecting_ids [] = []"
  "intersecting_ids (e # es) =
     (case target_id e of Some i \<Rightarrow> if is_intersecting e then i # intersecting_ids es
                                    else intersecting_ids es
      | None \<Rightarrow> intersecting_ids es)"
  by (simp_all add: intersecting_ids_def map_filter_simps split: option.split)

lemma intersecting_ids_append [simp]:
  "intersecting_ids (es @ fs) = intersecting_ids es @ intersecting_ids fs"
  by (induction es) (simp_all split: option.split)

lemma add_entries_fold: "fst (add_entries (nxt, c) es) = foldl set_add nxt (intersecting_ids es)"
  by (induction es arbitrary: nxt c) (auto simp add: set_add_def split: option.split)

lemma visible_observer_callback:
  "visible (observer_callback st es) = foldl set_add (visible st) (intersecting_ids es)"
proof -
  obtain ws where ws: "add_entries (visible st, False) es = (visible st @ ws, ws \<noteq> [])"
    using add_entries_shape [of "visible st" False es] by auto
  have "foldl set_add (visible st) (intersecting_ids es) = visible st @ ws"
    using add_entries_fold [of "visible st" False es] ws by simp
  then show ?thesis using ws by (simp add: observer_callback_def)
qed

lemma pulse_key_observer_callback:
  "pulse_key (observer_callback st es)
   = pulse_key st + (if visible (observer_callback st es) = visible st then 0 else 1)"
proof -
  obtain ws where ws: "add_entries (visible st, False) es = (visible st @ ws, ws \<noteq> [])"
    using add_entries_shape [of "visible st" False es] by auto
  then show ?thesis by (simp add: observer_callback_def)
qed

lemma foldl_set_add: "foldl set_add [] xs = rev (remdups (rev xs))"
  by (induction xs rule: rev_induct) (simp_all add: set_add_def)

lemma visible_observer_run:
  "visible (foldl observer_callback st ess)
   = foldl set_add (visible st) (intersecting_ids (concat ess))"
  by (induction ess arbitrary: st) (simp_all add: visible_observer_callback)

lemma distinct_sec_ids: "distinct (map sec_id (build_sections b))"
  by (simp add: map_sec_id_build_sections)

lemma vat_czk_sign:
  assumes "1 < \<bar>vat_adjustment_eur b\<bar>"
  shows "vat_czk b < 0 \<longleftrightarrow> vat_adjustment_eur b < 0"
proof (cases "vat_adjustment_eur b < 0")
  case True
  with assms have "vat_adjustment_eur b * (252 / 10) + 1 / 2 < 0" by simp
  then have "js_round (vat_adjustment_eur b * (252 / 10)) < 0"
    by (simp add: js_round_def floor_less_iff)
  with True show ?thesis by (simp add: vat_czk_def)
next
  case False
  then have "0 \<le> vat_adjustment_eur b * (252 / 10) + 1 / 2" by simp
  then have "0 \<le> js_round (vat_adjustment_eur b * (252 / 10))"
    by (simp add: js_round_def)
  with False show ?thesis by (simp add: vat_czk_def)
qed

section \<open>Properties of the cost breakdown presenter\<close>

text \<open>C10. Fixed order and inclusion rule of the sections: the section ids are an ordered
  selection of base, VAT, logistics, tyres, service; base and logistics are always
  present, VAT exactly when the EUR adjustment exceeds 1 in absolute value, tyres and
  service exactly when positive, and no id occurs twice.\<close>

theorem build_sections_order:
  "subseq (map sec_id (build_sections b)) [Sec_base, Sec_vat, Sec_logistics, Sec_tires, Sec_service]
   \<and> distinct (map sec_id (build_sections b))
   \<and> Sec_base \<in> sec_id ` set (build_sections b)
   \<and> Sec_logistics \<in> sec_id ` set (build_sections b)
   \<and> (Sec_vat \<in> sec_id ` set (build_sections b) \<longleftrightarrow> 1 < \<bar>vat_adjustment_eur b\<bar>)
   \<and> (Sec_tires \<in> sec_id ` set (build_sections b) \<longleftrightarrow> 0 < tires_czk b)
   \<and> (Sec_service \<in> sec_id ` set (build_sections b) \<longleftrightarrow> 0 < service_czk b)"
proof -
  have ids: "sec_id ` set (build_sections b) = set (map sec_id (build_sections b))" by simp
  show ?thesis
    unfolding ids map_sec_id_build_sections by auto
qed

text \<open>The conditional-sections example of the specification: a breakdown with no
  tyres and no service cost has exactly the two sections base and logistics, plus the VAT
  section exactly when the absolute VAT adjustment exceeds 1 EUR.\<close>

theorem build_sections_no_extras:
  assumes "tires_czk b = 0" and "service_czk b = 0"
  shows "length (build_sections b) = (if 1 < \<bar>vat_adjustment_eur b\<bar> then 3 else 2)"
  using assms by (simp add: length_build_sections)

text \<open>Each section carries the amount of its breakdown field; the VAT section carries
  the EUR adjustment converted at 25.2 CZK/EUR and rounded as \<^verbatim>\<open>Math.round\<close> does.\<close>

theorem build_sections_amounts:
  "\<forall>s\<in>set (build_sections b). amount s =
     (case sec_id s of Sec_base \<Rightarrow> base_czk b | Sec_vat \<Rightarrow> vat_czk b
      | Sec_logistics \<Rightarrow> logistics_czk b | Sec_tires \<Rightarrow> tires_czk b
      | Sec_service \<Rightarrow> service_czk b)"
  by (auto simp add: build_sections_def Let_def)

text \<open>The VAT note follows the sign of the EUR adjustment, as the specification
  says, although the code tests the sign of the rounded CZK amount: with
  \<open>|adjustment| > 1\<close> the two signs agree, and the CZK amount is at least 25 in
  absolute value.\<close>

theorem vat_section_note_sign:
  "\<forall>s\<in>set (build_sections b). sec_id s = Sec_vat \<longrightarrow>
     (sec_note s = Note_vat_saving \<longleftrightarrow> vat_adjustment_eur b < 0) \<and> 25 \<le> \<bar>amount s\<bar>"
proof
  fix s assume s: "s \<in> set (build_sections b)"
  show "sec_id s = Sec_vat \<longrightarrow>
     (sec_note s = Note_vat_saving \<longleftrightarrow> vat_adjustment_eur b < 0) \<and> 25 \<le> \<bar>amount s\<bar>"
  proof
    assume vat: "sec_id s = Sec_vat"
    with s have big: "1 < \<bar>vat_adjustment_eur b\<bar>"
      and eq: "s = \<lparr>sec_id = Sec_vat, amount = vat_czk b,
             sec_note = (if vat_czk b < 0 then Note_vat_saving else Note_vat_recompute),
             always_show = True, route_visual = False\<rparr>"
      by (auto simp add: build_sections_def Let_def split: if_splits)
    have "25 \<le> \<bar>vat_czk b\<bar>"
    proof (cases "vat_adjustment_eur b < 0")
      case True
      with big have "vat_adjustment_eur b * (252 / 10) + 1 / 2 < - 24"
        by simp
      then have "vat_czk b \<le> - 24 - 1"
        by (simp add: vat_czk_def js_round_def floor_le_iff)
      then show ?thesis by simp
    next
      case False
      with big have "25 \<le> vat_adjustment_eur b * (252 / 10) + 1 / 2" by simp
      then have "25 \<le> vat_czk b"
        by (simp add: vat_czk_def js_round_def le_floor_iff)
      then show ?thesis by simp
    qed
    with eq vat_czk_sign [OF big] show
      "(sec_note s = Note_vat_saving \<longleftrightarrow> vat_adjustment_eur b < 0) \<and> 25 \<le> \<bar>amount s\<bar>"
      by simp
  qed
qed

text \<open>The running total over revealed sections: once every section is revealed it
  is the sum of the included sections' amounts (base, VAT if shown, logistics, tyres and
  service if positive); it never reads \<open>total_czk\<close>.\<close>

theorem current_total_all_revealed:
  assumes "\<forall>s\<in>set (build_sections b). Sec (sec_id s) \<in> set (visible st)"
  shows "current_total (build_sections b) (visible st)
         = base_czk b + (if 1 < \<bar>vat_adjustment_eur b\<bar> then vat_czk b else 0) + logistics_czk b
           + (if 0 < tires_czk b then tires_czk b else 0)
           + (if 0 < service_czk b then service_czk b else 0)"
  using current_total_all [OF assms] by (simp add: build_sections_def Let_def)

text \<open>In every reachable state the revealed set holds no element twice and only
  elements the component observes.\<close>

lemma reveal_reachable_inv:
  assumes "reveal_reachable b st"
  shows "distinct (visible st) \<and> set (visible st) \<subseteq> set (observed_ids b)
         \<and> length (visible st) \<le> length (observed_ids b)"
proof -
  from assms have inv: "distinct (visible st) \<and> set (visible st) \<subseteq> set (observed_ids b)"
  proof (induction rule: reveal_reachable.induct)
    case start
    show ?case by (simp add: reveal_init_def)
  next
    case (observe st es)
    then show ?case
      by (auto simp add: distinct_visible_observer_callback set_visible_observer_callback)
  qed
  then have "card (set (visible st)) \<le> card (set (observed_ids b))"
    by (simp add: card_mono)
  with inv have "length (visible st) \<le> card (set (observed_ids b))"
    by (simp add: distinct_card)
  also have "\<dots> \<le> length (observed_ids b)" by (rule card_length)
  finally show ?thesis using inv by simp
qed


text \<open>C11. The revealed set is exactly the ids of the entries the observer reported as
  intersecting, each once, in the order of their first intersection (whatever the
  callbacks and their batching), and \<^verbatim>\<open>pulseKey\<close> rises by one exactly on the
  callbacks that reveal something new.\<close>

theorem reveal_run_exact:
  "visible (foldl observer_callback reveal_init ess)
     = rev (remdups (rev (intersecting_ids (concat ess))))
   \<and> pulse_key (observer_callback st es)
     = pulse_key st + (if visible (observer_callback st es) = visible st then 0 else 1)"
  by (simp add: visible_observer_run reveal_init_def foldl_set_add pulse_key_observer_callback)

text \<open>C31. The warning header compares the size of the revealed set, which also counts the
  observed warnings block, with the number of cost sections. So in every reachable state
  of a breakdown with warnings, the header is lit exactly when one section is still hidden
  once the warnings block has been revealed (and when none is hidden before), instead of
  exactly when every section is revealed.\<close>

theorem warning_header_counts_block:
  assumes r: "reveal_reachable b st" and w: "has_warnings b"
  shows "show_warning_header b st \<longleftrightarrow>
         length (filter (\<lambda>s. Sec (sec_id s) \<notin> set (visible st)) (build_sections b))
           = (if Warnings_block \<in> set (visible st) then 1 else 0)"
proof -
  let ?V = "visible st" and ?secs = "build_sections b"
  let ?R = "filter (\<lambda>s. Sec (sec_id s) \<in> set ?V) ?secs"
  let ?H = "filter (\<lambda>s. Sec (sec_id s) \<notin> set ?V) ?secs"
  let ?w = "if Warnings_block \<in> set ?V then 1 else 0 :: nat"
  have inv: "distinct ?V" "set ?V \<subseteq> set (observed_ids b)"
    using reveal_reachable_inv [OF r] by simp_all
  have dR: "distinct (map (\<lambda>s. Sec (sec_id s)) ?R)"
  proof -
    have "distinct (map (\<lambda>s. Sec (sec_id s)) ?secs)"
      using distinct_sec_ids [of b] by (simp add: distinct_map inj_on_def)
    then show ?thesis by (simp add: distinct_map_filter)
  qed
  have split: "set ?V = set (map (\<lambda>s. Sec (sec_id s)) ?R)
                        \<union> (if Warnings_block \<in> set ?V then {Warnings_block} else {})"
    using inv(2) by (auto simp add: observed_ids_def w)
  have disj: "Warnings_block \<notin> set (map (\<lambda>s. Sec (sec_id s)) ?R)" by auto
  have cM: "card (set (map (\<lambda>s. Sec (sec_id s)) ?R)) = length ?R"
    using dR by (simp only: distinct_card length_map)
  have "card (set ?V) = length ?R + ?w"
  proof (cases "Warnings_block \<in> set ?V")
    case True
    define M where "M = set (map (\<lambda>s. Sec (sec_id s)) ?R)"
    have "set ?V = insert Warnings_block M" using split True by (simp add: M_def)
    then have "card (set ?V) = card (insert Warnings_block M)" by (rule arg_cong)
    also have "\<dots> = Suc (card M)"
      using disj by (simp only: M_def card_insert_disjoint finite_set) simp
    finally show ?thesis using True cM by (simp add: M_def)
  next
    case False
    then have "set ?V = set (map (\<lambda>s. Sec (sec_id s)) ?R)" using split by simp
    then show ?thesis using False cM by simp
  qed
  moreover have "length ?V = card (set ?V)" using inv(1) by (simp add: distinct_card)
  ultimately have lv: "length ?V = length ?R + ?w" by simp
  have "length ?R + length ?H = length ?secs" by (rule sum_length_filter_compl)
  then show ?thesis using lv w by (auto simp add: show_warning_header_def)
qed

theorem warning_header_counts_block_witness:
  "let b = \<lparr>base_price_eur = 20000, vat_adjustment_eur = 0, final_price_eur = 20000,
            base_czk = 504000, logistics_czk = 25000, tires_czk = 12000, service_czk = 0,
            total_czk = 541000, cb_warnings = [\<lparr>wtype = High_mileage, wtext = ''km''\<rparr>]\<rparr>;
       st1 = observer_callback reveal_init
               [\<lparr>target_id = Some (Sec Sec_base), is_intersecting = True\<rparr>,
                \<lparr>target_id = Some (Sec Sec_logistics), is_intersecting = True\<rparr>,
                \<lparr>target_id = Some Warnings_block, is_intersecting = True\<rparr>];
       st2 = observer_callback st1 [\<lparr>target_id = Some (Sec Sec_tires), is_intersecting = True\<rparr>]
   in reveal_reachable b st1 \<and> has_warnings b \<and> show_warning_header b st1
      \<and> Sec Sec_tires \<notin> set (visible st1)
      \<and> reveal_reachable b st2 \<and> set (observed_ids b) \<subseteq> set (visible st2)
      \<and> \<not> show_warning_header b st2"
proof -
  define b :: cost_breakdown where "b = \<lparr>base_price_eur = 20000, vat_adjustment_eur = 0,
            final_price_eur = 20000, base_czk = 504000, logistics_czk = 25000, tires_czk = 12000,
            service_czk = 0, total_czk = 541000,
            cb_warnings = [\<lparr>wtype = High_mileage, wtext = ''km''\<rparr>]\<rparr>"
  define es1 where "es1 = [\<lparr>target_id = Some (Sec Sec_base), is_intersecting = True\<rparr>,
                \<lparr>target_id = Some (Sec Sec_logistics), is_intersecting = True\<rparr>,
                \<lparr>target_id = Some Warnings_block, is_intersecting = True\<rparr>]"
  define es2 where "es2 = [\<lparr>target_id = Some (Sec Sec_tires), is_intersecting = True\<rparr>]"
  have obs: "observed_ids b = [Sec Sec_base, Sec Sec_logistics, Sec Sec_tires, Warnings_block]"
    by (simp add: b_def observed_ids_def build_sections_def has_warnings_def)
  have r1: "reveal_reachable b (observer_callback reveal_init es1)"
    by (rule reveal_reachable.observe [OF reveal_reachable.start]) (simp add: obs es1_def)
  have r2: "reveal_reachable b (observer_callback (observer_callback reveal_init es1) es2)"
    by (rule reveal_reachable.observe [OF r1]) (simp add: obs es2_def)
  have v1: "visible (observer_callback reveal_init es1)
            = [Sec Sec_base, Sec Sec_logistics, Warnings_block]"
    by (simp add: es1_def observer_callback_def reveal_init_def)
  have v2: "visible (observer_callback (observer_callback reveal_init es1) es2)
            = [Sec Sec_base, Sec Sec_logistics, Warnings_block, Sec Sec_tires]"
    by (simp add: es1_def es2_def observer_callback_def reveal_init_def)
  have secs: "build_sections b = [\<lparr>sec_id = Sec_base, amount = 504000, sec_note = Note_base 20000,
       always_show = True, route_visual = False\<rparr>,
     \<lparr>sec_id = Sec_logistics, amount = 25000, sec_note = Note_logistics,
       always_show = True, route_visual = True\<rparr>,
     \<lparr>sec_id = Sec_tires, amount = 12000, sec_note = Note_tires,
       always_show = False, route_visual = False\<rparr>]"
    by (simp add: b_def build_sections_def)
  have w: "has_warnings b" by (simp add: b_def has_warnings_def)
  have h1: "show_warning_header b (observer_callback reveal_init es1)"
    using warning_header_counts_block [OF r1 w] by (simp add: v1 secs)
  have h2: "\<not> show_warning_header b (observer_callback (observer_callback reveal_init es1) es2)"
    using warning_header_counts_block [OF r2 w] by (simp add: v2 secs)
  show ?thesis
    unfolding b_def [symmetric] es1_def [symmetric] es2_def [symmetric] Let_def
    using r1 r2 v1 v2 w obs h1 h2 by simp
qed

section \<open>Witnesses\<close>

theorem build_sections_no_extras_witness:
  "let b1 = \<lparr>base_price_eur = 20000, vat_adjustment_eur = 30, final_price_eur = 20030,
             base_czk = 504000, logistics_czk = 25000, tires_czk = 0, service_czk = 0,
             total_czk = 530000, cb_warnings = []\<rparr>;
       b2 = b1\<lparr>vat_adjustment_eur := 1 / 2\<rparr>
   in tires_czk b1 = 0 \<and> service_czk b1 = 0 \<and> length (build_sections b1) = 3
      \<and> tires_czk b2 = 0 \<and> service_czk b2 = 0 \<and> length (build_sections b2) = 2"
proof -
  define b1 :: cost_breakdown where "b1 = \<lparr>base_price_eur = 20000, vat_adjustment_eur = 30,
             final_price_eur = 20030, base_czk = 504000, logistics_czk = 25000, tires_czk = 0,
             service_czk = 0, total_czk = 530000, cb_warnings = []\<rparr>"
  have t1: "tires_czk b1 = 0" "service_czk b1 = 0" by (simp_all add: b1_def)
  have t2: "tires_czk (b1\<lparr>vat_adjustment_eur := 1 / 2\<rparr>) = 0"
    "service_czk (b1\<lparr>vat_adjustment_eur := 1 / 2\<rparr>) = 0" by (simp_all add: b1_def)
  show ?thesis
    unfolding b1_def [symmetric] Let_def
    using build_sections_no_extras [OF t1] build_sections_no_extras [OF t2] t1 t2
    by (simp add: b1_def)
qed

theorem build_sections_amounts_witness:
  "let b = \<lparr>base_price_eur = 20000, vat_adjustment_eur = -40, final_price_eur = 19960,
            base_czk = 504000, logistics_czk = 25000, tires_czk = 12000, service_czk = 0,
            total_czk = 540000, cb_warnings = []\<rparr>
   in (\<forall>s\<in>set (build_sections b). amount s =
         (case sec_id s of Sec_base \<Rightarrow> base_czk b | Sec_vat \<Rightarrow> vat_czk b
          | Sec_logistics \<Rightarrow> logistics_czk b | Sec_tires \<Rightarrow> tires_czk b
          | Sec_service \<Rightarrow> service_czk b))
      \<and> map amount (build_sections b) = [504000, -1008, 25000, 12000]"
proof -
  define b :: cost_breakdown where "b = \<lparr>base_price_eur = 20000, vat_adjustment_eur = -40,
            final_price_eur = 19960, base_czk = 504000, logistics_czk = 25000, tires_czk = 12000,
            service_czk = 0, total_czk = 540000, cb_warnings = []\<rparr>"
  have m: "map amount (build_sections b) = [504000, -1008, 25000, 12000]"
    unfolding b_def by code_simp
  show ?thesis
    unfolding b_def [symmetric] Let_def using build_sections_amounts [of b] m by simp
qed

theorem vat_section_note_sign_witness:
  "let b = \<lparr>base_price_eur = 20000, vat_adjustment_eur = -40, final_price_eur = 19960,
            base_czk = 504000, logistics_czk = 25000, tires_czk = 0, service_czk = 0,
            total_czk = 528000, cb_warnings = []\<rparr>
   in (\<forall>s\<in>set (build_sections b). sec_id s = Sec_vat \<longrightarrow>
         (sec_note s = Note_vat_saving \<longleftrightarrow> vat_adjustment_eur b < 0) \<and> 25 \<le> \<bar>amount s\<bar>)
      \<and> map sec_note (build_sections b) = [Note_base 20000, Note_vat_saving, Note_logistics]"
proof -
  define b :: cost_breakdown where "b = \<lparr>base_price_eur = 20000, vat_adjustment_eur = -40,
            final_price_eur = 19960, base_czk = 504000, logistics_czk = 25000, tires_czk = 0,
            service_czk = 0, total_czk = 528000, cb_warnings = []\<rparr>"
  have m: "map sec_note (build_sections b) = [Note_base 20000, Note_vat_saving, Note_logistics]"
    unfolding b_def by code_simp
  show ?thesis
    unfolding b_def [symmetric] Let_def using vat_section_note_sign [of b] m by simp
qed

theorem current_total_all_revealed_witness:
  "let b = \<lparr>base_price_eur = 20000, vat_adjustment_eur = 0, final_price_eur = 20000,
            base_czk = 504000, logistics_czk = 25000, tires_czk = 12000, service_czk = 0,
            total_czk = 545000, cb_warnings = []\<rparr>;
       st = \<lparr>visible = [Sec Sec_tires, Sec Sec_base, Sec Sec_logistics], pulse_key = 2\<rparr>
   in (\<forall>s\<in>set (build_sections b). Sec (sec_id s) \<in> set (visible st))
      \<and> current_total (build_sections b) (visible st) = 541000
      \<and> current_total (build_sections b) (visible st) \<noteq> total_czk b"
proof -
  define b :: cost_breakdown where "b = \<lparr>base_price_eur = 20000, vat_adjustment_eur = 0,
            final_price_eur = 20000, base_czk = 504000, logistics_czk = 25000, tires_czk = 12000,
            service_czk = 0, total_czk = 545000, cb_warnings = []\<rparr>"
  define st :: reveal_state where
    "st = \<lparr>visible = [Sec Sec_tires, Sec Sec_base, Sec Sec_logistics], pulse_key = 2\<rparr>"
  have all: "\<forall>s\<in>set (build_sections b). Sec (sec_id s) \<in> set (visible st)"
    by (simp add: b_def st_def build_sections_def)
  show ?thesis
    unfolding b_def [symmetric] st_def [symmetric] Let_def
    using current_total_all_revealed [OF all] all by (simp add: b_def)
qed


end
