(* ===== verification/Annotations.thy ===== *)
theory Annotations
  imports GarageView CostBreakdown
begin

text \<open>
  The listing detail modal of \<^verbatim>\<open>src/web/src/components/CarDetailModal.tsx\<close>. Its
  state (lines 16--22) is the \<open>editor\<close> record: the active tab, the draft notes, tags
  and links, and the two input fields for a new tag and a new link. The effect of lines
  24--31 (\<open>editor_sync\<close>) copies the listing's annotations into the drafts and returns
  to the info tab whenever the \<^verbatim>\<open>car\<close> prop changes. The edit operations
  (\<open>add_tag\<close>, \<open>remove_tag\<close>, \<open>add_link\<close>, \<open>remove_link\<close>, and the input
  setters) form the step function \<open>editor_step\<close>; \<open>modal_save\<close> is
  \<^verbatim>\<open>handleSave\<close> followed by the garage's \<^verbatim>\<open>handleUpdateCar\<close> and the effect it
  triggers. A successful update replaces the selected listing by a new object
  (\<^verbatim>\<open>{ ...prev, ...data }\<close>, App.tsx line 195), so the effect runs exactly then.
  \<open>info_view_of\<close>, \<open>analysis_view_of\<close> and \<open>side_panel_of\<close> are the values the
  three parts of the modal show.
\<close>

section \<open>Editor state and operations\<close>

datatype detail_tab = Info_tab | Notes_tab | Analysis_tab | Calculator_tab

record editor =
  active_tab :: detail_tab
  ed_notes :: string
  ed_tags :: "string list"
  new_tag :: string
  ed_links :: "external_link list"
  new_link_url :: string
  new_link_label :: string

definition editor_init :: editor where
  "editor_init = \<lparr>active_tab = Info_tab, ed_notes = [], ed_tags = [], new_tag = [],
     ed_links = [], new_link_url = [], new_link_label = []\<rparr>"

text \<open>The effect on \<^verbatim>\<open>[car]\<close>: \<^verbatim>\<open>car.notes || ''\<close>, \<^verbatim>\<open>car.tags || []\<close>,
  \<^verbatim>\<open>car.externalLinks || []\<close>, back to the info tab; the new-tag and new-link inputs
  keep their contents.\<close>

definition tags_of :: "car \<Rightarrow> string list" where
  "tags_of c = (case tags c of Some ts \<Rightarrow> ts | None \<Rightarrow> [])"

definition editor_sync :: "car \<Rightarrow> editor \<Rightarrow> editor" where
  "editor_sync c st =
     st\<lparr>ed_notes := (case car_notes c of Some n \<Rightarrow> n | None \<Rightarrow> []),
        ed_tags := tags_of c,
        ed_links := (case external_links c of Some ls \<Rightarrow> ls | None \<Rightarrow> []),
        active_tab := Info_tab\<rparr>"

definition editor_open :: "car \<Rightarrow> editor" where
  "editor_open c = editor_sync c editor_init"

definition add_tag :: "editor \<Rightarrow> editor" where
  "add_tag st =
     (let t = js_trim (new_tag st) in
      if t \<noteq> [] \<and> t \<notin> set (ed_tags st) then st\<lparr>ed_tags := ed_tags st @ [t], new_tag := []\<rparr>
      else st)"

definition remove_tag :: "string \<Rightarrow> editor \<Rightarrow> editor" where
  "remove_tag t st = st\<lparr>ed_tags := filter (\<lambda>x. x \<noteq> t) (ed_tags st)\<rparr>"

text \<open>\<^verbatim>\<open>addLink\<close>: the test trims the URL but the stored URL is the untrimmed input;
  the label defaults to the URL.\<close>

definition add_link :: "editor \<Rightarrow> editor" where
  "add_link st =
     (if js_trim (new_link_url st) \<noteq> [] then
        st\<lparr>ed_links := ed_links st @
             [\<lparr>lurl = new_link_url st,
               label = (if new_link_label st \<noteq> [] then new_link_label st else new_link_url st),
               ltype = Other\<rparr>],
           new_link_url := [], new_link_label := []\<rparr>
      else st)"

definition remove_link :: "string \<Rightarrow> editor \<Rightarrow> editor" where
  "remove_link u st = st\<lparr>ed_links := filter (\<lambda>l. lurl l \<noteq> u) (ed_links st)\<rparr>"

definition editor_patch :: "editor \<Rightarrow> car_patch" where
  "editor_patch st = \<lparr>p_notes = ed_notes st, p_tags = ed_tags st, p_links = ed_links st\<rparr>"

datatype editor_op =
  Ed_tab detail_tab | Ed_notes string | Ed_new_tag string | Ed_add_tag | Ed_remove_tag string
| Ed_link_label string | Ed_link_url string | Ed_add_link | Ed_remove_link string

fun editor_step :: "editor_op \<Rightarrow> editor \<Rightarrow> editor" where
  "editor_step (Ed_tab t) st = st\<lparr>active_tab := t\<rparr>"
| "editor_step (Ed_notes n) st = st\<lparr>ed_notes := n\<rparr>"
| "editor_step (Ed_new_tag t) st = st\<lparr>new_tag := t\<rparr>"
| "editor_step Ed_add_tag st = add_tag st"
| "editor_step (Ed_remove_tag t) st = remove_tag t st"
| "editor_step (Ed_link_label l) st = st\<lparr>new_link_label := l\<rparr>"
| "editor_step (Ed_link_url u) st = st\<lparr>new_link_url := u\<rparr>"
| "editor_step Ed_add_link st = add_link st"
| "editor_step (Ed_remove_link u) st = remove_link u st"

inductive editor_reachable :: "car \<Rightarrow> editor \<Rightarrow> bool" for c where
  start: "editor_reachable c (editor_open c)"
| step: "editor_reachable c st \<Longrightarrow> editor_reachable c (editor_step op st)"

text \<open>\<^verbatim>\<open>handleSave\<close> (lines 36--44) with the garage's \<^verbatim>\<open>onUpdate\<close>: nothing
  happens for an empty id; otherwise the garage runs \<^verbatim>\<open>handleUpdateCar\<close>, and when that
  replaced the selected listing the modal's effect resynchronises the editor.\<close>

definition modal_save :: "car \<Rightarrow> editor \<Rightarrow> bool \<Rightarrow> garage \<Rightarrow> garage \<times> editor" where
  "modal_save c st ok g =
     (let i = car_id c in
      if i = [] then (g, st)
      else
        (let g' = handle_update_car i (editor_patch st) ok g;
             replaced = (ok \<and> i \<in> set (doc_ids (store g))
                         \<and> map_option car_id (selected_car (app g)) = Some i)
         in (g', if replaced then (case selected_car (app g') of Some c' \<Rightarrow> editor_sync c' st
                                                             | None \<Rightarrow> st)
                 else st)))"

section \<open>What the modal shows\<close>

text \<open>\<^verbatim>\<open>x.toFixed(0)\<close>: the nearest integer, halves away from zero.\<close>

definition js_to_fixed0 :: "rat \<Rightarrow> int" where
  "js_to_fixed0 x = (if 0 \<le> x then \<lfloor>x + 1 / 2\<rfloor> else - \<lfloor>- x + 1 / 2\<rfloor>)"

text \<open>\<^verbatim>\<open>xs.slice(0, k)\<close> and the count of the rest when \<^verbatim>\<open>xs.length > k\<close>.\<close>

definition preview :: "nat \<Rightarrow> 'a list \<Rightarrow> 'a list \<times> nat option" where
  "preview k xs = (take k xs, if k < length xs then Some (length xs - k) else None)"

record info_view =
  iv_title :: "string option"
  iv_audit_accepted :: bool
  iv_soh_good :: bool
  iv_soh :: js_num
  iv_mileage_k :: "int option"
  iv_warnings :: "(string list \<times> nat option) option"
  iv_features :: "(string list \<times> nat option) option"
  iv_notes :: "string option"
  iv_tags :: "string list"

text \<open>The info tab (lines 145--296). The warnings box shows the first three warnings
  when there are any, else the no-warnings message (\<open>None\<close>); the equipment list the
  first eight features; the notes and tags are the editor's drafts.\<close>

definition info_view_of :: "car \<Rightarrow> editor \<Rightarrow> info_view" where
  "info_view_of c st =
     \<lparr>iv_title = model c,
      iv_audit_accepted = 90 \<le> or0 (expert_score c),
      iv_soh_good = 90 \<le> (if truthy (soh c) then or0 (soh c) else 100),
      iv_soh = (if truthy (soh c) then soh c else None),
      iv_mileage_k = (if truthy (mileage c) then Some (js_to_fixed0 (of_int (or0 (mileage c)) / 1000))
                      else None),
      iv_warnings = (case warnings c of Some ws \<Rightarrow> if ws \<noteq> [] then Some (preview 3 ws) else None
                     | None \<Rightarrow> None),
      iv_features = map_option (preview 8) (features c),
      iv_notes = (if ed_notes st \<noteq> [] then Some (ed_notes st) else None),
      iv_tags = ed_tags st\<rparr>"

datatype verdict_class = Verdict_buy | Verdict_avoid | Verdict_caution

datatype score_ring = Ring_green | Ring_orange | Ring_red

text \<open>\<^verbatim>\<open>audit_verdict?.includes('KOUPIT')\<close>, then \<^verbatim>\<open>includes('RUCE')\<close>.\<close>

definition verdict_class_of :: "string option \<Rightarrow> verdict_class" where
  "verdict_class_of v =
     (case v of None \<Rightarrow> Verdict_caution
      | Some s \<Rightarrow> if js_includes s ''KOUPIT'' then Verdict_buy
                  else if js_includes s ''RUCE'' then Verdict_avoid else Verdict_caution)"

record analysis_view =
  an_verdict :: verdict_class
  an_ring :: score_ring
  an_pulse :: bool
  an_score :: int

text \<open>The analysis tab (lines 396--467): verdict colour, score ring colour and pulse.\<close>

definition analysis_view_of :: "car \<Rightarrow> analysis_view" where
  "analysis_view_of c =
     (let score = or0 (expert_score c) in
      \<lparr>an_verdict = verdict_class_of (audit_verdict c),
       an_ring = (if 80 \<le> score then Ring_green else if 50 \<le> score then Ring_orange else Ring_red),
       an_pulse = 70 \<le> score,
       an_score = score\<rparr>)"

record side_panel =
  sp_real_price :: int
  sp_profit :: int
  sp_profit_positive :: bool
  sp_open_url :: "string option"

text \<open>The right-hand panel (lines 73--80 and 482--545): \<^verbatim>\<open>formatPrice\<close> of the
  real price and the profit, and the button that opens \<^verbatim>\<open>car.url\<close>, disabled when
  the URL is absent or empty.\<close>

definition side_panel_of :: "car \<Rightarrow> side_panel" where
  "side_panel_of c =
     (let profit = or0 (arbitrage_profit c) in
      \<lparr>sp_real_price = or0 (real_price_czk c),
       sp_profit = profit,
       sp_profit_positive = 0 < profit,
       sp_open_url = (case url c of Some u \<Rightarrow> if u \<noteq> [] then Some u else None | None \<Rightarrow> None)\<rparr>)"

text \<open>The modal's render (lines 81--545): the tab bar selects the pane of the left column
  (the info tab, the notes editor, the analysis tab, or the calculator tab, which mounts
  \<^verbatim>\<open>ScrollytellingCalculatorWrapper\<close> with its own reveal state), and the right column
  is the financial panel.\<close>

datatype detail_pane =
  Pane_info info_view | Pane_notes editor | Pane_analysis analysis_view | Pane_calculator breakdown_view

definition detail_view_of :: "car \<Rightarrow> editor \<Rightarrow> reveal_state \<Rightarrow> detail_pane \<times> side_panel" where
  "detail_view_of c ed rv =
     ((case active_tab ed of
         Info_tab \<Rightarrow> Pane_info (info_view_of c ed)
       | Notes_tab \<Rightarrow> Pane_notes ed
       | Analysis_tab \<Rightarrow> Pane_analysis (analysis_view_of c)
       | Calculator_tab \<Rightarrow> Pane_calculator (breakdown_view_of c rv)),
      side_panel_of c)"

fun editor_run :: "editor_op list \<Rightarrow> editor \<Rightarrow> editor" where
  "editor_run [] st = st"
| "editor_run (op # ops) st = editor_run ops (editor_step op st)"

text \<open>The tags an editor may hold: distinct, and each one of the listing's own tags or a
  trimmed non-empty text.\<close>

definition tags_ok :: "car \<Rightarrow> editor \<Rightarrow> bool" where
  "tags_ok c st \<longleftrightarrow> distinct (ed_tags st)
     \<and> (\<forall>t\<in>set (ed_tags st). t \<in> set (tags_of c) \<or> (t \<noteq> [] \<and> js_trim t = t))"

section \<open>Lemmas\<close>

lemma tags_ok_add_tag: "tags_ok c st \<Longrightarrow> tags_ok c (add_tag st)"
  by (auto simp add: tags_ok_def add_tag_def Let_def)

lemma tags_ok_remove_tag: "tags_ok c st \<Longrightarrow> tags_ok c (remove_tag t st)"
  by (auto simp add: tags_ok_def remove_tag_def)

lemma tags_ok_step:
  assumes "tags_ok c st"
  shows "tags_ok c (editor_step op st)"
proof (cases op)
  case Ed_add_tag
  then show ?thesis using assms by (simp add: tags_ok_add_tag)
next
  case (Ed_remove_tag t)
  then show ?thesis using assms by (simp add: tags_ok_remove_tag)
qed (use assms in \<open>simp_all add: tags_ok_def add_link_def remove_link_def\<close>)

lemma editor_run_reachable: "editor_reachable c st \<Longrightarrow> editor_reachable c (editor_run ops st)"
  by (induction ops arbitrary: st) (auto intro: editor_reachable.step)

lemma handle_update_car_selected:
  assumes "selected_car (app g) = Some c" and "car_id c = i" and "i \<in> set (doc_ids (store g))"
  shows "selected_car (app (handle_update_car i p True g)) = Some (patch_car p c)
         \<and> notification (app (handle_update_car i p True g)) = Some (Success, Msg_saved)"
  using assms by (simp add: handle_update_car_def notify_def add_timer_def Let_def)

section \<open>Properties of the annotation editor\<close>

text \<open>C19. Invariant of the editor: starting from a listing whose tags are distinct, every
  reachable editor state holds distinct tags, each one of the listing's tags or a trimmed
  non-empty text the user typed.\<close>

theorem editor_tags_invariant:
  assumes "editor_reachable c st" and "distinct (tags_of c)"
  shows "distinct (ed_tags st)
         \<and> (\<forall>t\<in>set (ed_tags st). t \<in> set (tags_of c) \<or> (t \<noteq> [] \<and> js_trim t = t))"
proof -
  from assms have "tags_ok c st"
  proof (induction rule: editor_reachable.induct)
    case start
    then show ?case
      by (simp add: tags_ok_def editor_open_def editor_sync_def editor_init_def)
  next
    case (step st op)
    then show ?case by (simp add: tags_ok_step)
  qed
  then show ?thesis by (simp add: tags_ok_def)
qed

text \<open>Round trip of the tag editor: adding a new trimmed non-empty tag and removing
  it again restores the tags, and typing the same tag again and adding it changes
  nothing.\<close>

theorem add_tag_remove_tag_roundtrip:
  assumes "js_trim (new_tag st) = t" and "t \<noteq> []" and "t \<notin> set (ed_tags st)"
  shows "ed_tags (remove_tag t (add_tag st)) = ed_tags st
         \<and> add_tag ((add_tag st)\<lparr>new_tag := new_tag st\<rparr>) = (add_tag st)\<lparr>new_tag := new_tag st\<rparr>"
  using assms by (auto simp add: add_tag_def remove_tag_def Let_def filter_id_conv)


text \<open>C20. Saving from the detail modal: when the save succeeds, the garage shows the
  saved annotations on the selected listing and reports success, and the modal's effect
  runs on the replaced listing: the drafts equal what was saved, and the modal switches
  back to the info tab, whichever tab the user saved from.\<close>

theorem modal_save_success:
  assumes "selected_car (app g) = Some c" and "car_id c \<noteq> []"
    and "car_id c \<in> set (doc_ids (store g))"
  shows "let (g', st') = modal_save c st True g in
           selected_car (app g') = Some (patch_car (editor_patch st) c)
           \<and> notification (app g') = Some (Success, Msg_saved)
           \<and> ed_notes st' = ed_notes st \<and> ed_tags st' = ed_tags st \<and> ed_links st' = ed_links st
           \<and> active_tab st' = Info_tab"
  using assms handle_update_car_selected [OF assms(1) refl assms(3), of "editor_patch st"]
  by (simp add: modal_save_def Let_def editor_sync_def tags_of_def patch_car_def editor_patch_def)

text \<open>A failed save loses nothing: the garage only shows the error notification and
  the editor keeps its drafts and its tab.\<close>

theorem modal_save_failure:
  "modal_save c st False g = (if car_id c = [] then g else notify Failure Msg_save_error g, st)"
  by (simp add: modal_save_def Let_def handle_update_car_fail)

text \<open>Removing a link removes every link with the same URL: after adding the same
  URL twice (once with a label), deleting one of the two entries deletes both.\<close>

theorem remove_link_removes_all_with_url:
  "let c = reconcile ''1'' empty_doc;
       st = editor_run [Ed_link_url ''https://yt/x'', Ed_add_link, Ed_link_url ''https://yt/x'',
                        Ed_link_label ''review'', Ed_add_link] (editor_open c)
   in editor_reachable c st \<and> length (ed_links st) = 2
      \<and> ed_links (editor_step (Ed_remove_link ''https://yt/x'') st) = []"
proof -
  let ?c = "reconcile ''1'' empty_doc"
  let ?ops = "[Ed_link_url ''https://yt/x'', Ed_add_link, Ed_link_url ''https://yt/x'',
               Ed_link_label ''review'', Ed_add_link]"
  have r: "editor_reachable ?c (editor_run ?ops (editor_open ?c))"
    by (rule editor_run_reachable [OF editor_reachable.start])
  have v: "length (ed_links (editor_run ?ops (editor_open ?c))) = 2
      \<and> ed_links (editor_step (Ed_remove_link ''https://yt/x'') (editor_run ?ops (editor_open ?c))) = []"
    by code_simp
  from r v show ?thesis by (simp add: Let_def)
qed

text \<open>The card and the modal disagree on a listing without a battery health value:
  the card colours its SOH red (\<^verbatim>\<open>(data.soh || 0) < 90\<close>), the modal green
  (\<^verbatim>\<open>(car.soh || 100) >= 90\<close>), and both print \<open>?\<close>.\<close>

theorem missing_soh_colours_disagree:
  "let c = reconcile ''1'' empty_doc
   in card_soh_low (card_view_of c) \<and> iv_soh_good (info_view_of c (editor_open c))
      \<and> card_soh (card_view_of c) = None \<and> iv_soh (info_view_of c (editor_open c)) = None"
  by (simp add: card_view_of_def info_view_of_def empty_doc_def)

section \<open>Witnesses\<close>

theorem editor_tags_invariant_witness:
  "let c = reconcile ''1'' (empty_doc\<lparr>tags := Some [''fav'']\<rparr>);
       st = editor_run [Ed_new_tag '' cheap '', Ed_add_tag, Ed_new_tag ''fav'', Ed_add_tag,
                        Ed_new_tag ''   '', Ed_add_tag] (editor_open c)
   in editor_reachable c st \<and> distinct (tags_of c) \<and> ed_tags st = [''fav'', ''cheap'']
      \<and> distinct (ed_tags st)"
proof -
  let ?c = "reconcile ''1'' (empty_doc\<lparr>tags := Some [''fav'']\<rparr>)"
  let ?ops = "[Ed_new_tag '' cheap '', Ed_add_tag, Ed_new_tag ''fav'', Ed_add_tag,
               Ed_new_tag ''   '', Ed_add_tag]"
  have r: "editor_reachable ?c (editor_run ?ops (editor_open ?c))"
    by (rule editor_run_reachable [OF editor_reachable.start])
  have d: "distinct (tags_of ?c)" by code_simp
  have v: "ed_tags (editor_run ?ops (editor_open ?c)) = [''fav'', ''cheap'']" by code_simp
  show ?thesis using r d v editor_tags_invariant [OF r d] by (simp add: Let_def)
qed

theorem add_tag_remove_tag_roundtrip_witness:
  "let st = editor_init\<lparr>ed_tags := [''fav''], new_tag := '' cheap''\<rparr>
   in js_trim (new_tag st) = ''cheap'' \<and> ''cheap'' \<notin> set (ed_tags st)
      \<and> ed_tags (add_tag st) = [''fav'', ''cheap'']
      \<and> ed_tags (remove_tag ''cheap'' (add_tag st)) = [''fav'']"
proof -
  let ?st = "editor_init\<lparr>ed_tags := [''fav''], new_tag := '' cheap''\<rparr>"
  have h: "js_trim (new_tag ?st) = ''cheap''" by code_simp
  have n: "''cheap'' \<notin> set (ed_tags ?st)" by code_simp
  have a: "ed_tags (add_tag ?st) = [''fav'', ''cheap'']" by code_simp
  show ?thesis using add_tag_remove_tag_roundtrip [OF h _ n] h n a by (simp add: Let_def)
qed

theorem modal_save_success_witness:
  "let st0 = [(''a'', empty_doc\<lparr>timestamp := Some 7\<rparr>)];
       g1 = garage_run [Mount None True, Fetch_arrives 0] (garage_init st0);
       c = hd (cars (app g1));
       g = garage_step (Select_car (Some c)) g1;
       st = editor_run [Ed_tab Notes_tab, Ed_notes ''ask for service book''] (editor_open c)
   in selected_car (app g) = Some c \<and> car_id c = ''a'' \<and> car_id c \<in> set (doc_ids (store g))
      \<and> active_tab st = Notes_tab
      \<and> active_tab (snd (modal_save c st True g)) = Info_tab
      \<and> ed_notes (snd (modal_save c st True g)) = ''ask for service book''"
proof -
  let ?g1 = "garage_run [Mount None True, Fetch_arrives 0]
               (garage_init [(''a'', empty_doc\<lparr>timestamp := Some 7\<rparr>)])"
  let ?c = "hd (cars (app ?g1))"
  let ?g = "garage_step (Select_car (Some ?c)) ?g1"
  let ?st = "editor_run [Ed_tab Notes_tab, Ed_notes ''ask for service book''] (editor_open ?c)"
  have s: "selected_car (app ?g) = Some ?c" by (simp add: set_app_def)
  have i: "car_id ?c = ''a''" by code_simp
  have m: "car_id ?c \<in> set (doc_ids (store ?g))" by code_simp
  have t: "active_tab ?st = Notes_tab" by code_simp
  have n: "ed_notes ?st = ''ask for service book''" by code_simp
  from modal_save_success [OF s _ m, of ?st] i
  have "let (g', st') = modal_save ?c ?st True ?g in
          ed_notes st' = ed_notes ?st \<and> active_tab st' = Info_tab"
    by (simp add: Let_def split: prod.splits)
  then show ?thesis using s i m t n by (simp add: Let_def split: prod.splits)
qed

end
