(* ===== verification/AnimatedPrice.thy ===== *)
theory AnimatedPrice
  imports CostBreakdown
begin

text \<open>
  The animated total of \<^verbatim>\<open>src/web/src/components/ScrollytellingCalculator.tsx\<close>
  (\<^verbatim>\<open>AnimatedPrice\<close>, lines 7--44), which the calculator renders with
  \<^verbatim>\<open>value={currentTotal}\<close> (line 235). Its state is the \<^verbatim>\<open>display\<close> state, the ref
  \<^verbatim>\<open>prevRef\<close>, and the one pending \<^verbatim>\<open>requestAnimationFrame\<close> callback with what its
  closure captured (\<^verbatim>\<open>from\<close>, \<^verbatim>\<open>to\<close>, \<^verbatim>\<open>start\<close>). The effect on
  \<^verbatim>\<open>[value]\<close> cancels the pending frame (its cleanup) and schedules a new one; a frame
  at time \<open>now\<close> sets \<^verbatim>\<open>display\<close> and either schedules the next frame or, at the
  end, stores the target in \<^verbatim>\<open>prevRef\<close>. Times are milliseconds as exact rationals.
\<close>

record anim_state =
  an_value :: int
  an_display :: int
  an_prev :: int
  an_from :: int
  an_to :: int
  an_start :: rat
  an_pending :: bool

text \<open>The ease-out cubic of line 22 and the progress of line 20 (duration 600 ms).\<close>

definition ease_out :: "rat \<Rightarrow> rat" where
  "ease_out p = 1 - (1 - p) ^ 3"

definition anim_progress :: "rat \<Rightarrow> rat \<Rightarrow> rat" where
  "anim_progress start now = min ((now - start) / 600) 1"

definition anim_frame_value :: "int \<Rightarrow> int \<Rightarrow> rat \<Rightarrow> int" where
  "anim_frame_value from to p = js_round (of_int from + of_int (to - from) * ease_out p)"

text \<open>The effect of lines 12--34, run when \<^verbatim>\<open>value\<close> differs from the previous render's.\<close>

definition anim_set_value :: "int \<Rightarrow> rat \<Rightarrow> anim_state \<Rightarrow> anim_state" where
  "anim_set_value v now st =
     (if v = an_value st then st
      else st\<lparr>an_value := v, an_from := an_prev st, an_to := v, an_start := now, an_pending := True\<rparr>)"

text \<open>\<^verbatim>\<open>tick\<close> (lines 18--30).\<close>

definition anim_tick :: "rat \<Rightarrow> anim_state \<Rightarrow> anim_state" where
  "anim_tick now st =
     (if \<not> an_pending st then st
      else let p = anim_progress (an_start st) now;
               st1 = st\<lparr>an_display := anim_frame_value (an_from st) (an_to st) p\<rparr>
           in if p < 1 then st1 else st1\<lparr>an_prev := an_to st, an_pending := False\<rparr>)"

text \<open>The first render shows 0, then the effect runs with the first value.\<close>

definition anim_mount :: "int \<Rightarrow> rat \<Rightarrow> anim_state" where
  "anim_mount v now =
     anim_set_value v now \<lparr>an_value = 0, an_display = 0, an_prev = 0, an_from = 0, an_to = 0,
                           an_start = now, an_pending = False\<rparr>"

datatype anim_event = Anim_value int rat | Anim_frame rat

fun anim_step :: "anim_event \<Rightarrow> anim_state \<Rightarrow> anim_state" where
  "anim_step (Anim_value v now) st = anim_set_value v now st"
| "anim_step (Anim_frame now) st = anim_tick now st"

fun anim_run :: "anim_event list \<Rightarrow> anim_state \<Rightarrow> anim_state" where
  "anim_run [] st = st"
| "anim_run (e # es) st = anim_run es (anim_step e st)"

text \<open>The rendered counter (lines 36--44): the \<^verbatim>\<open>display\<close> state as the number
  shown, orange when \<^verbatim>\<open>warning\<close> is set and green otherwise, the pulse class, and the
  element's \<^verbatim>\<open>key\<close>, the current value, so the span is re-created (and its CSS
  animation restarted) on every new value.\<close>

datatype price_color = Price_orange | Price_emerald

record price_counter =
  pc_shown :: int
  pc_color :: price_color
  pc_pulse :: bool
  pc_key :: int

definition price_counter_of :: "anim_state \<Rightarrow> bool option \<Rightarrow> bool \<Rightarrow> price_counter" where
  "price_counter_of st warning pulse =
     \<lparr>pc_shown = an_display st,
      pc_color = (if warning = Some True then Price_orange else Price_emerald),
      pc_pulse = pulse,
      pc_key = an_value st\<rparr>"

section \<open>Lemmas\<close>

lemma ease_out_bounds: "0 \<le> p \<Longrightarrow> p \<le> 1 \<Longrightarrow> 0 \<le> ease_out p \<and> ease_out p \<le> 1"
proof -
  assume "0 \<le> p" "p \<le> 1"
  then have "0 \<le> 1 - p" "1 - p \<le> 1" by simp_all
  then have "0 \<le> (1 - p) ^ 3" "(1 - p) ^ 3 \<le> 1" by (simp_all add: power_le_one)
  then show ?thesis by (simp add: ease_out_def)
qed

lemma ease_out_mono: "0 \<le> p \<Longrightarrow> p \<le> q \<Longrightarrow> q \<le> 1 \<Longrightarrow> ease_out p \<le> ease_out q"
proof -
  assume "0 \<le> p" "p \<le> q" "q \<le> 1"
  then have "(1 - q) ^ 3 \<le> (1 - p) ^ 3" by (intro power_mono) simp_all
  then show ?thesis by (simp add: ease_out_def)
qed

lemma js_round_between:
  fixes x :: rat
  assumes "of_int a \<le> x" and "x \<le> of_int b"
  shows "a \<le> js_round x \<and> js_round x \<le> b"
proof -
  have "of_int a \<le> x + 1 / 2" using assms(1) by simp
  then have "a \<le> \<lfloor>x + 1 / 2\<rfloor>" by (simp add: le_floor_iff)
  moreover have "x + 1 / 2 < of_int (b + 1)" using assms(2) by simp
  then have "\<lfloor>x + 1 / 2\<rfloor> < b + 1" by (simp only: floor_less_iff)
  then have "\<lfloor>x + 1 / 2\<rfloor> \<le> b" by simp
  ultimately show ?thesis by (simp add: js_round_def)
qed

lemma js_round_mono: "(x :: rat) \<le> y \<Longrightarrow> js_round x \<le> js_round y"
  unfolding js_round_def by (intro floor_mono) simp

lemma js_round_of_int [simp]: "js_round (of_int n) = n"
  unfolding js_round_def floor_eq_iff by simp

lemma progress_bounds: "s \<le> t \<Longrightarrow> 0 \<le> anim_progress s t \<and> anim_progress s t \<le> 1"
  by (simp add: anim_progress_def)

lemma progress_mono: "t \<le> t' \<Longrightarrow> anim_progress s t \<le> anim_progress s t'"
  by (auto simp add: anim_progress_def min_def divide_right_mono)

lemma ease_out_one [simp]: "ease_out 1 = 1"
  by (simp add: ease_out_def)

section \<open>Properties of the animated total\<close>

lemma progress_lt_one: "s \<le> t \<Longrightarrow> t < s + 600 \<Longrightarrow> anim_progress s t < 1"
  by (simp add: anim_progress_def min_def)

lemma frame_value_at_start [simp]: "anim_frame_value a b (anim_progress t t) = a"
  by (simp add: anim_frame_value_def anim_progress_def ease_out_def)

lemma frame_value_above_start:
  assumes "a \<le> b" and "s \<le> t"
  shows "a \<le> anim_frame_value a b (anim_progress s t)"
proof -
  have e: "0 \<le> ease_out (anim_progress s t)" "ease_out (anim_progress s t) \<le> 1"
    using ease_out_bounds progress_bounds [OF assms(2)] by blast+
  let ?x = "of_int a + of_int (b - a) * ease_out (anim_progress s t) :: rat"
  have "of_int a \<le> ?x" using assms(1) e by simp
  moreover have "?x \<le> of_int b"
  proof -
    have "of_int (b - a) * ease_out (anim_progress s t) \<le> of_int (b - a) * (1::rat)"
      using assms(1) e by (intro mult_left_mono) simp_all
    then show ?thesis by simp
  qed
  ultimately show ?thesis using js_round_between by (simp add: anim_frame_value_def)
qed

text \<open>C28. Every frame of an animation from \<open>a\<close> to \<open>b\<close> shows a whole number between
  \<open>a\<close> and \<open>b\<close>, and for a rising target the shown number never decreases from one frame
  to a later one (frame times not before the start).\<close>

theorem anim_frame_bounds:
  assumes "s \<le> t" and "t \<le> t'"
  shows "min a b \<le> anim_frame_value a b (anim_progress s t)
         \<and> anim_frame_value a b (anim_progress s t) \<le> max a b
         \<and> (a \<le> b \<longrightarrow> anim_frame_value a b (anim_progress s t) \<le> anim_frame_value a b (anim_progress s t'))"
proof -
  let ?p = "anim_progress s t" and ?p' = "anim_progress s t'"
  have p: "0 \<le> ?p" "?p \<le> 1" using progress_bounds [OF assms(1)] by simp_all
  have p': "?p \<le> ?p'" "?p' \<le> 1" using progress_mono [OF assms(2)] progress_bounds [of s t'] assms by simp_all
  have e: "0 \<le> ease_out ?p" "ease_out ?p \<le> 1" using ease_out_bounds [OF p] by simp_all
  let ?x = "of_int a + of_int (b - a) * ease_out ?p :: rat"
  have lo: "of_int (min a b) \<le> ?x"
  proof (cases "a \<le> b")
    case True
    then have "0 \<le> of_int (b - a) * ease_out ?p" using e by simp
    with True show ?thesis by simp
  next
    case False
    then have "of_int (b - a) \<le> (0::rat)" by simp
    then have f: "of_int (b - a) * 1 \<le> of_int (b - a) * ease_out ?p"
      using mult_left_mono_neg [OF e(2)] by blast
    have eq: "of_int (min a b) = of_int a + of_int (b - a) * (1::rat)" using False by simp
    show ?thesis unfolding eq by (rule add_left_mono) (rule f)
  qed
  have hi: "?x \<le> of_int (max a b)"
  proof (cases "a \<le> b")
    case True
    then have "of_int (b - a) * ease_out ?p \<le> of_int (b - a) * 1"
      using e by (intro mult_left_mono) simp_all
    with True show ?thesis by simp
  next
    case False
    then have "of_int (b - a) * ease_out ?p \<le> 0" using e by (simp add: mult_nonpos_nonneg)
    with False show ?thesis by simp
  qed
  have mono: "a \<le> b \<longrightarrow> ?x \<le> of_int a + of_int (b - a) * ease_out ?p'"
    using ease_out_mono [OF p(1) p'] by (simp add: mult_left_mono)
  show ?thesis
    using js_round_between [OF lo hi] mono js_round_mono
    by (simp add: anim_frame_value_def)
qed

text \<open>The animation always ends: the first frame at least 600 ms after the start shows
  exactly the target, stores it in \<^verbatim>\<open>prevRef\<close> and schedules no further frame.\<close>

lemma anim_tick_completes:
  assumes "an_pending st" and "an_start st + 600 \<le> now"
  shows "anim_tick now st = st\<lparr>an_display := an_to st, an_prev := an_to st, an_pending := False\<rparr>"
proof -
  have "anim_progress (an_start st) now = 1" using assms(2) by (simp add: anim_progress_def)
  with assms(1) show ?thesis by (simp add: anim_tick_def anim_frame_value_def Let_def)
qed

text \<open>C32. A new target during a running animation restarts it from \<^verbatim>\<open>prevRef\<close>, the
  last target reached, not from the number shown. Whatever the state, when a rising value
  \<open>v1\<close> starts an animation at \<open>s\<close> and a new value \<open>v2\<close> arrives at \<open>t\<close>, within 600 ms,
  the frames of the new animation interpolate from \<^verbatim>\<open>prevRef\<close> to \<open>v2\<close>; a frame at
  \<open>t\<close> itself shows \<^verbatim>\<open>prevRef\<close> again, at most the number shown before, so the total
  jumps back although the target rose.\<close>

theorem animated_total_jumps_back:
  assumes "v1 \<noteq> an_value st" and "v2 \<noteq> v1" and "s \<le> t" and "t < s + 600" and "t \<le> t'"
    and "an_prev st \<le> v1"
  shows "let st1 = anim_run [Anim_value v1 s, Anim_frame t] st;
             st2 = anim_run [Anim_value v2 t, Anim_frame t'] st1
         in an_display st1 = anim_frame_value (an_prev st) v1 (anim_progress s t)
            \<and> an_prev st \<le> an_display st1
            \<and> an_display st2 = anim_frame_value (an_prev st) v2 (anim_progress t t')
            \<and> (t' = t \<longrightarrow> an_display st2 = an_prev st)"
proof -
  have p: "anim_progress s t < 1" using assms(3,4) by (rule progress_lt_one)
  have up: "an_prev st \<le> anim_frame_value (an_prev st) v1 (anim_progress s t)"
    using assms(6,3) by (rule frame_value_above_start)
  show ?thesis
    using assms(1,2) p up
    by (simp add: anim_set_value_def anim_tick_def Let_def)
qed

section \<open>Witnesses\<close>

theorem anim_frame_bounds_witness:
  "0 \<le> anim_frame_value 0 504000 (anim_progress 0 300)
   \<and> anim_frame_value 0 504000 (anim_progress 0 300) \<le> anim_frame_value 0 504000 (anim_progress 0 316)"
  using anim_frame_bounds [of 0 300 316 0 504000] by simp

theorem animated_total_jumps_back_witness:
  "let st = anim_mount 0 0;
       st1 = anim_run [Anim_value 504000 0, Anim_frame 300] st;
       st2 = anim_run [Anim_value 529000 300, Anim_frame 300] st1
   in an_display st1 = 441000 \<and> an_display st2 = 0"
proof -
  have h1: "504000 \<noteq> an_value (anim_mount 0 0)" by (simp add: anim_mount_def anim_set_value_def)
  have h6: "an_prev (anim_mount 0 0) \<le> 504000" by (simp add: anim_mount_def anim_set_value_def)
  have pr: "an_prev (anim_mount 0 0) = 0" by (simp add: anim_mount_def anim_set_value_def)
  have fv: "anim_frame_value 0 504000 (anim_progress 0 300) = 441000" by code_simp
  note t = animated_total_jumps_back [OF h1, of 529000 0 300 300, simplified]
  show ?thesis using t pr fv by (simp add: Let_def)
qed

end
