(* ===== verification/YouTube.thy ===== *)
theory YouTube
  imports Prelude
begin

text \<open>
  The video helpers of \<^verbatim>\<open>src/web/src/utils/videoUtils.ts\<close>. \<open>extract_youtube_id\<close>
  is \<^verbatim>\<open>extractYoutubeId\<close> with its regular expression
  \<^verbatim>\<open>/^.*((youtu.be\/)|(v\/)|(\/u\/\w\/)|(embed\/)|(watch\?))\??v?=?([^#&?]*).*/\<close>
  written out as the backtracking matcher runs it: the leading \<^verbatim>\<open>.*\<close> is greedy
  and \<^verbatim>\<open>.\<close> does not match a line terminator, so the matcher tries the start
  positions of the alternation from the rightmost one reachable without crossing a line
  terminator down to 0, and at each position the five alternatives in order. Once an
  alternative matches, the rest of the pattern always matches (every remaining part may
  be empty), so the first success decides: group 7 is what follows the alternative,
  after an optional \<open>?\<close>, an optional \<open>v\<close> and an optional \<open>=\<close>, up to the first
  \<open>#\<close>, \<open>&\<close> or \<open>?\<close>. Line terminators are the ASCII ones (line feed, carriage
  return); strings are byte strings.
\<close>

section \<open>The regular expression\<close>

definition line_term :: "char \<Rightarrow> bool" where
  "line_term c \<longleftrightarrow> c = CHR 0x0A \<or> c = CHR 0x0D"

text \<open>\<^verbatim>\<open>\w\<close>: ASCII letters, digits and underscore.\<close>

definition word_char :: "char \<Rightarrow> bool" where
  "word_char c \<longleftrightarrow>
     (let n = (of_char c :: nat) in (48 \<le> n \<and> n \<le> 57) \<or> (65 \<le> n \<and> n \<le> 90) \<or> (97 \<le> n \<and> n \<le> 122) \<or> n = 95)"

text \<open>The alternation \<^verbatim>\<open>(youtu.be\/)|(v\/)|(\/u\/\w\/)|(embed\/)|(watch\?)\<close> at the
  start of a suffix: the length of the first alternative that matches.\<close>

fun alt_len :: "string \<Rightarrow> nat option" where
  "alt_len t =
     (if length t \<ge> 9 \<and> take 5 t = ''youtu'' \<and> \<not> line_term (t ! 5) \<and> take 3 (drop 6 t) = ''be/''
      then Some 9
      else if take 2 t = ''v/'' then Some 2
      else if length t \<ge> 5 \<and> take 3 t = ''/u/'' \<and> word_char (t ! 3) \<and> t ! 4 = CHR ''/''
      then Some 5
      else if take 6 t = ''embed/'' then Some 6
      else if take 6 t = ''watch?'' then Some 6
      else None)"

definition drop_opt :: "char \<Rightarrow> string \<Rightarrow> string" where
  "drop_opt c t = (case t of d # t' \<Rightarrow> if d = c then t' else t | [] \<Rightarrow> [])"

text \<open>\<^verbatim>\<open>\??v?=?([^#&?]*)\<close> on what follows the alternative.\<close>

definition group7 :: "string \<Rightarrow> string" where
  "group7 t =
     takeWhile (\<lambda>c. c \<noteq> CHR ''#'' \<and> c \<noteq> CHR ''&'' \<and> c \<noteq> CHR ''?'')
       (drop_opt CHR ''='' (drop_opt CHR ''v'' (drop_opt CHR ''?'' t)))"

definition group_at :: "string \<Rightarrow> nat \<Rightarrow> string option" where
  "group_at s i = map_option (\<lambda>n. group7 (drop n (drop i s))) (alt_len (drop i s))"

text \<open>The greedy prefix: positions \<open>i\<close>, \<open>i - 1\<close>, ..., \<open>0\<close>.\<close>

fun yt_search :: "string \<Rightarrow> nat \<Rightarrow> string option" where
  "yt_search s 0 = group_at s 0"
| "yt_search s (Suc i) = (case group_at s (Suc i) of Some g \<Rightarrow> Some g | None \<Rightarrow> yt_search s i)"

definition yt_match :: "string \<Rightarrow> string option" where
  "yt_match s = yt_search s (length (takeWhile (\<lambda>c. \<not> line_term c) s))"

section \<open>The helpers of \<^verbatim>\<open>videoUtils.ts\<close>\<close>

definition extract_youtube_id :: "string \<Rightarrow> string option" where
  "extract_youtube_id url =
     (if url = [] then None
      else if js_includes url ''/results?'' then None
      else case yt_match url of
             Some g \<Rightarrow> if length g = 11 then Some g else None
           | None \<Rightarrow> None)"

definition youtube_thumbnail :: "string \<Rightarrow> string" where
  "youtube_thumbnail videoId = ''https://img.youtube.com/vi/'' @ videoId @ ''/maxresdefault.jpg''"

definition is_youtube_url :: "string \<Rightarrow> bool" where
  "is_youtube_url url \<longleftrightarrow> extract_youtube_id url \<noteq> None"

text \<open>The reference meaning of the greedy prefix \<^verbatim>\<open>^.*\<close>: of the start positions
  the prefix can reach (up to the first line terminator) at which an alternative
  matches, the match uses the rightmost.\<close>

definition alt_positions :: "string \<Rightarrow> nat \<Rightarrow> nat list" where
  "alt_positions s n = filter (\<lambda>i. alt_len (drop i s) \<noteq> None) [0..<Suc n]"

definition yt_match_spec :: "string \<Rightarrow> string option" where
  "yt_match_spec s =
     (let ps = alt_positions s (length (takeWhile (\<lambda>c. \<not> line_term c) s))
      in if ps = [] then None else group_at s (last ps))"

declare alt_len.simps [simp del]

section \<open>Lemmas\<close>

lemma sublist_drop_opt: "sublist (drop_opt c t) t"
  using sublist_drop [of 1 t] by (cases t) (auto simp add: drop_opt_def)

lemma sublist_group7: "sublist (group7 t) t"
  unfolding group7_def
  by (meson sublist_drop_opt sublist_takeWhile sublist_order.order_trans)

lemma group7_no_sep: "x \<in> set (group7 t) \<Longrightarrow> x \<noteq> CHR ''#'' \<and> x \<noteq> CHR ''&'' \<and> x \<noteq> CHR ''?''"
  unfolding group7_def by (drule set_takeWhileD) simp

lemma group_at_sub:
  assumes "group_at s i = Some g"
  shows "sublist g s \<and> (\<forall>x\<in>set g. x \<noteq> CHR ''#'' \<and> x \<noteq> CHR ''&'' \<and> x \<noteq> CHR ''?'')"
proof -
  from assms obtain n where g: "g = group7 (drop n (drop i s))"
    by (auto simp add: group_at_def)
  have "sublist g s"
    unfolding g by (meson sublist_group7 sublist_drop sublist_order.order_trans)
  then show ?thesis using group7_no_sep g by blast
qed

lemma yt_search_sub: "yt_search s i = Some g \<Longrightarrow> sublist g s \<and> (\<forall>x\<in>set g. x \<noteq> CHR ''#'' \<and> x \<noteq> CHR ''&'' \<and> x \<noteq> CHR ''?'')"
  by (induction i) (auto simp add: group_at_sub split: option.splits)

lemma group_at_None: "group_at s i = None \<longleftrightarrow> alt_len (drop i s) = None"
  by (simp add: group_at_def)

lemma yt_search_rightmost:
  "yt_search s n = (if alt_positions s n = [] then None else group_at s (last (alt_positions s n)))"
proof (induction n)
  case 0
  then show ?case by (simp add: alt_positions_def group_at_None)
next
  case (Suc n)
  show ?case
  proof (cases "alt_len (drop (Suc n) s) = None")
    case True
    then have "alt_positions s (Suc n) = alt_positions s n" and "group_at s (Suc n) = None"
      by (simp_all add: alt_positions_def group_at_def)
    with Suc.IH show ?thesis by simp
  next
    case False
    then have "alt_positions s (Suc n) = alt_positions s n @ [Suc n]" by (simp add: alt_positions_def)
    with False show ?thesis by (auto simp add: group_at_None split: option.split)
  qed
qed

section \<open>Properties of the video helpers\<close>

text \<open>The backtracking search agrees with the reference meaning of the pattern: the
  group is taken at the rightmost start position, before the first line terminator, where
  one of the five alternatives matches.\<close>

theorem yt_match_rightmost: "yt_match s = yt_match_spec s"
  by (simp add: yt_match_def yt_match_spec_def yt_search_rightmost Let_def)

text \<open>C23. What \<^verbatim>\<open>extractYoutubeId\<close> returns is an 11-character piece of the URL
  containing none of \<open>#\<close>, \<open>&\<close>, \<open>?\<close>, and never comes from a YouTube search
  link.\<close>

theorem extract_youtube_id_sound:
  assumes "extract_youtube_id u = Some v"
  shows "length v = 11 \<and> sublist v u \<and> (\<forall>x\<in>set v. x \<noteq> CHR ''#'' \<and> x \<noteq> CHR ''&'' \<and> x \<noteq> CHR ''?'')
         \<and> \<not> sublist ''/results?'' u"
proof -
  from assms have nr: "\<not> js_includes u ''/results?''" and m: "yt_match u = Some v"
    and l: "length v = 11"
    by (auto simp add: extract_youtube_id_def split: if_splits option.splits)
  from m have "sublist v u \<and> (\<forall>x\<in>set v. x \<noteq> CHR ''#'' \<and> x \<noteq> CHR ''&'' \<and> x \<noteq> CHR ''?'')"
    unfolding yt_match_def by (rule yt_search_sub)
  with nr l show ?thesis by (simp add: js_includes_iff_sublist)
qed

text \<open>The four URL forms the helper documents give the video id: \<open>watch?v=\<close>,
  \<open>youtu.be/\<close>, \<open>embed/\<close> and the mobile \<open>watch?v=\<close> with further parameters;
  a search link gives none.\<close>

theorem extract_youtube_id_documented_forms:
  "extract_youtube_id ''https://www.youtube.com/watch?v=dQw4w9WgXcQ'' = Some ''dQw4w9WgXcQ''
   \<and> extract_youtube_id ''https://youtu.be/dQw4w9WgXcQ'' = Some ''dQw4w9WgXcQ''
   \<and> extract_youtube_id ''https://www.youtube.com/embed/dQw4w9WgXcQ'' = Some ''dQw4w9WgXcQ''
   \<and> extract_youtube_id ''https://m.youtube.com/watch?v=dQw4w9WgXcQ&t=42'' = Some ''dQw4w9WgXcQ''
   \<and> extract_youtube_id ''https://www.youtube.com/results?search_query=enyaq'' = None"
  by code_simp

text \<open>The pattern assumes \<open>v\<close> is the first query parameter of a \<open>watch\<close>
  link: with another parameter first, the helper either rejects a valid link or, when that
  parameter happens to be 11 characters long, returns it as the video id.\<close>

theorem extract_youtube_id_parameter_order:
  "extract_youtube_id ''https://www.youtube.com/watch?feature=share&v=dQw4w9WgXcQ'' = None
   \<and> extract_youtube_id ''https://www.youtube.com/watch?app=desktop&v=dQw4w9WgXcQ'' = Some ''app=desktop''"
  by code_simp

section \<open>Witnesses\<close>

theorem extract_youtube_id_sound_witness:
  "extract_youtube_id ''https://youtu.be/dQw4w9WgXcQ?t=5'' = Some ''dQw4w9WgXcQ''
   \<and> sublist ''dQw4w9WgXcQ'' ''https://youtu.be/dQw4w9WgXcQ?t=5''"
proof -
  have e: "extract_youtube_id ''https://youtu.be/dQw4w9WgXcQ?t=5'' = Some ''dQw4w9WgXcQ''"
    by code_simp
  show ?thesis using e extract_youtube_id_sound [OF e] by simp
qed

end
