(* ===== verification/Links.thy ===== *)
theory Links
  imports StaticData
begin

text \<open>
  The bazaar search links of \<^verbatim>\<open>src/web/src/utils/linkGenerators.ts\<close>: the slug
  function \<^verbatim>\<open>norm\<close>, \<^verbatim>\<open>encodeURIComponent\<close>, and the eight generators of
  \<^verbatim>\<open>BazaarLinks\<close>. Strings are UTF-8 byte strings. \<^verbatim>\<open>normalize("NFD")\<close> followed
  by the removal of the combining marks U+0300--U+036F is \<open>strip_diacritics\<close>: it maps
  each precomposed letter of U+00C0--U+017F (Latin-1 Supplement and Latin Extended-A,
  where the catalogue's names lie) to its base letter, removes combining marks already
  present, and leaves every other character unchanged; the decomposition tables of the
  remaining Unicode blocks are not modelled. \<^verbatim>\<open>encodeURIComponent\<close> escapes each
  UTF-8 byte outside the unreserved set, as JavaScript does for well-formed strings. The
  search form's numbers are whole numbers; \<^verbatim>\<open>Math.round\<close> is \<open>js_round\<close>.
\<close>

section \<open>Strings\<close>

text \<open>Base letters of U+00C0--U+00FF, U+0100--U+013F and U+0140--U+017F (UTF-8 lead
  bytes 0xC3, 0xC4, 0xC5), \<open>-\<close> where the canonical decomposition has no ASCII base.\<close>

definition base_C3 :: string where
  "base_C3 = ''AAAAAA-CEEEEIIII-NOOOOO--UUUUY--aaaaaa-ceeeeiiii-nooooo--uuuuy-y''"

definition base_C4 :: string where
  "base_C4 = ''AaAaAaCcCcCcCcDd--EeEeEeEeEeGgGgGgGgHh--IiIiIiIiI---JjKk-LlLlLl-''"

definition base_C5 :: string where
  "base_C5 = ''---NnNnNn---OoOoOo--RrRrRrSsSsSsSsTtTt--UuUuUuUuUuUuWwYyYZzZzZz-''"

text \<open>What the two bytes \<open>a b\<close> become: \<open>Some []\<close> for a combining mark
  (0xCC 0x80 -- 0xCD 0xAF), \<open>Some [c]\<close> for a letter with base \<open>c\<close>, \<open>None\<close> to keep
  them.\<close>

definition strip_pair :: "char \<Rightarrow> char \<Rightarrow> string option" where
  "strip_pair a b =
     (let n = (of_char a :: nat); m = (of_char b :: nat) in
      if m < 128 \<or> 191 < m then None
      else if n = 204 \<or> (n = 205 \<and> m \<le> 175) then Some []
      else let tbl = (if n = 195 then base_C3 else if n = 196 then base_C4
                      else if n = 197 then base_C5 else []) in
        if tbl = [] then None
        else let c = tbl ! (m - 128) in if c = CHR ''-'' then None else Some [c])"

fun strip_diacritics :: "string \<Rightarrow> string" where
  "strip_diacritics (a # b # rest) =
     (case strip_pair a b of
        Some r \<Rightarrow> r @ strip_diacritics rest
      | None \<Rightarrow> a # strip_diacritics (b # rest))"
| "strip_diacritics s = s"

text \<open>\<^verbatim>\<open>String.prototype.replace\<close> with a string pattern: the first occurrence only.\<close>

fun replace_first :: "string \<Rightarrow> string \<Rightarrow> string \<Rightarrow> string" where
  "replace_first pat rep [] = (if pat = [] then rep else [])"
| "replace_first pat rep (c # cs) =
     (if prefix pat (c # cs) then rep @ drop (length pat) (c # cs)
      else c # replace_first pat rep cs)"

definition spaces_to_dashes :: "string \<Rightarrow> string" where
  "spaces_to_dashes s = map (\<lambda>c. if c = CHR '' '' then CHR ''-'' else c) s"

definition norm :: "string \<Rightarrow> string" where
  "norm s =
     replace_first ''id.'' ''id-''
       (replace_first ''enyaq-iv'' ''enyaq'' (spaces_to_dashes (to_lower (strip_diacritics s))))"

definition uri_unreserved :: "char \<Rightarrow> bool" where
  "uri_unreserved c \<longleftrightarrow>
     (let n = (of_char c :: nat) in
      (48 \<le> n \<and> n \<le> 57) \<or> (65 \<le> n \<and> n \<le> 90) \<or> (97 \<le> n \<and> n \<le> 122)
      \<or> c \<in> set ''-_.!~*()'' \<or> c = CHR 0x27)"

definition hex_digit :: "nat \<Rightarrow> char" where
  "hex_digit d = (if d < 10 then char_of (48 + d) else char_of (55 + d))"

definition encode_uri_component :: "string \<Rightarrow> string" where
  "encode_uri_component s =
     concat (map (\<lambda>c. if uri_unreserved c then [c]
                      else [CHR ''%'', hex_digit (of_char c div 16), hex_digit (of_char c mod 16)]) s)"

text \<open>Decimal notation of a whole number, as template literals print it.\<close>

function dec_str :: "int \<Rightarrow> string" where
  "dec_str n = (if n < 10 then [char_of (48 + n)] else dec_str (n div 10) @ [char_of (48 + n mod 10)])"
  by pat_completeness auto

termination by (relation "measure nat") auto

declare dec_str.simps [simp del]

definition int_str :: "int \<Rightarrow> string" where
  "int_str i = (if i < 0 then CHR ''-'' # dec_str (- i) else dec_str i)"

text \<open>\<^verbatim>\<open>parts.join('&')\<close>\<close>

fun js_join :: "string \<Rightarrow> string list \<Rightarrow> string" where
  "js_join sep [] = []"
| "js_join sep [x] = x"
| "js_join sep (x # y # zs) = x @ sep @ js_join sep (y # zs)"

section \<open>The generators of \<^verbatim>\<open>BazaarLinks\<close>\<close>

text \<open>\<^verbatim>\<open>SearchParams\<close>: the four optional filters of the search form.\<close>

record search_params =
  sp_price_from :: "int option"
  sp_price_to :: "int option"
  sp_year_from :: "int option"
  sp_mileage_to :: "int option"

text \<open>\<^verbatim>\<open>if (params?.x) parts.push(...)\<close>: a part for a present, non-zero value.\<close>

definition opt_part :: "string \<Rightarrow> int option \<Rightarrow> (int \<Rightarrow> string) \<Rightarrow> string list" where
  "opt_part name v f = (case v of Some n \<Rightarrow> if n \<noteq> 0 then [name @ f n] else [] | None \<Rightarrow> [])"

text \<open>\<^verbatim>\<open>Math.round(price / 25)\<close>: the CZK bound converted to EUR.\<close>

definition eur_of :: "int \<Rightarrow> string" where
  "eur_of p = int_str (js_round (of_int p / 25))"

definition mobile_de_url :: "car_static \<Rightarrow> search_params \<Rightarrow> string" where
  "mobile_de_url car params =
     (let make = encode_uri_component (norm (cs_make car));
          modelStr0 = norm (cs_model car);
          modelStr = (if modelStr0 = ''model-3'' then ''model--3'' else modelStr0);
          model = encode_uri_component modelStr;
          parts = [''dam=0'', ''ft=ELECTRICITY'', ''isSearchRequest=true'',
                   ''ms=;;;'' @ make @ '';'' @ model, ''s=Car'', ''sb=p'', ''vc=Car'']
                  @ opt_part ''fr='' (sp_year_from params) int_str
                  @ opt_part ''p='' (sp_price_from params) (\<lambda>n. eur_of n @ '':'')
                  @ opt_part ''p=:'' (sp_price_to params) eur_of
                  @ opt_part ''ml=:'' (sp_mileage_to params) int_str
      in ''https://suchen.mobile.de/fahrzeuge/search.html?'' @ js_join ''&'' parts)"

definition sauto_url :: "car_static \<Rightarrow> search_params \<Rightarrow> string" where
  "sauto_url car params =
     (let parts = [''palivo=elektrina'']
                  @ opt_part ''cena-od='' (sp_price_from params) int_str
                  @ opt_part ''cena-do='' (sp_price_to params) int_str
                  @ opt_part ''rok-vyroby-od='' (sp_year_from params) int_str
                  @ opt_part ''najeto-do='' (sp_mileage_to params) int_str
      in ''https://www.sauto.cz/inzerce/osobni/'' @ norm (cs_make car) @ ''/'' @ norm (cs_model car)
         @ ''?'' @ js_join ''&'' parts)"

definition carvago_url :: "car_static \<Rightarrow> search_params \<Rightarrow> string" where
  "carvago_url car params =
     (let parts = opt_part ''registration-date-from='' (sp_year_from params) int_str
                  @ opt_part ''price-from='' (sp_price_from params) int_str
                  @ opt_part ''price-to='' (sp_price_to params) int_str
                  @ opt_part ''mileage-to='' (sp_mileage_to params) int_str;
          qs = (if parts \<noteq> [] then ''?'' @ js_join ''&'' parts else [])
      in ''https://carvago.com/cs/auta/'' @ norm (cs_make car) @ ''/'' @ norm (cs_model car)
         @ ''/elektrina'' @ qs)"

definition autoscout_url :: "car_static \<Rightarrow> search_params \<Rightarrow> string" where
  "autoscout_url car params =
     (let parts = [''fuel=E'']
                  @ opt_part ''fregfrom='' (sp_year_from params) int_str
                  @ opt_part ''pricefrom='' (sp_price_from params) eur_of
                  @ opt_part ''priceto='' (sp_price_to params) eur_of
                  @ opt_part ''kmto='' (sp_mileage_to params) int_str
      in ''https://www.autoscout24.cz/lst/'' @ norm (cs_make car) @ ''/'' @ norm (cs_model car)
         @ ''?'' @ js_join ''&'' parts)"

text \<open>\<^verbatim>\<open>encodeURIComponent(`${car.make} ${car.model}`)\<close>\<close>

definition make_model_query :: "car_static \<Rightarrow> string" where
  "make_model_query car = encode_uri_component (cs_make car @ '' '' @ cs_model car)"

definition bazos_url :: "car_static \<Rightarrow> search_params \<Rightarrow> string" where
  "bazos_url car params =
     (let parts = [''hledat='' @ make_model_query car, ''rubriky=auto'', ''kitx=ano'']
                  @ opt_part ''cenaod='' (sp_price_from params) int_str
                  @ opt_part ''cenado='' (sp_price_to params) int_str
      in ''https://auto.bazos.cz/hledat/?'' @ js_join ''&'' parts)"

definition sbazar_url :: "car_static \<Rightarrow> search_params \<Rightarrow> string" where
  "sbazar_url car params =
     (let parts = opt_part ''priceFrom='' (sp_price_from params) int_str
                  @ opt_part ''priceTo='' (sp_price_to params) int_str;
          qs = (if parts \<noteq> [] then ''?'' @ js_join ''&'' parts else [])
      in ''https://www.sbazar.cz/hledat/'' @ make_model_query car @ qs)"

definition aaa_auto_url :: "car_static \<Rightarrow> search_params \<Rightarrow> string" where
  "aaa_auto_url car params =
     ''https://www.aaaauto.cz/ojeta-auta/'' @ norm (cs_make car) @ ''/'' @ norm (cs_model car)"

definition auto_esa_url :: "car_static \<Rightarrow> search_params \<Rightarrow> string" where
  "auto_esa_url car params =
     (let parts = [''q='' @ make_model_query car]
                  @ opt_part ''cena-od='' (sp_price_from params) int_str
                  @ opt_part ''cena-do='' (sp_price_to params) int_str
      in ''https://www.autoesa.cz/hledani?'' @ js_join ''&'' parts)"

text \<open>\<^verbatim>\<open>BazaarLinks\<close>: names and generators in the order of the array.\<close>

definition bazaar_generators :: "(string \<times> (car_static \<Rightarrow> search_params \<Rightarrow> string)) list" where
  "bazaar_generators =
     [(''Mobile.de'', mobile_de_url), (''Sauto.cz'', sauto_url), (''Carvago'', carvago_url),
      (''Autoscout24'', autoscout_url), (''Bazo'' @ [CHR 0xC5, CHR 0xA1] @ ''.cz'', bazos_url),
      (''Sbazar.cz'', sbazar_url), (''AAA Auto'', aaa_auto_url), (''Auto ESA'', auto_esa_url)]"

text \<open>A catalogue entry with only an id, a make and a model, for the concrete cases;
  the names are those of \<^verbatim>\<open>cars_static.ts\<close>.\<close>

definition static_entry :: "string \<Rightarrow> string \<Rightarrow> string \<Rightarrow> car_static" where
  "static_entry i mk md =
     \<lparr>cs_id = i, cs_make = mk, cs_model = md, variant = [], price_from = 0, range_wltp = 0,
      battery = 0, charging = 0, cs_image = [],
      bazaar_links = \<lparr>mobile_de = [], autoscout = [], carvago = [], sauto = []\<rparr>,
      youtube_reviews = [], financing = [], cs_insurance = []\<rparr>"

text \<open>Percent-decoding, the inverse the escapes are meant to have
  (\<^verbatim>\<open>decodeURIComponent\<close> on well-formed input).\<close>

definition hex_value :: "char \<Rightarrow> nat" where
  "hex_value c = (let n = (of_char c :: nat) in if n \<le> 57 then n - 48 else n - 55)"

fun decode_uri_component :: "string \<Rightarrow> string" where
  "decode_uri_component (c # h1 # h2 # rest) =
     (if c = CHR ''%'' then char_of (hex_value h1 * 16 + hex_value h2) # decode_uri_component rest
      else c # decode_uri_component (h1 # h2 # rest))"
| "decode_uri_component s = s"

text \<open>Reading a printed number back (what \<^verbatim>\<open>Number\<close> does to the digits of a
  whole number), the inverse the decimal printer is meant to have.\<close>

definition digit_value :: "char \<Rightarrow> int" where
  "digit_value c = of_char c - 48"

definition dec_value :: "string \<Rightarrow> int" where
  "dec_value s = foldl (\<lambda>acc c. 10 * acc + digit_value c) 0 s"

definition int_value :: "string \<Rightarrow> int" where
  "int_value s = (case s of c # r \<Rightarrow> if c = CHR ''-'' then - dec_value r else dec_value s | [] \<Rightarrow> 0)"

text \<open>A search field as the generators read it: \<^verbatim>\<open>if (params?.x)\<close> treats an absent
  field and 0 alike.\<close>

definition truthy_param :: "int option \<Rightarrow> int option" where
  "truthy_param v = (case v of Some n \<Rightarrow> if n \<noteq> 0 then Some n else None | None \<Rightarrow> None)"

definition truthy_params :: "search_params \<Rightarrow> search_params" where
  "truthy_params p =
     \<lparr>sp_price_from = truthy_param (sp_price_from p), sp_price_to = truthy_param (sp_price_to p),
      sp_year_from = truthy_param (sp_year_from p), sp_mileage_to = truthy_param (sp_mileage_to p)\<rparr>"

section \<open>Lemmas\<close>

lemma char_div16: "(of_char c :: nat) div 16 < 16"
proof -
  have "(of_char c :: nat) < 16 * 16" using nat_of_char_less_256 [of c] by simp
  then show ?thesis by (rule less_mult_imp_div_less)
qed

lemma hex_value_digit: "d < 16 \<Longrightarrow> hex_value (hex_digit d) = d"
  by (auto simp add: hex_value_def hex_digit_def Let_def)

lemma uri_unreserved_not_percent: "uri_unreserved c \<Longrightarrow> c \<noteq> CHR ''%''"
  by (auto simp add: uri_unreserved_def Let_def)

lemma decode_escape:
  "decode_uri_component ([CHR ''%'', hex_digit (of_char c div 16), hex_digit (of_char c mod 16)] @ rest)
   = c # decode_uri_component rest"
proof -
  have "of_char c div 16 < (16::nat)" by (rule char_div16)
  moreover have "of_char c mod 16 < (16::nat)" by simp
  ultimately have "hex_value (hex_digit (of_char c div 16)) * 16 + hex_value (hex_digit (of_char c mod 16))
                   = (of_char c :: nat)"
    by (simp add: hex_value_digit)
  then show ?thesis by simp
qed

lemma decode_unreserved:
  "uri_unreserved c \<Longrightarrow> decode_uri_component (c # rest) = c # decode_uri_component rest"
  by (cases rest rule: decode_uri_component.cases) (auto dest: uri_unreserved_not_percent)

lemma decode_encode: "decode_uri_component (encode_uri_component s) = s"
  by (induction s)
     (simp_all add: encode_uri_component_def decode_unreserved hex_value_digit char_div16)

lemma set_replace_first: "set (replace_first p r s) \<subseteq> set s \<union> set r"
  by (induction p r s rule: replace_first.induct) (auto dest: in_set_dropD)

lemma lower_char_not_upper:
  "65 \<le> (of_char (lower_char c) :: nat) \<Longrightarrow> \<not> (of_char (lower_char c) :: nat) \<le> 90"
  by (auto simp add: lower_char_def Let_def)

lemma hex_digit_unreserved: "d < 16 \<Longrightarrow> uri_unreserved (hex_digit d)"
  by (auto simp add: hex_digit_def uri_unreserved_def Let_def)

lemma norm_char: "c \<in> set (norm s) \<Longrightarrow> c \<noteq> CHR '' '' \<and> \<not> (65 \<le> (of_char c :: nat) \<and> (of_char c :: nat) \<le> 90)"
proof -
  assume "c \<in> set (norm s)"
  then have "c \<in> set (spaces_to_dashes (to_lower (strip_diacritics s))) \<or> c \<in> set ''enyaq'' \<or> c \<in> set ''id-''"
    unfolding norm_def using set_replace_first by blast
  then show ?thesis
    by (auto simp add: spaces_to_dashes_def to_lower_def lower_char_not_upper)
qed

lemma digit_value_char: "0 \<le> d \<Longrightarrow> d < 10 \<Longrightarrow> digit_value (char_of (48 + d)) = d"
  by (simp add: digit_value_def of_char_of)

lemma dec_value_snoc: "dec_value (xs @ [c]) = 10 * dec_value xs + digit_value c"
  by (simp add: dec_value_def)

lemma dec_value_dec_str: "0 \<le> n \<Longrightarrow> dec_value (dec_str n) = n"
proof (induction n rule: dec_str.induct)
  case (1 n)
  show ?case
  proof (cases "n < 10")
    case True
    with "1.prems" show ?thesis
      by (subst dec_str.simps) (simp add: dec_value_def digit_value_char)
  next
    case False
    with "1.prems" "1.IH" have "dec_value (dec_str (n div 10)) = n div 10" by simp
    with False "1.prems" show ?thesis
      by (subst dec_str.simps) (simp add: dec_value_snoc digit_value_char)
  qed
qed

lemma dec_str_hd: "0 \<le> n \<Longrightarrow> \<exists>c r. dec_str n = c # r \<and> c \<noteq> CHR ''-''"
proof (induction n rule: dec_str.induct)
  case (1 n)
  show ?case
  proof (cases "n < 10")
    case True
    have "char_of (48 + n) \<noteq> CHR ''-''"
    proof
      assume "char_of (48 + n) = CHR ''-''"
      then have "of_char (char_of (48 + n) :: char) = (of_char (CHR ''-'') :: int)" by simp
      with True "1.prems" show False by (simp add: of_char_of)
    qed
    with True show ?thesis by (subst dec_str.simps) simp
  next
    case False
    with "1.prems" have "0 \<le> n div 10" "\<not> n < 10" by simp_all
    with "1.IH" obtain c r where "dec_str (n div 10) = c # r" "c \<noteq> CHR ''-''" by blast
    with False show ?thesis by (subst dec_str.simps) simp
  qed
qed

lemma int_value_int_str: "int_value (int_str i) = i"
proof (cases "i < 0")
  case True
  then show ?thesis by (simp add: int_str_def int_value_def dec_value_dec_str)
next
  case False
  then have "0 \<le> i" by simp
  then obtain c r where d: "dec_str i = c # r" "c \<noteq> CHR ''-''" using dec_str_hd [of i] by blast
  with False have "int_value (int_str i) = dec_value (dec_str i)"
    by (simp add: int_str_def int_value_def)
  with False show ?thesis by (simp add: dec_value_dec_str)
qed

lemma int_str_inj: "int_str i = int_str j \<Longrightarrow> i = j"
  by (metis int_value_int_str)

lemma opt_part_truthy [simp]: "opt_part nm (truthy_param v) f = opt_part nm v f"
  by (simp add: opt_part_def truthy_param_def split: option.split)

lemma generators_truthy:
  "(nm, gen) \<in> set bazaar_generators \<Longrightarrow> gen car (truthy_params p) = gen car p"
  by (auto simp add: bazaar_generators_def truthy_params_def mobile_de_url_def sauto_url_def
      carvago_url_def autoscout_url_def bazos_url_def sbazar_url_def aaa_auto_url_def auto_esa_url_def)

section \<open>Properties of the link generators\<close>

text \<open>Round trip of \<^verbatim>\<open>encodeURIComponent\<close>: percent-decoding its output gives
  back the input, and the output consists of unreserved characters and \<open>%\<close> only, so it
  can stand inside a path segment or a query value.\<close>

theorem encode_uri_component_roundtrip:
  "decode_uri_component (encode_uri_component s) = s
   \<and> (\<forall>c\<in>set (encode_uri_component s). uri_unreserved c \<or> c = CHR ''%'')"
proof -
  have "\<forall>c\<in>set (encode_uri_component s). uri_unreserved c \<or> c = CHR ''%''"
    by (induction s) (auto simp add: encode_uri_component_def hex_digit_unreserved char_div16)
  then show ?thesis by (simp add: decode_encode)
qed

text \<open>The slugs of \<^verbatim>\<open>norm\<close> contain no space and no capital ASCII letter, and
  the catalogue's names become the slugs the sites use: \<open>Enyaq iV\<close> becomes
  \<open>enyaq\<close>, \<open>ID.4\<close> \<open>id-4\<close>, the make with U+0160 \<open>skoda\<close>, and \<open>M\<close>U+00E9\<open>gane
  E-Tech\<close> \<open>megane-e-tech\<close>.\<close>

theorem norm_slugs:
  "(\<forall>c\<in>set (norm s). c \<noteq> CHR '' '' \<and> \<not> (65 \<le> (of_char c :: nat) \<and> (of_char c :: nat) \<le> 90))
   \<and> norm ''Enyaq iV'' = ''enyaq'' \<and> norm ''ID.4'' = ''id-4''
   \<and> norm ([CHR 0xC5, CHR 0xA0] @ ''koda'') = ''skoda''
   \<and> norm (''M'' @ [CHR 0xC3, CHR 0xA9] @ ''gane E-Tech'') = ''megane-e-tech''
   \<and> norm ''Model 3'' = ''model-3''"
proof -
  have "norm ''Enyaq iV'' = ''enyaq'' \<and> norm ''ID.4'' = ''id-4''
   \<and> norm ([CHR 0xC5, CHR 0xA0] @ ''koda'') = ''skoda''
   \<and> norm (''M'' @ [CHR 0xC3, CHR 0xA9] @ ''gane E-Tech'') = ''megane-e-tech''
   \<and> norm ''Model 3'' = ''model-3''" by code_simp
  then show ?thesis using norm_char by blast
qed

text \<open>The mobile.de link sends a price range as two separate \<open>p\<close> parameters,
  \<open>p=from:\<close> and \<open>p=:to\<close>, instead of the one range \<open>p=from:to\<close>; the prices
  are converted from CZK at 25 CZK/EUR and rounded.\<close>

theorem mobile_de_price_range_split:
  "mobile_de_url (static_entry ''tesla-model-3'' ''Tesla'' ''Model 3'')
     \<lparr>sp_price_from = Some 500000, sp_price_to = Some 800000, sp_year_from = None, sp_mileage_to = None\<rparr>
   = ''https://suchen.mobile.de/fahrzeuge/search.html?dam=0&ft=ELECTRICITY&isSearchRequest=true''
     @ ''&ms=;;;tesla;model--3&s=Car&sb=p&vc=Car&p=20000:&p=:32000''"
  by code_simp

section \<open>Witnesses\<close>

theorem encode_uri_component_roundtrip_witness:
  "decode_uri_component (encode_uri_component ([CHR 0xC5, CHR 0xA0] @ ''koda Enyaq iV''))
     = [CHR 0xC5, CHR 0xA0] @ ''koda Enyaq iV''
   \<and> CHR '' '' \<notin> set (encode_uri_component ([CHR 0xC5, CHR 0xA0] @ ''koda Enyaq iV''))"
proof -
  let ?s = "[CHR 0xC5, CHR 0xA0] @ ''koda Enyaq iV''"
  have sp: "\<not> uri_unreserved (CHR '' '')" by (simp add: uri_unreserved_def)
  from encode_uri_component_roundtrip [of ?s] sp show ?thesis by auto
qed

end
