(* ===== verification/Catalog.thy ===== *)
theory Catalog
  imports YouTube Links
begin

text \<open>
  The catalogue: the model lookup and segment grouping of
  \<^verbatim>\<open>src/web/src/components/BrandGrid.tsx\<close>, and the state of
  \<^verbatim>\<open>src/web/src/components/CatalogDetailModal.tsx\<close>: its tabs, the import field, the
  loan calculator, the search form, and the user's own video list, which the modal keeps
  in \<^verbatim>\<open>localStorage\<close> under \<^verbatim>\<open>custom_videos_<id>\<close>. The store is a map from keys
  to stored values; a stored value is a video list (what \<^verbatim>\<open>JSON.stringify\<close> wrote)
  or text that \<^verbatim>\<open>JSON.parse\<close> rejects. Loan amounts and rates are exact rationals, and
  \<^verbatim>\<open>calculateMonthly\<close> is \<open>None\<close> where the division of the code yields a
  non-finite number.
\<close>

section \<open>Brand grid\<close>

text \<open>\<^verbatim>\<open>SEGMENTS\<close>, in display order.\<close>

definition segments :: "segment list" where
  "segments = [Mainstream, Premium, Budget]"

definition car_key :: "string \<Rightarrow> string \<Rightarrow> string" where
  "car_key mk md = mk @ ''|'' @ md"

text \<open>\<^verbatim>\<open>carIndex\<close>: a later car with the same key overwrites an earlier one.\<close>

definition car_index :: "car_static list \<Rightarrow> string \<rightharpoonup> car_static" where
  "car_index cars = foldl (\<lambda>idx c. idx(car_key (cs_make c) (cs_model c) \<mapsto> c)) Map.empty cars"

definition find_detailed_car :: "car_static list \<Rightarrow> brand_info \<Rightarrow> string \<Rightarrow> car_static option" where
  "find_detailed_car cars brand modelName =
     (case car_index cars (car_key (bi_make brand) modelName) of
        Some exact \<Rightarrow> Some exact
      | None \<Rightarrow> find (\<lambda>c. cs_make c = bi_make brand
                         \<and> (js_includes (cs_model c) modelName \<or> js_includes modelName (cs_model c))) cars)"

definition handle_brand_click :: "string \<Rightarrow> string option \<Rightarrow> string option" where
  "handle_brand_click mk prev = (if prev = Some mk then None else Some mk)"

text \<open>The grid's events: a brand tile (\<^verbatim>\<open>handleBrandClick\<close>), the panel's close button
  (line 163) and a model row (line 179), which calls \<^verbatim>\<open>onSelectCar\<close> only for a
  model with detail data. The result is the new \<^verbatim>\<open>expandedBrand\<close> and the car passed
  to \<^verbatim>\<open>onSelectCar\<close>, if any.\<close>

datatype grid_event = Grid_brand string | Grid_close | Grid_model brand_info string

fun grid_step :: "car_static list \<Rightarrow> grid_event \<Rightarrow> string option \<Rightarrow> string option \<times> car_static option" where
  "grid_step cars (Grid_brand mk) expanded = (handle_brand_click mk expanded, None)"
| "grid_step cars Grid_close expanded = (None, None)"
| "grid_step cars (Grid_model b n) expanded = (expanded, find_detailed_car cars b n)"

definition brands_by_segment :: "brand_info list \<Rightarrow> segment \<Rightarrow> brand_info list" where
  "brands_by_segment catalog seg = filter (\<lambda>b. bi_segment b = seg) catalog"

text \<open>The tile's model count: \<open>model\<close>, \<open>modely\<close> below five, else
  \<open>model\<close> with U+016F (UTF-8 0xC5 0xAF).\<close>

definition model_count_label :: "nat \<Rightarrow> string" where
  "model_count_label n =
     (if n = 1 then ''model'' else if n < 5 then ''modely'' else ''model'' @ [CHR 0xC5, CHR 0xAF])"

record model_row =
  mr_name :: string
  mr_badge :: "string option"
  mr_detail :: "car_static option"

record brand_tile =
  bt_make :: string
  bt_count :: string
  bt_expanded :: bool

text \<open>One segment of the grid: its tiles and, when the expanded brand is in it, that
  brand's model rows (lines 59--150); a segment without brands is not shown.\<close>

definition segment_view ::
  "car_static list \<Rightarrow> brand_info list \<Rightarrow> string option \<Rightarrow> segment
   \<Rightarrow> (segment \<times> brand_tile list \<times> model_row list option) option" where
  "segment_view cars catalog expanded seg =
     (let bs = brands_by_segment catalog seg in
      if bs = [] then None
      else Some (seg,
        map (\<lambda>b. \<lparr>bt_make = bi_make b,
                   bt_count = int_str (int (length (bi_models b))) @ '' '' @ model_count_label (length (bi_models b)),
                   bt_expanded = (expanded = Some (bi_make b))\<rparr>) bs,
        (case find (\<lambda>b. expanded = Some (bi_make b)) bs of
           Some b \<Rightarrow> Some (map (\<lambda>m. \<lparr>mr_name = bm_name m, mr_badge = (case badge m of Some t \<Rightarrow> if t \<noteq> [] then Some t else None | None \<Rightarrow> None),
                                      mr_detail = find_detailed_car cars b (bm_name m)\<rparr>) (bi_models b))
         | None \<Rightarrow> None)))"

definition brand_grid_view ::
  "car_static list \<Rightarrow> brand_info list \<Rightarrow> string option
   \<Rightarrow> (segment \<times> brand_tile list \<times> model_row list option) list" where
  "brand_grid_view cars catalog expanded = List.map_filter (segment_view cars catalog expanded) segments"

text \<open>\<^verbatim>\<open>CatalogCard\<close> (\<^verbatim>\<open>src/web/src/components/CatalogCard.tsx\<close>), which no
  component renders: the price label, title, variant, battery and range, and the car
  passed to \<^verbatim>\<open>onClick\<close>. \<^verbatim>\<open>toLocaleString()\<close> without a locale depends on the
  browser, so the number format is a parameter.\<close>

record catalog_card =
  cc_price :: string
  cc_title :: string
  cc_variant :: string
  cc_battery :: string
  cc_range :: string
  cc_click :: car_static

definition catalog_card_of :: "(int \<Rightarrow> string) \<Rightarrow> car_static \<Rightarrow> catalog_card" where
  "catalog_card_of fmt car =
     \<lparr>cc_price = ''od '' @ fmt (price_from car) @ '' K'' @ [CHR 0xC4, CHR 0x8D],
      cc_title = cs_make car @ '' '' @ cs_model car, cc_variant = variant car,
      cc_battery = int_str (battery car) @ '' kWh'', cc_range = int_str (range_wltp car) @ '' km'',
      cc_click = car\<rparr>"

section \<open>Catalogue detail modal\<close>

datatype catalog_tab = Info_page | Reviews_page | Finance_page | Insurance_page

record user_video =
  uv_url :: string
  uv_title :: string

datatype stored = Stored_videos "user_video list" | Stored_garbage

type_synonym local_storage = "string \<rightharpoonup> stored"

record catalog_modal =
  cm_tab :: catalog_tab
  import_url :: string
  loan_amount :: rat
  loan_years :: int
  search :: search_params
  playing_video :: "string option"
  user_videos :: "user_video list"
  new_video_url :: string

definition storage_key :: "car_static \<Rightarrow> string" where
  "storage_key car = ''custom_videos_'' @ cs_id car"

text \<open>The title of a user's video, \<open>U\<close>, U+017E, \<open>ivatelsk\<close>, U+00E9, \<open> video\<close>.\<close>

definition user_video_title :: string where
  "user_video_title = ''U'' @ [CHR 0xC5, CHR 0xBE] @ ''ivatelsk'' @ [CHR 0xC3, CHR 0xA9] @ '' video''"

text \<open>The modal as mounted (lines 14--44) followed by the effect on \<^verbatim>\<open>[car.id]\<close>
  (lines 46--57): the saved list, or the empty list when nothing is saved; when the saved
  text does not parse, the list keeps its initial value, the empty list.\<close>

definition catalog_open :: "car_static \<Rightarrow> local_storage \<Rightarrow> catalog_modal" where
  "catalog_open car ls =
     \<lparr>cm_tab = Info_page, import_url = [], loan_amount = of_int (price_from car) * 8 / 10,
      loan_years = 5,
      search = \<lparr>sp_price_from = None, sp_price_to = None, sp_year_from = None, sp_mileage_to = None\<rparr>,
      playing_video = None,
      user_videos = (case ls (storage_key car) of Some (Stored_videos vs) \<Rightarrow> vs | _ \<Rightarrow> []),
      new_video_url = []\<rparr>"

datatype alert = Alert_invalid_video | Alert_duplicate_video

text \<open>\<^verbatim>\<open>handleAddVideo\<close> (lines 59--79): the empty-input return, the two alerts, and
  the append that is written to the store.\<close>

definition handle_add_video ::
  "car_static \<Rightarrow> catalog_modal \<times> local_storage \<Rightarrow> (catalog_modal \<times> local_storage) \<times> alert option" where
  "handle_add_video car sl =
     (let (st, ls) = sl; u = new_video_url st in
      if js_trim u = [] then (sl, None)
      else if extract_youtube_id u = None then (sl, Some Alert_invalid_video)
      else if list_ex (\<lambda>v. uv_url v = u) (user_videos st)
              \<or> list_ex (\<lambda>r. rv_url r = u) (youtube_reviews car)
      then (sl, Some Alert_duplicate_video)
      else
        (let updated = user_videos st @ [\<lparr>uv_url = u, uv_title = user_video_title\<rparr>] in
         ((st\<lparr>user_videos := updated, new_video_url := []\<rparr>,
           ls(storage_key car \<mapsto> Stored_videos updated)), None)))"

definition handle_remove_video ::
  "car_static \<Rightarrow> string \<Rightarrow> catalog_modal \<times> local_storage \<Rightarrow> catalog_modal \<times> local_storage" where
  "handle_remove_video car urlToRemove sl =
     (let (st, ls) = sl; updated = filter (\<lambda>v. uv_url v \<noteq> urlToRemove) (user_videos st) in
      (st\<lparr>user_videos := updated\<rparr>, ls(storage_key car \<mapsto> Stored_videos updated)))"

text \<open>\<^verbatim>\<open>calculateMonthly\<close> (lines 21--25), the annuity payment for a yearly rate in
  per cent over \<^verbatim>\<open>years\<close> years.\<close>

definition calculate_monthly :: "catalog_modal \<Rightarrow> rat \<Rightarrow> rat option" where
  "calculate_monthly st yr =
     (let r = yr / 100 / 12; n = nat (loan_years st * 12); q = (1 + r) ^ n in
      if q - 1 = 0 then None else Some (loan_amount st * r * q / (q - 1)))"

text \<open>The import field's button and Enter key call \<^verbatim>\<open>onAnalyze(importUrl)\<close> only for a
  non-empty field (lines 152--160).\<close>

definition import_request :: "catalog_modal \<Rightarrow> string option" where
  "import_request st = (if import_url st \<noteq> [] then Some (import_url st) else None)"

text \<open>The review list of the videos tab (lines 264--270): the catalogue's reviews,
  then the user's videos shown with an empty thumbnail, the channel \<open>U\<close>U+017E\<open>ivatel\<close>
  and a remove button.\<close>

record review_item =
  ri_url :: string
  ri_title :: string
  ri_thumbnail :: string
  ri_channel :: string
  ri_user :: bool

definition user_channel :: string where
  "user_channel = ''U'' @ [CHR 0xC5, CHR 0xBE] @ ''ivatel''"

definition review_items :: "car_static \<Rightarrow> catalog_modal \<Rightarrow> review_item list" where
  "review_items car st =
     map (\<lambda>r. \<lparr>ri_url = rv_url r, ri_title = rv_title r, ri_thumbnail = rv_thumbnail r,
               ri_channel = rv_channel r, ri_user = False\<rparr>) (youtube_reviews car)
     @ map (\<lambda>v. \<lparr>ri_url = uv_url v, ri_title = uv_title v, ri_thumbnail = [],
                  ri_channel = user_channel, ri_user = True\<rparr>) (user_videos st)"

record review_view =
  rw_item :: review_item
  rw_search_link :: bool
  rw_video :: "string option"
  rw_playing :: bool
  rw_thumbnail :: string

text \<open>One entry (lines 266--270): a search link is opened, not played; otherwise the
  video id; the entry plays when \<^verbatim>\<open>playingVideo === (videoId || review.url)\<close>.\<close>

definition review_view_of :: "car_static \<Rightarrow> catalog_modal \<Rightarrow> review_item \<Rightarrow> review_view" where
  "review_view_of car st ri =
     (let isSearchLink = js_includes (ri_url ri) ''/results?search_query='';
          videoId = (if isSearchLink then None else extract_youtube_id (ri_url ri))
      in \<lparr>rw_item = ri, rw_search_link = isSearchLink, rw_video = videoId,
          rw_playing = (playing_video st = Some (case videoId of Some v \<Rightarrow> v | None \<Rightarrow> ri_url ri)),
          rw_thumbnail = (if ri_thumbnail ri \<noteq> [] then ri_thumbnail ri
                          else case videoId of Some v \<Rightarrow> youtube_thumbnail v | None \<Rightarrow> cs_image car)\<rparr>)"

text \<open>A click on entry \<open>k\<close> (lines 286--292): a search link opens in a new window, a
  video starts playing.\<close>

definition click_review :: "car_static \<Rightarrow> nat \<Rightarrow> catalog_modal \<Rightarrow> catalog_modal" where
  "click_review car k st =
     (let items = review_items car st in
      if k < length items then
        (let v = review_view_of car st (items ! k) in
         if rw_search_link v then st
         else case rw_video v of Some vid \<Rightarrow> st\<lparr>playing_video := Some vid\<rparr> | None \<Rightarrow> st)
      else st)"

text \<open>The YouTube search offered when there is nothing to show (lines 340--345).\<close>

definition youtube_search_url :: "car_static \<Rightarrow> string" where
  "youtube_search_url car =
     ''https://www.youtube.com/results?search_query=''
     @ encode_uri_component (cs_make car @ '' '' @ cs_model car @ '' review cz'')"

datatype reviews_tab = Reviews_empty string | Reviews_list "review_view list"

definition reviews_tab_of :: "car_static \<Rightarrow> catalog_modal \<Rightarrow> reviews_tab" where
  "reviews_tab_of car st =
     (let items = review_items car st in
      if items = [] then Reviews_empty (youtube_search_url car)
      else Reviews_list (map (review_view_of car st) items))"

text \<open>The finance tab (lines 392--405): per bank its name, rate and
  \<^verbatim>\<open>Math.round(calculateMonthly(bank.rate))\<close>, \<open>None\<close> for \<open>NaN\<close>.\<close>

definition finance_rows :: "car_static \<Rightarrow> catalog_modal \<Rightarrow> (string \<times> rat \<times> int option) list" where
  "finance_rows car st =
     map (\<lambda>b. (bank_name b, rate b, map_option js_round (calculate_monthly st (rate b)))) (financing car)"

text \<open>The header (lines 91--105): make and model, then variant, battery and WLTP range
  separated by U+2022.\<close>

record catalog_header =
  ch_title :: string
  ch_subtitle :: string
  ch_image :: string

definition bullet :: string where
  "bullet = '' '' @ [CHR 0xE2, CHR 0x80, CHR 0xA2] @ '' ''"

definition catalog_header_of :: "car_static \<Rightarrow> catalog_header" where
  "catalog_header_of car =
     \<lparr>ch_title = cs_make car @ '' '' @ cs_model car,
      ch_subtitle = variant car @ bullet @ int_str (battery car) @ '' kWh'' @ bullet
                    @ int_str (range_wltp car) @ '' km WLTP'',
      ch_image = cs_image car\<rparr>"

text \<open>The info tab (lines 133--239): the image, the import field and whether its button is
  enabled, the four search fields showing \<^verbatim>\<open>searchParams.x || ''\<close>, and the eight
  bazaar links for the current search parameters.\<close>

definition form_value :: "int option \<Rightarrow> string" where
  "form_value v = (case v of Some n \<Rightarrow> if n \<noteq> 0 then int_str n else [] | None \<Rightarrow> [])"

record info_page =
  ip_image :: string
  ip_import_value :: string
  ip_import_enabled :: bool
  ip_form :: "string list"
  ip_links :: "(string \<times> string) list"

definition info_page_of :: "car_static \<Rightarrow> catalog_modal \<Rightarrow> info_page" where
  "info_page_of car st =
     (let p = search st in
      \<lparr>ip_image = cs_image car, ip_import_value = import_url st, ip_import_enabled = (import_url st \<noteq> []),
       ip_form = map form_value [sp_price_from p, sp_price_to p, sp_year_from p, sp_mileage_to p],
       ip_links = map (\<lambda>(n, gen). (n, gen car p)) bazaar_generators\<rparr>)"

text \<open>The finance tab (lines 359--410): the loan amount field, the years slider with its
  label, and the bank rows.\<close>

record finance_page =
  fp_loan_amount :: rat
  fp_years :: int
  fp_rows :: "(string \<times> rat \<times> int option) list"

definition finance_page_of :: "car_static \<Rightarrow> catalog_modal \<Rightarrow> finance_page" where
  "finance_page_of car st =
     \<lparr>fp_loan_amount = loan_amount st, fp_years = loan_years st, fp_rows = finance_rows car st\<rparr>"

text \<open>The insurance tab (lines 412--436): one card per offer, with the provider, the
  description and the link of its button.\<close>

record insurance_card =
  ic_provider :: string
  ic_description :: string
  ic_link :: string

definition insurance_tab_of :: "car_static \<Rightarrow> insurance_card list" where
  "insurance_tab_of car =
     map (\<lambda>ins. \<lparr>ic_provider = provider ins, ic_description = ins_description ins,
                 ic_link = ins_link ins\<rparr>) (cs_insurance car)"

text \<open>The tab bar (lines 107--127): the four tabs in order, the active one highlighted;
  a click is the event \<open>Cat_tab\<close>.\<close>

definition catalog_tab_bar :: "catalog_modal \<Rightarrow> (catalog_tab \<times> bool) list" where
  "catalog_tab_bar st =
     map (\<lambda>t. (t, cm_tab st = t)) [Info_page, Reviews_page, Finance_page, Insurance_page]"

datatype catalog_page =
  Page_info info_page
| Page_reviews reviews_tab
| Page_finance finance_page
| Page_insurance "insurance_card list"

text \<open>The modal: the header, and the content of the active tab (lines 130--435); the
  insurance tab lists the car's insurers.\<close>

definition catalog_page_of :: "car_static \<Rightarrow> catalog_modal \<Rightarrow> catalog_header \<times> catalog_page" where
  "catalog_page_of car st =
     (catalog_header_of car,
      case cm_tab st of
        Info_page \<Rightarrow> Page_info (info_page_of car st)
      | Reviews_page \<Rightarrow> Page_reviews (reviews_tab_of car st)
      | Finance_page \<Rightarrow> Page_finance (finance_page_of car st)
      | Insurance_page \<Rightarrow> Page_insurance (insurance_tab_of car))"

text \<open>The modal's events: a tab button, typing in the import field, the loan amount
  field, the years slider (a range input from 1 to 8, which produces no other value), the
  search form, a click on the \<open>k\<close>-th review, the video field, the add button (or
  Enter), a remove button.\<close>

datatype catalog_event =
  Cat_tab catalog_tab | Cat_import_url string | Cat_loan rat | Cat_years int
| Cat_search search_params | Cat_click_review nat | Cat_new_video string | Cat_add_video
| Cat_remove_video string

fun catalog_step :: "car_static \<Rightarrow> catalog_event \<Rightarrow> catalog_modal \<times> local_storage
                     \<Rightarrow> catalog_modal \<times> local_storage" where
  "catalog_step car (Cat_tab t) (st, ls) = (st\<lparr>cm_tab := t\<rparr>, ls)"
| "catalog_step car (Cat_import_url u) (st, ls) = (st\<lparr>import_url := u\<rparr>, ls)"
| "catalog_step car (Cat_loan a) (st, ls) = (st\<lparr>loan_amount := a\<rparr>, ls)"
| "catalog_step car (Cat_years y) (st, ls) = (if 1 \<le> y \<and> y \<le> 8 then st\<lparr>loan_years := y\<rparr> else st, ls)"
| "catalog_step car (Cat_search p) (st, ls) = (st\<lparr>search := p\<rparr>, ls)"
| "catalog_step car (Cat_click_review k) (st, ls) = (click_review car k st, ls)"
| "catalog_step car (Cat_new_video u) (st, ls) = (st\<lparr>new_video_url := u\<rparr>, ls)"
| "catalog_step car Cat_add_video sl = fst (handle_add_video car sl)"
| "catalog_step car (Cat_remove_video u) sl = handle_remove_video car u sl"

inductive catalog_reachable :: "car_static \<Rightarrow> local_storage \<Rightarrow> catalog_modal \<times> local_storage \<Rightarrow> bool"
  for car ls0 where
  start: "catalog_reachable car ls0 (catalog_open car ls0, ls0)"
| step: "catalog_reachable car ls0 sl \<Longrightarrow> catalog_reachable car ls0 (catalog_step car e sl)"

fun catalog_run :: "car_static \<Rightarrow> catalog_event list \<Rightarrow> catalog_modal \<times> local_storage
                    \<Rightarrow> catalog_modal \<times> local_storage" where
  "catalog_run car [] sl = sl"
| "catalog_run car (e # es) sl = catalog_run car es (catalog_step car e sl)"

text \<open>The reference meaning of an annuity payment: the balance owed after \<open>k\<close>
  monthly payments of \<open>m\<close> at the monthly rate \<open>r\<close>.\<close>

primrec loan_balance :: "rat \<Rightarrow> rat \<Rightarrow> rat \<Rightarrow> nat \<Rightarrow> rat" where
  "loan_balance L r m 0 = L"
| "loan_balance L r m (Suc k) = loan_balance L r m k * (1 + r) - m"

text \<open>The videos the modal shows on opening.\<close>

definition loaded_videos :: "car_static \<Rightarrow> local_storage \<Rightarrow> user_video list" where
  "loaded_videos car ls = user_videos (catalog_open car ls)"

text \<open>The invariant of the video list: the store holds the shown list under the car's
  key, or nothing was written yet; no other key changes; every shown video was loaded or
  is a valid YouTube link that is not one of the catalogue's reviews; the URLs stay
  distinct when the loaded ones are.\<close>

definition videos_inv :: "car_static \<Rightarrow> local_storage \<Rightarrow> catalog_modal \<times> local_storage \<Rightarrow> bool" where
  "videos_inv car ls0 sl \<longleftrightarrow>
     (let (st, ls) = sl; loaded = loaded_videos car ls0 in
      (ls (storage_key car) = Some (Stored_videos (user_videos st))
       \<or> (ls = ls0 \<and> user_videos st = loaded))
      \<and> (\<forall>k. k \<noteq> storage_key car \<longrightarrow> ls k = ls0 k)
      \<and> (\<forall>v\<in>set (user_videos st). v \<in> set loaded
           \<or> (extract_youtube_id (uv_url v) \<noteq> None \<and> uv_url v \<notin> rv_url ` set (youtube_reviews car)))
      \<and> (distinct (map uv_url loaded) \<longrightarrow> distinct (map uv_url (user_videos st))))"

text \<open>A brand with only the fields the lookup reads, for the concrete cases below;
  the names are those of \<^verbatim>\<open>brandLogos.ts\<close>.\<close>

definition brand_entry :: "string \<Rightarrow> segment \<Rightarrow> string list \<Rightarrow> brand_info" where
  "brand_entry mk seg names =
     \<lparr>bi_make = mk, display_name = mk, text_logo = mk, logo_component = [], accent_color = [],
      bi_description = [], bi_segment = seg, bi_models = map (\<lambda>n. \<lparr>bm_name = n, badge = None\<rparr>) names\<rparr>"

section \<open>Lemmas\<close>

lemma loan_balance_closed:
  "loan_balance L r m k * r = L * r * (1 + r) ^ k - m * ((1 + r) ^ k - 1)"
proof (induction k)
  case 0
  then show ?case by simp
next
  case (Suc k)
  have "loan_balance L r m (Suc k) * r = loan_balance L r m k * r * (1 + r) - m * r"
    by (simp add: algebra_simps)
  also have "\<dots> = (L * r * (1 + r) ^ k - m * ((1 + r) ^ k - 1)) * (1 + r) - m * r"
    by (simp only: Suc.IH)
  also have "\<dots> = L * r * (1 + r) ^ Suc k - m * ((1 + r) ^ Suc k - 1)"
    by (simp add: algebra_simps)
  finally show ?case .
qed

lemma geometric_sum_rat:
  fixes r :: rat
  assumes "r \<noteq> 0"
  shows "(\<Sum>i<k. (1 + r) ^ i) = ((1 + r) ^ k - 1) / r"
proof -
  have "(1 + r) \<noteq> 1" using assms by simp
  then have "(\<Sum>i<k. (1 + r) ^ i) = ((1 + r) ^ k - 1) / ((1 + r) - 1)"
    by (rule geometric_sum)
  then show ?thesis by simp
qed

lemma annuity_cancel:
  fixes L r q :: rat
  assumes "q \<noteq> 1"
  shows "L * r * q - L * r * q / (q - 1) * (q - 1) = 0"
  using assms by simp

lemma car_index_lookup:
  "(foldl (\<lambda>idx c. idx(car_key (cs_make c) (cs_model c) \<mapsto> c)) m cars) k = Some c
   \<Longrightarrow> (c \<in> set cars \<and> car_key (cs_make c) (cs_model c) = k) \<or> m k = Some c"
proof (induction cars arbitrary: m)
  case Nil
  then show ?case by simp
next
  case (Cons a cars)
  from Cons.prems have "foldl (\<lambda>idx c. idx(car_key (cs_make c) (cs_model c) \<mapsto> c))
      (m(car_key (cs_make a) (cs_model a) \<mapsto> a)) cars k = Some c" by (simp only: foldl_Cons)
  from Cons.IH [OF this] show ?case by (auto split: if_splits)
qed

lemma takeWhile_before_sep: "c \<notin> set a \<Longrightarrow> takeWhile (\<lambda>x. x \<noteq> c) (a @ c # b) = a"
  by (induction a) auto

lemma car_key_inj:
  assumes "car_key a b = car_key a' b'" and "CHR ''|'' \<notin> set a" and "CHR ''|'' \<notin> set a'"
  shows "a = a' \<and> b = b'"
proof -
  have "a = a'"
    using assms takeWhile_before_sep [of "CHR ''|''" a b] takeWhile_before_sep [of "CHR ''|''" a' b']
    by (simp add: car_key_def)
  with assms(1) show ?thesis by (simp add: car_key_def)
qed

lemma user_videos_click [simp]: "user_videos (click_review car k st) = user_videos st"
  by (simp add: click_review_def Let_def split: option.split)

lemma loan_years_click [simp]: "loan_years (click_review car k st) = loan_years st"
  by (simp add: click_review_def Let_def split: option.split)

lemma loan_years_add [simp]: "loan_years (fst (fst (handle_add_video car sl))) = loan_years (fst sl)"
  by (cases sl) (simp add: handle_add_video_def Let_def)

lemma loan_years_remove [simp]: "loan_years (fst (handle_remove_video car u sl)) = loan_years (fst sl)"
  by (cases sl) (simp add: handle_remove_video_def Let_def)

lemma loan_years_range:
  "catalog_reachable car ls0 sl \<Longrightarrow> 1 \<le> loan_years (fst sl) \<and> loan_years (fst sl) \<le> 8"
proof (induction rule: catalog_reachable.induct)
  case start
  then show ?case by (simp add: catalog_open_def)
next
  case (step sl e)
  then show ?case by (cases sl; cases e) simp_all
qed

lemma calculate_monthly_finite:
  assumes "0 < yr" and "0 < loan_years st"
  shows "1 < (1 + yr / 100 / 12) ^ nat (loan_years st * 12)
         \<and> calculate_monthly st yr
             = Some (loan_amount st * (yr / 100 / 12) * (1 + yr / 100 / 12) ^ nat (loan_years st * 12)
                     / ((1 + yr / 100 / 12) ^ nat (loan_years st * 12) - 1))"
proof -
  have "0 < yr / 100 / 12" using assms(1) by simp
  moreover have "0 < nat (loan_years st * 12)" using assms(2) by simp
  ultimately have "1 < (1 + yr / 100 / 12) ^ nat (loan_years st * 12)" by (simp add: one_less_power)
  then show ?thesis by (simp add: calculate_monthly_def Let_def)
qed

lemma finance_rows_some:
  assumes "catalog_reachable car ls0 (st, ls)" and "(nm, rt, m) \<in> set (finance_rows car st)"
    and "0 < rt"
  shows "m \<noteq> None \<and> 1 \<le> loan_years st \<and> loan_years st \<le> 8"
proof -
  have y: "1 \<le> loan_years st \<and> loan_years st \<le> 8" using loan_years_range [OF assms(1)] by simp
  from assms(2) have m: "m = map_option js_round (calculate_monthly st rt)"
    by (auto simp add: finance_rows_def)
  from y have "0 < loan_years st" by simp
  with calculate_monthly_finite [OF assms(3)] m y show ?thesis by auto
qed

lemma int_str_not_Nil: "int_str n \<noteq> []"
proof (cases "n < 0")
  case False
  then show ?thesis using dec_str_hd [of n] by (auto simp add: int_str_def)
qed (simp add: int_str_def)

lemma form_value_truthy: "form_value v = form_value v' \<Longrightarrow> truthy_param v = truthy_param v'"
  by (cases v; cases v')
     (auto simp add: form_value_def truthy_param_def int_str_not_Nil int_str_not_Nil [symmetric]
        dest: int_str_inj split: if_splits)

lemma videos_inv_add:
  assumes "videos_inv car ls0 sl"
  shows "videos_inv car ls0 (fst (handle_add_video car sl))"
  using assms
  by (cases sl) (auto simp add: videos_inv_def handle_add_video_def Let_def list_ex_iff image_iff)

lemma videos_inv_remove:
  assumes "videos_inv car ls0 sl"
  shows "videos_inv car ls0 (handle_remove_video car u sl)"
  using assms
  by (cases sl) (auto simp add: videos_inv_def handle_remove_video_def Let_def distinct_map_filter)

lemma videos_inv_step:
  assumes "videos_inv car ls0 sl"
  shows "videos_inv car ls0 (catalog_step car e sl)"
proof (cases e)
  case Cat_add_video
  then show ?thesis using videos_inv_add [OF assms] by simp
next
  case (Cat_remove_video u)
  then show ?thesis using videos_inv_remove [OF assms] by simp
qed (use assms in \<open>cases sl; simp add: videos_inv_def\<close>)+

lemma catalog_run_reachable:
  "catalog_reachable car ls0 sl \<Longrightarrow> catalog_reachable car ls0 (catalog_run car es sl)"
proof (induction es arbitrary: sl)
  case Nil
  then show ?case by simp
next
  case (Cons e es)
  from Cons.prems have "catalog_reachable car ls0 (catalog_step car e sl)"
    by (rule catalog_reachable.step)
  from Cons.IH [OF this] show ?case by simp
qed

lemma videos_inv_reachable: "catalog_reachable car ls0 sl \<Longrightarrow> videos_inv car ls0 sl"
proof (induction rule: catalog_reachable.induct)
  case start
  then show ?case by (simp add: videos_inv_def loaded_videos_def)
next
  case (step sl e)
  from step.IH show ?case by (rule videos_inv_step)
qed

lemma annuity_total_bound:
  fixes r L :: rat
  assumes "0 < r" and "0 < n" and "0 \<le> L"
  shows "L \<le> L * r * (1 + r) ^ n / ((1 + r) ^ n - 1) * of_nat n"
proof -
  let ?q = "(1 + r) ^ n"
  have q1: "1 < ?q" using assms by (simp add: one_less_power)
  have "(\<Sum>i<n. (1 + r) ^ i) \<le> of_nat (card {..<n}) * ?q"
    by (rule sum_bounded_above) (use assms in \<open>simp add: power_increasing\<close>)
  then have s: "(\<Sum>i<n. (1 + r) ^ i) \<le> of_nat n * ?q" by simp
  have "?q - 1 = r * (\<Sum>i<n. (1 + r) ^ i)"
    using geometric_sum_rat [of r n] assms by simp
  also have "\<dots> \<le> r * (of_nat n * ?q)" using s assms by simp
  finally have le: "?q - 1 \<le> r * ?q * of_nat n" by (simp add: algebra_simps)
  have "L * (?q - 1) \<le> L * (r * ?q * of_nat n)"
    using le assms(3) by (rule mult_left_mono)
  then show ?thesis using q1 by (simp add: field_simps)
qed

section \<open>Properties of the catalogue\<close>

text \<open>C21. The loan calculator's payment amortizes the loan: for a positive rate and at
  least one year, \<^verbatim>\<open>calculateMonthly\<close> is finite, paying it every month for the whole
  term leaves nothing owed, and the payments add up to at least the loan. At a rate of
  0 the formula divides 0 by 0 and shows \<open>NaN\<close>.\<close>

theorem monthly_payment_amortizes:
  assumes "0 < yr" and "0 < loan_years st"
  shows "(\<exists>m. calculate_monthly st yr = Some m
            \<and> loan_balance (loan_amount st) (yr / 100 / 12) m (nat (loan_years st * 12)) = 0
            \<and> (0 \<le> loan_amount st \<longrightarrow> loan_amount st \<le> m * of_nat (nat (loan_years st * 12))))
         \<and> calculate_monthly st 0 = None"
proof -
  let ?r = "yr / 100 / 12" and ?n = "nat (loan_years st * 12)" and ?L = "loan_amount st"
  let ?q = "(1 + ?r) ^ ?n"
  have r: "0 < ?r" using assms(1) by simp
  have n: "0 < ?n" using assms(2) by simp
  let ?m = "?L * ?r * ?q / (?q - 1)"
  have q1: "1 < ?q" and c: "calculate_monthly st yr = Some ?m"
    using calculate_monthly_finite [OF assms] by simp_all
  have "loan_balance ?L ?r ?m ?n * ?r = ?L * ?r * ?q - ?m * (?q - 1)"
    by (rule loan_balance_closed)
  also have "\<dots> = 0" using q1 by (intro annuity_cancel) simp
  finally have b: "loan_balance ?L ?r ?m ?n = 0" using r by simp
  have t: "0 \<le> ?L \<longrightarrow> ?L \<le> ?m * of_nat ?n"
    using annuity_total_bound [OF r n] by simp
  have z: "calculate_monthly st 0 = None" by (simp add: calculate_monthly_def)
  from c b t z show ?thesis by blast
qed

text \<open>C22. Invariant of the user's video list, by induction over the modal's events:
  the store holds exactly the shown list under the car's key (or nothing was written),
  no other key is touched, each shown video was loaded or is a valid YouTube link that is
  not one of the catalogue's own reviews, and the URLs stay distinct.\<close>

theorem user_videos_invariant:
  assumes "catalog_reachable car ls0 (st, ls)"
  shows "(ls (storage_key car) = Some (Stored_videos (user_videos st))
          \<or> (ls = ls0 \<and> user_videos st = loaded_videos car ls0))
         \<and> (\<forall>k. k \<noteq> storage_key car \<longrightarrow> ls k = ls0 k)
         \<and> (\<forall>v\<in>set (user_videos st). v \<in> set (loaded_videos car ls0)
              \<or> (extract_youtube_id (uv_url v) \<noteq> None \<and> uv_url v \<notin> rv_url ` set (youtube_reviews car)))
         \<and> (distinct (map uv_url (loaded_videos car ls0)) \<longrightarrow> distinct (map uv_url (user_videos st)))"
  using videos_inv_reachable [OF assms] by (simp add: videos_inv_def Let_def)

text \<open>The model lookup of the brand grid returns a catalogue car of the brand's
  make whose model name contains, or is contained in, the requested name (provided no
  make contains the key separator \<open>|\<close>).\<close>

theorem find_detailed_car_sound:
  assumes "find_detailed_car cars b n = Some c"
    and "CHR ''|'' \<notin> set (bi_make b)" and "\<forall>x\<in>set cars. CHR ''|'' \<notin> set (cs_make x)"
  shows "c \<in> set cars \<and> cs_make c = bi_make b \<and> (sublist n (cs_model c) \<or> sublist (cs_model c) n)"
proof (cases "car_index cars (car_key (bi_make b) n)")
  case None
  with assms(1) show ?thesis
    by (auto simp add: find_detailed_car_def find_Some_iff js_includes_iff_sublist)
next
  case (Some e)
  with assms(1) have e: "e = c" by (simp add: find_detailed_car_def)
  from Some car_index_lookup [of Map.empty cars _ e] have
    "e \<in> set cars \<and> car_key (cs_make e) (cs_model e) = car_key (bi_make b) n"
    by (simp add: car_index_def)
  with e assms(2,3) car_key_inj [of "cs_make c" "cs_model c" "bi_make b" n] show ?thesis by auto
qed

text \<open>C24. What the search form shows determines the bazaar links: two states whose four
  search fields display the same text (\<^verbatim>\<open>searchParams.x || ''\<close>) get the same eight
  links, because a generator skips exactly the fields the form shows empty and prints the
  others as shown.\<close>

theorem bazaar_links_follow_form:
  assumes "ip_form (info_page_of car st) = ip_form (info_page_of car st')"
  shows "ip_links (info_page_of car st) = ip_links (info_page_of car st')"
proof -
  let ?p = "search st" and ?p' = "search st'"
  from assms have f1: "form_value (sp_price_from ?p) = form_value (sp_price_from ?p')"
    and f2: "form_value (sp_price_to ?p) = form_value (sp_price_to ?p')"
    and f3: "form_value (sp_year_from ?p) = form_value (sp_year_from ?p')"
    and f4: "form_value (sp_mileage_to ?p) = form_value (sp_mileage_to ?p')"
    by (simp_all add: info_page_of_def Let_def)
  have t: "truthy_params ?p = truthy_params ?p'"
    using form_value_truthy [OF f1] form_value_truthy [OF f2] form_value_truthy [OF f3]
      form_value_truthy [OF f4]
    by (simp add: truthy_params_def)
  have "gen car ?p = gen car ?p'" if g: "(nm, gen) \<in> set bazaar_generators" for nm gen
  proof -
    have "gen car ?p = gen car (truthy_params ?p)" using generators_truthy [OF g] by simp
    also have "\<dots> = gen car (truthy_params ?p')" by (simp only: t)
    also have "\<dots> = gen car ?p'" using generators_truthy [OF g] by simp
    finally show ?thesis .
  qed
  then show ?thesis by (auto simp add: info_page_of_def Let_def)
qed

text \<open>The duplicate check of \<^verbatim>\<open>handleAddVideo\<close> compares URL strings, so the same
  video under its short and its long link is added twice.\<close>

theorem same_video_added_twice:
  "let car = static_entry ''tesla-model-3'' ''Tesla'' ''Model 3'';
       sl = catalog_run car [Cat_new_video ''https://youtu.be/dQw4w9WgXcQ'', Cat_add_video,
              Cat_new_video ''https://www.youtube.com/watch?v=dQw4w9WgXcQ'', Cat_add_video]
              (catalog_open car Map.empty, Map.empty)
   in catalog_reachable car Map.empty sl
      \<and> map (\<lambda>v. extract_youtube_id (uv_url v)) (user_videos (fst sl))
          = [Some ''dQw4w9WgXcQ'', Some ''dQw4w9WgXcQ'']"
proof -
  let ?car = "static_entry ''tesla-model-3'' ''Tesla'' ''Model 3''"
  let ?es = "[Cat_new_video ''https://youtu.be/dQw4w9WgXcQ'', Cat_add_video,
              Cat_new_video ''https://www.youtube.com/watch?v=dQw4w9WgXcQ'', Cat_add_video]"
  have r: "catalog_reachable ?car Map.empty (catalog_run ?car ?es (catalog_open ?car Map.empty, Map.empty))"
    by (rule catalog_run_reachable [OF catalog_reachable.start])
  have v: "map (\<lambda>v. extract_youtube_id (uv_url v))
             (user_videos (fst (catalog_run ?car ?es (catalog_open ?car Map.empty, Map.empty))))
           = [Some ''dQw4w9WgXcQ'', Some ''dQw4w9WgXcQ'']"
    by code_simp
  from r v show ?thesis by (simp add: Let_def)
qed

section \<open>Witnesses\<close>

theorem monthly_payment_amortizes_witness:
  "(\<exists>m. calculate_monthly ((catalog_open (static_entry ''skoda-enyaq'' ''Skoda'' ''Enyaq iV'') Map.empty)
                               \<lparr>loan_amount := 400000\<rparr>) (46 / 10) = Some m
        \<and> loan_balance 400000 (46 / 10 / 100 / 12) m (nat (5 * 12)) = 0
        \<and> (0 \<le> (400000::rat) \<longrightarrow> 400000 \<le> m * of_nat (nat (5 * 12))))
   \<and> calculate_monthly ((catalog_open (static_entry ''skoda-enyaq'' ''Skoda'' ''Enyaq iV'') Map.empty)
                               \<lparr>loan_amount := 400000\<rparr>) 0 = None"
proof -
  let ?st = "(catalog_open (static_entry ''skoda-enyaq'' ''Skoda'' ''Enyaq iV'') Map.empty)\<lparr>loan_amount := 400000\<rparr>"
  have y: "0 < loan_years ?st" by (simp add: catalog_open_def)
  have r: "0 < (46 / 10 :: rat)" by simp
  have l: "loan_amount ?st = 400000" "loan_years ?st = 5" by (simp_all add: catalog_open_def)
  show ?thesis using monthly_payment_amortizes [OF r y] unfolding l .
qed

theorem user_videos_invariant_witness:
  "let car = static_entry ''tesla-model-3'' ''Tesla'' ''Model 3'';
       sl = catalog_run car [Cat_new_video ''https://youtu.be/dQw4w9WgXcQ'', Cat_add_video,
              Cat_new_video ''https://www.youtube.com/watch?v=dQw4w9WgXcQ'', Cat_add_video,
              Cat_remove_video ''https://youtu.be/dQw4w9WgXcQ'']
              (catalog_open car Map.empty, Map.empty)
   in catalog_reachable car Map.empty (fst sl, snd sl)
      \<and> snd sl (storage_key car) = Some (Stored_videos (user_videos (fst sl)))
      \<and> distinct (map uv_url (user_videos (fst sl)))"
proof -
  let ?car = "static_entry ''tesla-model-3'' ''Tesla'' ''Model 3''"
  let ?sl = "catalog_run ?car [Cat_new_video ''https://youtu.be/dQw4w9WgXcQ'', Cat_add_video,
              Cat_new_video ''https://www.youtube.com/watch?v=dQw4w9WgXcQ'', Cat_add_video,
              Cat_remove_video ''https://youtu.be/dQw4w9WgXcQ'']
              (catalog_open ?car Map.empty, Map.empty)"
  obtain st ls where sl: "?sl = (st, ls)" by (cases ?sl)
  have r: "catalog_reachable ?car Map.empty (st, ls)"
    unfolding sl [symmetric] by (rule catalog_run_reachable [OF catalog_reachable.start])
  have w: "snd ?sl (storage_key ?car) \<noteq> None" by code_simp
  then have w': "ls (storage_key ?car) \<noteq> None" unfolding sl by simp
  have l: "loaded_videos ?car Map.empty = []" by (simp add: loaded_videos_def catalog_open_def)
  from user_videos_invariant [OF r] w' l
  have "catalog_reachable ?car Map.empty (st, ls)
        \<and> ls (storage_key ?car) = Some (Stored_videos (user_videos st))
        \<and> distinct (map uv_url (user_videos st))" using r by auto
  then show ?thesis unfolding Let_def sl by simp
qed

theorem find_detailed_car_sound_witness:
  "let skoda = [CHR 0xC5, CHR 0xA0] @ ''koda'';
       cars = [static_entry ''skoda-enyaq'' skoda ''Enyaq iV'', static_entry ''vw-id4'' ''Volkswagen'' ''ID.4'']
   in find_detailed_car cars (brand_entry skoda Mainstream [''Enyaq'']) ''Enyaq''
        = Some (static_entry ''skoda-enyaq'' skoda ''Enyaq iV'')
      \<and> sublist ''Enyaq'' (cs_model (static_entry ''skoda-enyaq'' skoda ''Enyaq iV''))"
proof -
  let ?skoda = "[CHR 0xC5, CHR 0xA0] @ ''koda''"
  let ?cars = "[static_entry ''skoda-enyaq'' ?skoda ''Enyaq iV'', static_entry ''vw-id4'' ''Volkswagen'' ''ID.4'']"
  let ?b = "brand_entry ?skoda Mainstream [''Enyaq'']"
  have f: "find_detailed_car ?cars ?b ''Enyaq'' = Some (static_entry ''skoda-enyaq'' ?skoda ''Enyaq iV'')"
    by code_simp
  have m: "CHR ''|'' \<notin> set (bi_make ?b)" by code_simp
  have a: "\<forall>x\<in>set ?cars. CHR ''|'' \<notin> set (cs_make x)" by code_simp
  have c: "cs_model (static_entry ''skoda-enyaq'' ?skoda ''Enyaq iV'') = ''Enyaq iV''"
    by (simp add: static_entry_def)
  from find_detailed_car_sound [OF f m a] f c show ?thesis
    by (auto simp add: Let_def)
qed

theorem bazaar_links_follow_form_witness:
  "let car = static_entry ''tesla-model-3'' ''Tesla'' ''Model 3'';
       st = (catalog_open car Map.empty)\<lparr>search := \<lparr>sp_price_from = Some 0, sp_price_to = Some 800000,
                                         sp_year_from = None, sp_mileage_to = None\<rparr>\<rparr>;
       st' = (catalog_open car Map.empty)\<lparr>search := \<lparr>sp_price_from = None, sp_price_to = Some 800000,
                                         sp_year_from = None, sp_mileage_to = None\<rparr>\<rparr>
   in ip_form (info_page_of car st) = ip_form (info_page_of car st')
      \<and> ip_links (info_page_of car st) = ip_links (info_page_of car st')"
proof -
  let ?car = "static_entry ''tesla-model-3'' ''Tesla'' ''Model 3''"
  let ?st = "(catalog_open ?car Map.empty)\<lparr>search := \<lparr>sp_price_from = Some 0, sp_price_to = Some 800000,
                                         sp_year_from = None, sp_mileage_to = None\<rparr>\<rparr>"
  let ?st' = "(catalog_open ?car Map.empty)\<lparr>search := \<lparr>sp_price_from = None, sp_price_to = Some 800000,
                                         sp_year_from = None, sp_mileage_to = None\<rparr>\<rparr>"
  have f: "ip_form (info_page_of ?car ?st) = ip_form (info_page_of ?car ?st')"
    by (simp add: info_page_of_def form_value_def)
  from f bazaar_links_follow_form [OF f] show ?thesis by (simp add: Let_def)
qed

end
