(* ===== verification/CatalogData.thy ===== *)
theory CatalogData
  imports Catalog
begin

text \<open>
  The two constant tables of the catalogue, transcribed entry by entry:
  \<^verbatim>\<open>CARS_DATA\<close> of \<^verbatim>\<open>src/web/src/data/cars_static.ts\<close> (the cars with a detail
  page) and \<^verbatim>\<open>BRAND_CATALOG\<close> of \<^verbatim>\<open>src/web/src/data/brandLogos.ts\<close> (the brand
  grid). Strings are UTF-8 byte strings, non-ASCII bytes written as character codes;
  a decimal rate such as \<open>4.8\<close> is the rational \<open>48 / 10\<close>; a logo component is its
  import name. The facts below are what the brand grid and the catalogue modal do with
  these tables: which brand-grid models open a detail page, which detail pages no model
  opens, and the well-formedness of the tables the operations rely on.
\<close>

section \<open>\<^verbatim>\<open>CARS_DATA\<close>\<close>

definition car_skoda_enyaq :: car_static where
  "car_skoda_enyaq =
     \<lparr>cs_id = ''skoda-enyaq'', cs_make = [CHR 0xC5, CHR 0xA0] @ ''koda'', cs_model = ''Enyaq iV'', variant = ''80 / 85'',
      price_from = 750000, range_wltp = 537, battery = 77, charging = 135,
      cs_image = ''https://cdn.skoda-storyboard.com/2020/09/Enyaq_iV_80_1-scaled.jpg'',
      bazaar_links = \<lparr>mobile_de = ''https://www.mobile.de/cz/osobn%C3%AD-v%C5%AFz/skoda-enyaq/vhc:car,pgn:2,pgs:10,srt:price,sro:asc,ms1:22900_25_,frn:2021,ful:electricity,cnd:used,dmg:true'',
        autoscout = ''https://www.autoscout24.cz/'',
        carvago = ''https://carvago.com/cs/auta/skoda/enyaq/elektrina?price-from=400000&price-to=600000&registration-date-from=2021'',
        sauto = ''https://www.sauto.cz/inzerce/osobni/skoda/enyaq''\<rparr>,
      youtube_reviews = [\<lparr>rv_title = [CHR 0xC5, CHR 0xA0] @ ''KODA ENYAQ iV 80 - POV Test Drive'', rv_url = ''https://www.youtube.com/watch?v=l9vOJYcqSXs'',
          rv_thumbnail = ''https://img.youtube.com/vi/l9vOJYcqSXs/maxresdefault.jpg'', rv_channel = ''fDrive.cz''\<rparr>,
        \<lparr>rv_title = [CHR 0xC5, CHR 0xA0] @ ''koda Enyaq iV Sportline - Range Test'', rv_url = ''https://www.youtube.com/watch?v=2tJfFaSBilw'',
          rv_thumbnail = ''https://img.youtube.com/vi/2tJfFaSBilw/maxresdefault.jpg'', rv_channel = ''fDrive.cz''\<rparr>],
      financing = [\<lparr>bank_name = ''Raiffeisenbank'', rate = (48 / 10), bank_link = ''https://www.rb.cz/osobni/pujcky/pujcka-na-auto'', term_years = 5\<rparr>,
        \<lparr>bank_name = [CHR 0xC4, CHR 0x8C] @ ''SOB'', rate = (51 / 10), bank_link = ''https://www.csobleasing.cz/autopujcka'', term_years = 5\<rparr>,
        \<lparr>bank_name = ''Moneta'', rate = (46 / 10), bank_link = ''https://www.monetaauto.cz/'', term_years = 5\<rparr>],
      cs_insurance = [\<lparr>provider = ''Kooperativa'', ins_link = ''https://www.koop.cz/pojisteni/pojisteni-vozidel/elektromobil'',
          ins_description = ''Specializovan'' @ [CHR 0xC3, CHR 0xA9] @ '' poji'' @ [CHR 0xC5, CHR 0xA1] @ ''t'' @ [CHR 0xC4, CHR 0x9B] @ ''n'' @ [CHR 0xC3, CHR 0xAD] @ '' pro EV v'' @ [CHR 0xC4, CHR 0x8D] @ ''etn'' @ [CHR 0xC4, CHR 0x9B] @ '' kabel'' @ [CHR 0xC5, CHR 0xAF] @ '' a wallboxu.''\<rparr>,
        \<lparr>provider = ''Allianz'', ins_link = ''https://www.allianz.cz/cs_CZ/pojisteni/vozidla/elektromobil.html'',
          ins_description = ''Asistence p'' @ [CHR 0xC5, CHR 0x99] @ ''i vybit'' @ [CHR 0xC3, CHR 0xAD] @ '', kryt'' @ [CHR 0xC3, CHR 0xAD] @ '' baterie.''\<rparr>,
        \<lparr>provider = ''Generali'', ins_link = ''https://www.generaliceska.cz/povinne-ruceni'',
          ins_description = ''Vy'' @ [CHR 0xC5, CHR 0xA1, CHR 0xC5, CHR 0xA1, CHR 0xC3, CHR 0xAD] @ '' limity pro EV p'' @ [CHR 0xC5, CHR 0x99] @ ''i st'' @ [CHR 0xC5, CHR 0x99] @ ''etu se zv'' @ [CHR 0xC4, CHR 0x9B, CHR 0xC5, CHR 0x99, CHR 0xC3, CHR 0xAD] @ ''.''\<rparr>]\<rparr>"

definition car_tesla_model_3 :: car_static where
  "car_tesla_model_3 =
     \<lparr>cs_id = ''tesla-model-3'', cs_make = ''Tesla'', cs_model = ''Model 3'', variant = ''Long Range / Highland'',
      price_from = 600000, range_wltp = 602, battery = 75, charging = 250,
      cs_image = ''https://tesla-cdn.thron.com/delivery/public/image/tesla/03e533bf-8b1d-463f-9813-9a597aabb560/bvlatuR/std/1200x628/Model-3-Hero-Desktop-LHD'',
      bazaar_links = \<lparr>mobile_de = ''https://www.mobile.de/cz/osobn%C3%AD-v%C5%AFz/tesla-model-3/vhc:car,ms1:135_5_,prx:22500,ful:electricity'',
        autoscout = ''https://www.autoscout24.cz/lst/tesla/model-3'',
        carvago = ''https://carvago.com/cs/auta/tesla/model-3'',
        sauto = ''https://www.sauto.cz/inzerce/osobni/tesla/model-3''\<rparr>,
      youtube_reviews = [\<lparr>rv_title = ''Tesla Model 3 Highland - 1000km Test'', rv_url = ''https://www.youtube.com/watch?v=szE3XbkPHtQ'',
          rv_thumbnail = ''https://img.youtube.com/vi/szE3XbkPHtQ/maxresdefault.jpg'', rv_channel = ''fDrive.cz''\<rparr>],
      financing = [\<lparr>bank_name = ''Raiffeisenbank'', rate = (48 / 10), bank_link = ''https://www.rb.cz/osobni/pujcky/pujcka-na-auto'', term_years = 5\<rparr>,
        \<lparr>bank_name = ''Moneta'', rate = (46 / 10), bank_link = ''https://www.monetaauto.cz/'', term_years = 5\<rparr>],
      cs_insurance = [\<lparr>provider = ''Allianz'', ins_link = ''https://www.allianz.cz/cs_CZ/pojisteni/vozidla/elektromobil.html'',
          ins_description = ''Komplexn'' @ [CHR 0xC3, CHR 0xAD] @ '' ochrana pro Tesly.''\<rparr>,
        \<lparr>provider = [CHR 0xC4, CHR 0x8C] @ ''PP'', ins_link = ''https://www.cpp.cz/pojisteni-vozidel'',
          ins_description = ''V'' @ [CHR 0xC3, CHR 0xBD] @ ''hodn'' @ [CHR 0xC3, CHR 0xA9] @ '' povinn'' @ [CHR 0xC3, CHR 0xA9] @ '' ru'' @ [CHR 0xC4, CHR 0x8D] @ ''en'' @ [CHR 0xC3, CHR 0xAD] @ ''.''\<rparr>]\<rparr>"

definition car_tesla_model_y :: car_static where
  "car_tesla_model_y =
     \<lparr>cs_id = ''tesla-model-y'', cs_make = ''Tesla'', cs_model = ''Model Y'', variant = ''Long Range'',
      price_from = 850000, range_wltp = 533, battery = 75, charging = 250,
      cs_image = ''https://tesla-cdn.thron.com/delivery/public/image/tesla/8e2df1b9-a4bf-4eb9-beec-2cf5cc77fca0/bvlatuR/std/1200x628/Model-Y-Hero-Desktop-Global'',
      bazaar_links = \<lparr>mobile_de = ''https://www.mobile.de/cz/osobn%C3%AD-v%C5%AFz/tesla-model-y/vhc:car,ms1:135_6_'',
        autoscout = ''https://www.autoscout24.cz/lst/tesla/model-y'',
        carvago = ''https://carvago.com/cs/auta/tesla/model-y'',
        sauto = ''https://www.sauto.cz/inzerce/osobni/tesla/model-y''\<rparr>,
      youtube_reviews = [\<lparr>rv_title = ''Tesla Model Y Long Range - T'' @ [CHR 0xC3, CHR 0xBD] @ ''denn'' @ [CHR 0xC3, CHR 0xAD] @ '' test'', rv_url = ''https://www.youtube.com/watch?v=S014L281W4w'',
          rv_thumbnail = ''https://img.youtube.com/vi/S014L281W4w/maxresdefault.jpg'', rv_channel = ''Electro Dad''\<rparr>],
      financing = [\<lparr>bank_name = [CHR 0xC4, CHR 0x8C] @ ''SOB'', rate = (51 / 10), bank_link = ''https://www.csobleasing.cz/autopujcka'', term_years = 5\<rparr>,
        \<lparr>bank_name = ''Moneta'', rate = (46 / 10), bank_link = ''https://www.monetaauto.cz/'', term_years = 5\<rparr>],
      cs_insurance = [\<lparr>provider = ''Kooperativa'', ins_link = ''https://www.koop.cz'',
          ins_description = ''Poji'' @ [CHR 0xC5, CHR 0xA1] @ ''t'' @ [CHR 0xC4, CHR 0x9B] @ ''n'' @ [CHR 0xC3, CHR 0xAD] @ '' skel a baterie.''\<rparr>,
        \<lparr>provider = ''Allianz'', ins_link = ''https://www.allianz.cz'',
          ins_description = ''Ide'' @ [CHR 0xC3, CHR 0xA1] @ ''ln'' @ [CHR 0xC3, CHR 0xAD] @ '' pro dra'' @ [CHR 0xC5, CHR 0xBE, CHR 0xC5, CHR 0xA1, CHR 0xC3, CHR 0xAD] @ '' vozy.''\<rparr>]\<rparr>"

definition car_kia_eniro :: car_static where
  "car_kia_eniro =
     \<lparr>cs_id = ''kia-eniro'', cs_make = ''Kia'', cs_model = ''e-Niro'', variant = ''64 kWh'',
      price_from = 550000, range_wltp = 455, battery = 64, charging = 77,
      cs_image = ''https://www.kia.com/content/dam/kwcms/kme/global/en/assets/vehicles/niro-ev/discover/kia-niro-ev-my23-discover-header.png'',
      bazaar_links = \<lparr>mobile_de = ''https://www.mobile.de/cz/osobn%C3%AD-v%C5%AFz/kia-niro/vhc:car,ms1:13200_18_,ful:electricity'',
        autoscout = ''https://www.autoscout24.cz/lst/kia/niro'',
        carvago = ''https://carvago.com/cs/auta/kia/niro/elektrina'',
        sauto = ''https://www.sauto.cz/inzerce/osobni/kia/niro''\<rparr>,
      youtube_reviews = [\<lparr>rv_title = ''TEST Kia e-Niro 64 kWh - Eso v ruk'' @ [CHR 0xC3, CHR 0xA1] @ ''vu'', rv_url = ''https://www.youtube.com/results?search_query=TEST+Kia+e-Niro+64+kWh+-+Eso+v+ruk%C3%A1vu'',
          rv_thumbnail = [], rv_channel = ''YouTube Search''\<rparr>],
      financing = [\<lparr>bank_name = ''Moneta'', rate = (46 / 10), bank_link = ''https://www.monetaauto.cz/'', term_years = 5\<rparr>],
      cs_insurance = [\<lparr>provider = ''Generali'', ins_link = ''https://www.generaliceska.cz'',
          ins_description = ''Sleva za bezpe'' @ [CHR 0xC4, CHR 0x8D] @ ''nostn'' @ [CHR 0xC3, CHR 0xAD] @ '' asistenty.''\<rparr>]\<rparr>"

definition car_vw_id4 :: car_static where
  "car_vw_id4 =
     \<lparr>cs_id = ''vw-id4'', cs_make = ''Volkswagen'', cs_model = ''ID.4'', variant = ''Pro Performance'',
      price_from = 700000, range_wltp = 520, battery = 77, charging = 135,
      cs_image = ''https://www.volkswagen.cz/idhub/content/dam/onehub_pkw/importers/cz/modely/id/id-4-2021/gallery/1920x1080/01_ID4.jpg'',
      bazaar_links = \<lparr>mobile_de = ''https://www.mobile.de/cz/osobn%C3%AD-v%C5%AFz/volkswagen-id-4/vhc:car,ms1:25200_20_,ful:electricity'',
        autoscout = ''https://www.autoscout24.cz/lst/volkswagen/id-4'',
        carvago = ''https://carvago.com/cs/auta/volkswagen/id-4'',
        sauto = ''https://www.sauto.cz/inzerce/osobni/volkswagen/id-4''\<rparr>,
      youtube_reviews = [\<lparr>rv_title = ''Volkswagen ID.4 | Test spot'' @ [CHR 0xC5, CHR 0x99] @ ''eby'', rv_url = ''https://www.youtube.com/results?search_query=Volkswagen+ID.4+Test+spot%C5%99eby'',
          rv_thumbnail = [], rv_channel = ''YouTube Search''\<rparr>],
      financing = [],
      cs_insurance = []\<rparr>"

definition car_vw_id3 :: car_static where
  "car_vw_id3 =
     \<lparr>cs_id = ''vw-id3'', cs_make = ''Volkswagen'', cs_model = ''ID.3'', variant = ''Pro S'',
      price_from = 500000, range_wltp = 420, battery = 58, charging = 120,
      cs_image = ''https://www.volkswagen.cz/idhub/content/dam/onehub_pkw/importers/cz/modely/id/id-3-2020/gallery/1920x1080/01_ID3.jpg'',
      bazaar_links = \<lparr>mobile_de = ''https://www.mobile.de/cz/osobn%C3%AD-v%C5%AFz/volkswagen-id-3/vhc:car,ms1:25200_15_,ful:electricity'',
        autoscout = ''https://www.autoscout24.cz/lst/volkswagen/id-3'',
        carvago = ''https://carvago.com/cs/auta/volkswagen/id-3'',
        sauto = ''https://www.sauto.cz/inzerce/osobni/volkswagen/id-3''\<rparr>,
      youtube_reviews = [\<lparr>rv_title = ''Volkswagen ID.3 Pro S 77 kWh test'', rv_url = ''https://www.youtube.com/results?search_query=Volkswagen+ID.3+Pro+S+77+kWh+dlouhodob%C3%BD+test'',
          rv_thumbnail = [], rv_channel = ''YouTube Search''\<rparr>],
      financing = [],
      cs_insurance = []\<rparr>"

definition car_hyundai_kona :: car_static where
  "car_hyundai_kona =
     \<lparr>cs_id = ''hyundai-kona'', cs_make = ''Hyundai'', cs_model = ''Kona Electric'', variant = ''64 kWh'',
      price_from = 500000, range_wltp = 484, battery = 64, charging = 77,
      cs_image = ''https://s7g10.scene7.com/is/image/hyundaiautoever/Kona_Electric_OS_PE_2021_Gallery_1_1280x720?wid=1280&hei=720&fmt=jpg'',
      bazaar_links = \<lparr>mobile_de = ''https://www.mobile.de/cz/osobn%C3%AD-v%C5%AFz/hyundai-kona/vhc:car,ms1:11600_41_,ful:electricity'',
        autoscout = ''https://www.autoscout24.cz/lst/hyundai/kona'',
        carvago = ''https://carvago.com/cs/auta/hyundai/kona/elektrina'',
        sauto = ''https://www.sauto.cz/inzerce/osobni/hyundai/kona''\<rparr>,
      youtube_reviews = [\<lparr>rv_title = ''Hyundai Kona Electric - p'' @ [CHR 0xC5, CHR 0xAF] @ ''lro'' @ [CHR 0xC4, CHR 0x8D] @ ''n'' @ [CHR 0xC3, CHR 0xAD] @ '' test'', rv_url = ''https://www.youtube.com/results?search_query=Hyundai+Kona+Electric+p%C5%AFlro%C4%8Dn%C3%AD+test'',
          rv_thumbnail = [], rv_channel = ''YouTube Search''\<rparr>],
      financing = [],
      cs_insurance = []\<rparr>"

definition car_hyundai_ioniq5 :: car_static where
  "car_hyundai_ioniq5 =
     \<lparr>cs_id = ''hyundai-ioniq5'', cs_make = ''Hyundai'', cs_model = ''Ioniq 5'', variant = ''Long Range AWD'',
      price_from = 850000, range_wltp = 460, battery = 73, charging = 233,
      cs_image = ''https://s7g10.scene7.com/is/image/hyundaiautoever/IONIQ_5_NE_2021_Gallery_1_1280x720?wid=1280&hei=720&fmt=jpg'',
      bazaar_links = \<lparr>mobile_de = ''https://www.mobile.de/cz/osobn%C3%AD-v%C5%AFz/hyundai-ioniq-5/vhc:car,ms1:11600_44_,ful:electricity'',
        autoscout = ''https://www.autoscout24.cz/lst/hyundai/ioniq-5'',
        carvago = ''https://carvago.com/cs/auta/hyundai/ioniq-5'',
        sauto = ''https://www.sauto.cz/inzerce/osobni/hyundai/ioniq-5''\<rparr>,
      youtube_reviews = [\<lparr>rv_title = ''Hyundai Ioniq 5 review with 0-60mph test!'', rv_url = ''https://www.youtube.com/watch?v=Q6K_J7J3-eU'',
          rv_thumbnail = ''https://img.youtube.com/vi/Q6K_J7J3-eU/maxresdefault.jpg'', rv_channel = ''carwow''\<rparr>,
        \<lparr>rv_title = ''Hyundai Ioniq 5 Review | What Do I Think After Two Years?'', rv_url = ''https://www.youtube.com/watch?v=wN287p9qJgM'',
          rv_thumbnail = ''https://img.youtube.com/vi/wN287p9qJgM/maxresdefault.jpg'', rv_channel = ''Fully Charged''\<rparr>],
      financing = [\<lparr>bank_name = ''Raiffeisenbank'', rate = (48 / 10), bank_link = ''https://www.rb.cz/osobni/pujcky/pujcka-na-auto'', term_years = 5\<rparr>],
      cs_insurance = [\<lparr>provider = ''Kooperativa'', ins_link = ''https://www.koop.cz'',
          ins_description = ''Komplexn'' @ [CHR 0xC3, CHR 0xAD] @ '' bal'' @ [CHR 0xC3, CHR 0xAD, CHR 0xC4, CHR 0x8D] @ ''ek.''\<rparr>]\<rparr>"

definition car_kia_ev6 :: car_static where
  "car_kia_ev6 =
     \<lparr>cs_id = ''kia-ev6'', cs_make = ''Kia'', cs_model = ''EV6'', variant = ''Long Range'',
      price_from = 900000, range_wltp = 528, battery = 77, charging = 240,
      cs_image = ''https://www.kia.com/content/dam/kwcms/kme/global/en/assets/vehicles/ev6/discover/kia-ev6-my22-discover-header.png'',
      bazaar_links = \<lparr>mobile_de = ''https://www.mobile.de/cz/osobn%C3%AD-v%C5%AFz/kia-ev6/vhc:car,ms1:13200_30_,ful:electricity'',
        autoscout = ''https://www.autoscout24.cz/lst/kia/ev6'',
        carvago = ''https://carvago.com/cs/auta/kia/ev6'',
        sauto = ''https://www.sauto.cz/inzerce/osobni/kia/ev6''\<rparr>,
      youtube_reviews = [\<lparr>rv_title = ''Kia EV6 2025 '' @ [CHR 0xE2, CHR 0x80, CHR 0x93] @ '' Facelift Test'', rv_url = ''https://www.youtube.com/watch?v=jJ1M-w9vB_U'',
          rv_thumbnail = ''https://img.youtube.com/vi/jJ1M-w9vB_U/maxresdefault.jpg'', rv_channel = ''Electro Dad''\<rparr>],
      financing = [\<lparr>bank_name = ''Moneta'', rate = (46 / 10), bank_link = ''https://www.monetaauto.cz/'', term_years = 5\<rparr>],
      cs_insurance = [\<lparr>provider = ''Allianz'', ins_link = ''https://www.allianz.cz'',
          ins_description = ''Poji'' @ [CHR 0xC5, CHR 0xA1] @ ''t'' @ [CHR 0xC4, CHR 0x9B] @ ''n'' @ [CHR 0xC3, CHR 0xAD] @ '' pro EV roku.''\<rparr>]\<rparr>"

definition car_audi_q4 :: car_static where
  "car_audi_q4 =
     \<lparr>cs_id = ''audi-q4'', cs_make = ''Audi'', cs_model = ''Q4 e-tron'', variant = ''40'',
      price_from = 850000, range_wltp = 520, battery = 77, charging = 135,
      cs_image = ''https://mediaservice.audi.com/media/live/50900/fly1400x601n1/f4bca/2022.png'',
      bazaar_links = \<lparr>mobile_de = ''https://www.mobile.de/cz/osobn%C3%AD-v%C5%AFz/audi-q4-e-tron/vhc:car,ms1:1900_40_,ful:electricity'',
        autoscout = ''https://www.autoscout24.cz/lst/audi/q4-e-tron'',
        carvago = ''https://carvago.com/cs/auta/audi/q4-e-tron'',
        sauto = ''https://www.sauto.cz/inzerce/osobni/audi/q4-e-tron''\<rparr>,
      youtube_reviews = [\<lparr>rv_title = ''Audi Q4 e-tron (TEST)'', rv_url = ''https://www.youtube.com/results?search_query=Audi+Q4+e-tron+TEST+Dostupn%C4%9Bj%C5%A1%C3%AD+elekt%C5%99ina'',
          rv_thumbnail = [], rv_channel = ''YouTube Search''\<rparr>],
      financing = [],
      cs_insurance = []\<rparr>"

definition car_bmw_i3 :: car_static where
  "car_bmw_i3 =
     \<lparr>cs_id = ''bmw-i3'', cs_make = ''BMW'', cs_model = ''i3'', variant = ''120Ah'',
      price_from = 400000, range_wltp = 300, battery = 42, charging = 50,
      cs_image = ''https://www.bmw.cz/content/dam/bmw/common/all-models/i-series/i3/2018/navigation/bmw-i3-modelfinder-890x501.png'',
      bazaar_links = \<lparr>mobile_de = ''https://www.mobile.de/cz/osobn%C3%AD-v%C5%AFz/bmw-i3/vhc:car,ms1:3500_83_,ful:electricity'',
        autoscout = ''https://www.autoscout24.cz/lst/bmw/i3'',
        carvago = ''https://carvago.com/cs/auta/bmw/i3'',
        sauto = ''https://www.sauto.cz/inzerce/osobni/bmw/i3''\<rparr>,
      youtube_reviews = [\<lparr>rv_title = ''BMW i3: M'' @ [CHR 0xC4, CHR 0x9B] @ ''stsk'' @ [CHR 0xC3, CHR 0xA9] @ '' posunovadlo?'', rv_url = ''https://www.youtube.com/results?search_query=BMW+i3+M%C4%9Bstsk%C3%A9+posunovadlo'',
          rv_thumbnail = [], rv_channel = ''YouTube Search''\<rparr>],
      financing = [],
      cs_insurance = []\<rparr>"

definition car_renault_megane :: car_static where
  "car_renault_megane =
     \<lparr>cs_id = ''renault-megane'', cs_make = ''Renault'', cs_model = ''Megane E-Tech'', variant = ''EV60'',
      price_from = 650000, range_wltp = 450, battery = 60, charging = 130,
      cs_image = ''https://cdn.group.renault.com/ren/master/renault-new-cars/megane-e-tech/design/renault-megane-e-tech-exterior-001.jpg'',
      bazaar_links = \<lparr>mobile_de = ''https://www.mobile.de/cz/osobn%C3%AD-v%C5%AFz/renault-megane-e-tech/vhc:car,ms1:20700_44_,ful:electricity'',
        autoscout = ''https://www.autoscout24.cz/lst/renault/megane'',
        carvago = ''https://carvago.com/cs/auta/renault/megane/elektrina'',
        sauto = ''https://www.sauto.cz/inzerce/osobni/renault/megane-e-tech''\<rparr>,
      youtube_reviews = [\<lparr>rv_title = ''Velk'' @ [CHR 0xC3, CHR 0xBD] @ '' TEST Renaultu M'' @ [CHR 0xC3, CHR 0xA9] @ ''gane E-Tech'', rv_url = ''https://www.youtube.com/results?search_query=Renault+M%C3%A9gane+E-Tech+TEST'',
          rv_thumbnail = [], rv_channel = ''YouTube Search''\<rparr>],
      financing = [],
      cs_insurance = []\<rparr>"

definition car_mercedes_eqa :: car_static where
  "car_mercedes_eqa =
     \<lparr>cs_id = ''mercedes-eqa'', cs_make = ''Mercedes-Benz'', cs_model = ''EQA'', variant = ''250+'',
      price_from = 750000, range_wltp = 531, battery = 70, charging = 100,
      cs_image = ''https://www.mercedes-benz.cz/content/dam/hq/passengercars/cars/eqa/h243-fl/overview/images/mercedes-benz-eqa-h243-fl-startpage-exterior-1-544x340.jpg'',
      bazaar_links = \<lparr>mobile_de = ''https://www.mobile.de/cz/osobn%C3%AD-v%C5%AFz/mercedes-benz-eqa/vhc:car,ms1:17200_67_,ful:electricity'',
        autoscout = ''https://www.autoscout24.cz/lst/mercedes-benz/eqa'',
        carvago = ''https://carvago.com/cs/auta/mercedes-benz/eqa'',
        sauto = ''https://www.sauto.cz/inzerce/osobni/mercedes-benz/eqa''\<rparr>,
      youtube_reviews = [\<lparr>rv_title = ''Mercedes EQA 250+ Test'', rv_url = ''https://www.youtube.com/results?search_query=Mercedes+EQA+250+test+cz'',
          rv_thumbnail = [], rv_channel = ''YouTube Search''\<rparr>],
      financing = [\<lparr>bank_name = ''Raiffeisenbank'', rate = (48 / 10), bank_link = ''https://www.rb.cz/osobni/pujcky/pujcka-na-auto'', term_years = 5\<rparr>],
      cs_insurance = [\<lparr>provider = ''Allianz'', ins_link = ''https://www.allianz.cz'',
          ins_description = ''Premium poji'' @ [CHR 0xC5, CHR 0xA1] @ ''t'' @ [CHR 0xC4, CHR 0x9B] @ ''n'' @ [CHR 0xC3, CHR 0xAD] @ '' pro Mercedes vozy.''\<rparr>]\<rparr>"

definition cars_data :: "car_static list" where
  "cars_data =
     [car_skoda_enyaq,
      car_tesla_model_3,
      car_tesla_model_y,
      car_kia_eniro,
      car_vw_id4,
      car_vw_id3,
      car_hyundai_kona,
      car_hyundai_ioniq5,
      car_kia_ev6,
      car_audi_q4,
      car_bmw_i3,
      car_renault_megane,
      car_mercedes_eqa]"

section \<open>\<^verbatim>\<open>BRAND_CATALOG\<close>\<close>

definition brand_skoda :: brand_info where
  "brand_skoda =
     \<lparr>bi_make = [CHR 0xC5, CHR 0xA0] @ ''koda'', display_name = [CHR 0xC5, CHR 0xA0] @ ''koda'', text_logo = [CHR 0xC5, CHR 0xA0],
      logo_component = ''SkodaLogo'', accent_color = ''#4ba82e'',
      bi_description = ''Kompaktn'' @ [CHR 0xC3, CHR 0xAD] @ '' a'' @ [CHR 0xC5, CHR 0xBE] @ '' rodinn'' @ [CHR 0xC3, CHR 0xA9] @ '' SUV'',
      bi_segment = Mainstream,
      bi_models = [\<lparr>bm_name = ''Elroq'', badge = Some (''novinka!'')\<rparr>,
        \<lparr>bm_name = ''Enyaq'', badge = None\<rparr>,
        \<lparr>bm_name = ''Enyaq Coup'' @ [CHR 0xC3, CHR 0xA9], badge = None\<rparr>,
        \<lparr>bm_name = ''Epiq'', badge = Some (''p'' @ [CHR 0xC5, CHR 0x99] @ ''edobjedn'' @ [CHR 0xC3, CHR 0xA1] @ ''vky'')\<rparr>]\<rparr>"

definition brand_volkswagen :: brand_info where
  "brand_volkswagen =
     \<lparr>bi_make = ''Volkswagen'', display_name = ''VW'', text_logo = ''VW'',
      logo_component = ''VWLogo'', accent_color = ''#001e50'',
      bi_description = ''Hatchback, SUV, MPV'',
      bi_segment = Mainstream,
      bi_models = [\<lparr>bm_name = ''ID.3'', badge = None\<rparr>,
        \<lparr>bm_name = ''ID.4'', badge = None\<rparr>,
        \<lparr>bm_name = ''ID.5'', badge = None\<rparr>,
        \<lparr>bm_name = ''ID.7'', badge = Some (''vlajkov'' @ [CHR 0xC3, CHR 0xA1] @ '' lo'' @ [CHR 0xC4, CHR 0x8F])\<rparr>,
        \<lparr>bm_name = ''ID. Buzz'', badge = None\<rparr>]\<rparr>"

definition brand_hyundai :: brand_info where
  "brand_hyundai =
     \<lparr>bi_make = ''Hyundai'', display_name = ''Hyundai'', text_logo = ''H'',
      logo_component = ''HyundaiLogo'', accent_color = ''#002c5f'',
      bi_description = ''Mix kategori'' @ [CHR 0xC3, CHR 0xAD],
      bi_segment = Mainstream,
      bi_models = [\<lparr>bm_name = ''Ioniq 5'', badge = None\<rparr>,
        \<lparr>bm_name = ''Ioniq 6'', badge = None\<rparr>,
        \<lparr>bm_name = ''Kona Electric'', badge = None\<rparr>,
        \<lparr>bm_name = ''Inster'', badge = Some (''m'' @ [CHR 0xC4, CHR 0x9B] @ ''stsk'' @ [CHR 0xC3, CHR 0xA9])\<rparr>]\<rparr>"

definition brand_kia :: brand_info where
  "brand_kia =
     \<lparr>bi_make = ''Kia'', display_name = ''Kia'', text_logo = ''K'',
      logo_component = ''KiaLogo'', accent_color = ''#05141f'',
      bi_description = ''Crossovery, velk'' @ [CHR 0xC3, CHR 0xA1] @ '' SUV'',
      bi_segment = Mainstream,
      bi_models = [\<lparr>bm_name = ''EV6'', badge = None\<rparr>,
        \<lparr>bm_name = ''EV9'', badge = Some (''7m'' @ [CHR 0xC3, CHR 0xAD] @ ''stn'' @ [CHR 0xC3, CHR 0xA9])\<rparr>,
        \<lparr>bm_name = ''EV3'', badge = None\<rparr>,
        \<lparr>bm_name = ''Niro EV'', badge = None\<rparr>]\<rparr>"

definition brand_tesla :: brand_info where
  "brand_tesla =
     \<lparr>bi_make = ''Tesla'', display_name = ''Tesla'', text_logo = ''T'',
      logo_component = ''TeslaLogo'', accent_color = ''#cc0000'',
      bi_description = ''Crossovery, sedany'',
      bi_segment = Mainstream,
      bi_models = [\<lparr>bm_name = ''Model Y'', badge = None\<rparr>,
        \<lparr>bm_name = ''Model 3'', badge = Some (''Highland'')\<rparr>,
        \<lparr>bm_name = ''Model S'', badge = None\<rparr>,
        \<lparr>bm_name = ''Model X'', badge = None\<rparr>]\<rparr>"

definition brand_renault :: brand_info where
  "brand_renault =
     \<lparr>bi_make = ''Renault'', display_name = ''Renault'', text_logo = ''R'',
      logo_component = ''RenaultLogo'', accent_color = ''#efdf00'',
      bi_description = ''Stylov'' @ [CHR 0xC3, CHR 0xA9] @ '' crossovery'',
      bi_segment = Mainstream,
      bi_models = [\<lparr>bm_name = ''M'' @ [CHR 0xC3, CHR 0xA9] @ ''gane E-Tech'', badge = None\<rparr>,
        \<lparr>bm_name = ''Scenic E-Tech'', badge = None\<rparr>,
        \<lparr>bm_name = ''Renault 5 E-Tech'', badge = None\<rparr>]\<rparr>"

definition brand_mg :: brand_info where
  "brand_mg =
     \<lparr>bi_make = ''MG'', display_name = ''MG'', text_logo = ''MG'',
      logo_component = ''MGLogo'', accent_color = ''#c1272d'',
      bi_description = ''Cenov'' @ [CHR 0xC4, CHR 0x9B] @ '' dostupn'' @ [CHR 0xC3, CHR 0xA9] @ '', sportovn'' @ [CHR 0xC3, CHR 0xAD],
      bi_segment = Mainstream,
      bi_models = [\<lparr>bm_name = ''MG4 Electric'', badge = None\<rparr>,
        \<lparr>bm_name = ''MG5'', badge = Some (''kombi'')\<rparr>,
        \<lparr>bm_name = ''ZS EV'', badge = None\<rparr>,
        \<lparr>bm_name = ''Cyberster'', badge = None\<rparr>]\<rparr>"

definition brand_volvo :: brand_info where
  "brand_volvo =
     \<lparr>bi_make = ''Volvo'', display_name = ''Volvo'', text_logo = ''V'',
      logo_component = ''VolvoLogo'', accent_color = ''#003057'',
      bi_description = ''Skandin'' @ [CHR 0xC3, CHR 0xA1] @ ''vsk'' @ [CHR 0xC3, CHR 0xBD] @ '' design, bezpe'' @ [CHR 0xC4, CHR 0x8D] @ ''nost'',
      bi_segment = Mainstream,
      bi_models = [\<lparr>bm_name = ''EX30'', badge = None\<rparr>,
        \<lparr>bm_name = ''EX40'', badge = Some (''d'' @ [CHR 0xC5, CHR 0x99, CHR 0xC3, CHR 0xAD] @ ''ve XC40'')\<rparr>,
        \<lparr>bm_name = ''EX90'', badge = None\<rparr>,
        \<lparr>bm_name = ''EX60'', badge = None\<rparr>]\<rparr>"

definition brand_bmw :: brand_info where
  "brand_bmw =
     \<lparr>bi_make = ''BMW'', display_name = ''BMW'', text_logo = ''B'',
      logo_component = ''BMWLogo'', accent_color = ''#0066b1'',
      bi_description = ''Pr'' @ [CHR 0xC3, CHR 0xA9] @ ''miov'' @ [CHR 0xC3, CHR 0xA9] @ '' sedany a SUV'',
      bi_segment = Premium,
      bi_models = [\<lparr>bm_name = ''i4'', badge = None\<rparr>,
        \<lparr>bm_name = ''iX3'', badge = Some (''nov'' @ [CHR 0xC3, CHR 0xA1] @ '' generace'')\<rparr>,
        \<lparr>bm_name = ''iX1'', badge = None\<rparr>,
        \<lparr>bm_name = ''iX'', badge = None\<rparr>,
        \<lparr>bm_name = ''i5'', badge = None\<rparr>,
        \<lparr>bm_name = ''i7'', badge = None\<rparr>]\<rparr>"

definition brand_mercedes_benz :: brand_info where
  "brand_mercedes_benz =
     \<lparr>bi_make = ''Mercedes-Benz'', display_name = ''Mercedes'', text_logo = ''M'',
      logo_component = ''MercedesLogo'', accent_color = ''#333333'',
      bi_description = ''Luxusn'' @ [CHR 0xC3, CHR 0xAD] @ '' segment'',
      bi_segment = Premium,
      bi_models = [\<lparr>bm_name = ''EQA'', badge = None\<rparr>,
        \<lparr>bm_name = ''EQB'', badge = None\<rparr>,
        \<lparr>bm_name = ''EQE'', badge = None\<rparr>,
        \<lparr>bm_name = ''EQS'', badge = None\<rparr>,
        \<lparr>bm_name = ''CLA'', badge = Some (''nov'' @ [CHR 0xC3, CHR 0xA1] @ '' generace'')\<rparr>]\<rparr>"

definition brand_audi :: brand_info where
  "brand_audi =
     \<lparr>bi_make = ''Audi'', display_name = ''Audi'', text_logo = ''A'',
      logo_component = ''AudiLogo'', accent_color = ''#bb0a30'',
      bi_description = ''Pr'' @ [CHR 0xC3, CHR 0xA9] @ ''miov'' @ [CHR 0xC3, CHR 0xA9] @ '' SUV'',
      bi_segment = Premium,
      bi_models = [\<lparr>bm_name = ''Q4 e-tron'', badge = None\<rparr>,
        \<lparr>bm_name = ''Q6 e-tron'', badge = None\<rparr>,
        \<lparr>bm_name = ''Q8 e-tron'', badge = None\<rparr>,
        \<lparr>bm_name = ''e-tron GT'', badge = None\<rparr>]\<rparr>"

definition brand_dacia :: brand_info where
  "brand_dacia =
     \<lparr>bi_make = ''Dacia'', display_name = ''Dacia'', text_logo = ''D'',
      logo_component = ''DaciaLogo'', accent_color = ''#646b52'',
      bi_description = ''Nejlevn'' @ [CHR 0xC4, CHR 0x9B] @ ''j'' @ [CHR 0xC5, CHR 0xA1, CHR 0xC3, CHR 0xAD] @ '' m'' @ [CHR 0xC4, CHR 0x9B] @ ''stsk'' @ [CHR 0xC3, CHR 0xA9] @ '' auto'',
      bi_segment = Budget,
      bi_models = [\<lparr>bm_name = ''Spring'', badge = None\<rparr>]\<rparr>"

definition brand_catalog :: "brand_info list" where
  "brand_catalog =
     [brand_skoda,
      brand_volkswagen,
      brand_hyundai,
      brand_kia,
      brand_tesla,
      brand_renault,
      brand_mg,
      brand_volvo,
      brand_bmw,
      brand_mercedes_benz,
      brand_audi,
      brand_dacia]"


section \<open>Facts about the tables\<close>

lemma cars_data_rates_pos: "list_all (\<lambda>c. list_all (\<lambda>b. 0 < rate b) (financing c)) cars_data"
  by code_simp

text \<open>The detail pages the brand grid can open: expanding each brand in turn, the model
  rows that carry a detailed car are those of ten \<^verbatim>\<open>CARS_DATA\<close> entries; the entries
  \<open>kia-eniro\<close>, \<open>bmw-i3\<close> and \<open>renault-megane\<close> are opened by no row, since
  the grid lists \<open>Niro EV\<close>, no \<open>i3\<close>, and \<open>M\<close>U+00E9\<open>gane E-Tech\<close> with its accent,
  and these rows show no detail.\<close>

theorem catalog_detail_pages:
  "concat (map (\<lambda>b. concat (map (\<lambda>(seg, tiles, rows). case rows of
              Some rs \<Rightarrow> List.map_filter (\<lambda>r. map_option cs_id (mr_detail r)) rs | None \<Rightarrow> [])
           (brand_grid_view cars_data brand_catalog (Some (bi_make b))))) brand_catalog)
     = [''skoda-enyaq'', ''vw-id3'', ''vw-id4'', ''hyundai-ioniq5'', ''hyundai-kona'', ''kia-ev6'',
        ''tesla-model-y'', ''tesla-model-3'', ''mercedes-eqa'', ''audi-q4'']
   \<and> map cs_id (filter (\<lambda>c. cs_id c \<notin> set [''skoda-enyaq'', ''vw-id3'', ''vw-id4'', ''hyundai-ioniq5'',
        ''hyundai-kona'', ''kia-ev6'', ''tesla-model-y'', ''tesla-model-3'', ''mercedes-eqa'', ''audi-q4'']) cars_data)
     = [''kia-eniro'', ''bmw-i3'', ''renault-megane'']
   \<and> find_detailed_car cars_data brand_kia ''Niro EV'' = None
   \<and> find_detailed_car cars_data brand_renault (''M'' @ [CHR 0xC3, CHR 0xA9] @ ''gane E-Tech'') = None"
  by code_simp

text \<open>The tables satisfy what the catalogue's operations rely on: car ids are distinct
  (so the \<^verbatim>\<open>localStorage\<close> keys of two cars never collide), the keys of
  \<^verbatim>\<open>carIndex\<close> are distinct (no entry shadows another) and no make contains the key
  separator, brand makes are distinct, and every review is either a YouTube search link
  without thumbnail or a video link whose extracted id gives exactly the stored
  thumbnail.\<close>

theorem catalog_data_wellformed:
  "distinct (map cs_id cars_data)
   \<and> distinct (map storage_key cars_data)
   \<and> distinct (map (\<lambda>c. car_key (cs_make c) (cs_model c)) cars_data)
   \<and> list_all (\<lambda>c. CHR ''|'' \<notin> set (cs_make c)) cars_data
   \<and> distinct (map bi_make brand_catalog)
   \<and> list_all (\<lambda>c. list_all (\<lambda>r.
         if js_includes (rv_url r) ''/results?search_query='' then rv_thumbnail r = []
         else map_option youtube_thumbnail (extract_youtube_id (rv_url r)) = Some (rv_thumbnail r))
       (youtube_reviews c)) cars_data"
  by code_simp

text \<open>The generators that put \<^verbatim>\<open>norm(car.make)\<close> and \<^verbatim>\<open>norm(car.model)\<close> into a
  URL path without escaping (Sauto, Carvago, Autoscout24, AAA Auto) are safe on the
  catalogue: every slug of \<^verbatim>\<open>CARS_DATA\<close> is left unchanged by
  \<^verbatim>\<open>encodeURIComponent\<close>.\<close>

theorem catalog_slugs_need_no_escaping:
  "list_all (\<lambda>c. encode_uri_component (norm (cs_make c)) = norm (cs_make c)
                 \<and> encode_uri_component (norm (cs_model c)) = norm (cs_model c)) cars_data"
  by code_simp

text \<open>C25. For every car of the catalogue, in every state its modal reaches, every row of
  the finance tab shows a number, never \<open>NaN\<close>: the years slider keeps the term between 1
  and 8 years and every bank of \<^verbatim>\<open>CARS_DATA\<close> has a positive rate.\<close>

theorem catalog_finance_rows_defined:
  assumes "c \<in> set cars_data" and "catalog_reachable c ls0 (st, ls)"
    and "row \<in> set (finance_rows c st)"
  shows "snd (snd row) \<noteq> None \<and> 1 \<le> loan_years st \<and> loan_years st \<le> 8"
proof -
  obtain nm rt m where row: "row = (nm, rt, m)" by (cases row) auto
  from assms(3) row obtain b where "b \<in> set (financing c)" and "rt = rate b"
    by (auto simp add: finance_rows_def)
  with assms(1) cars_data_rates_pos have "0 < rt" by (auto simp add: list_all_iff)
  with finance_rows_some [OF assms(2)] assms(3) row show ?thesis by simp
qed

section \<open>Witnesses\<close>

theorem catalog_finance_rows_defined_witness:
  "let sl = catalog_run car_skoda_enyaq [Cat_years 0, Cat_years 7, Cat_tab Finance_page]
              (catalog_open car_skoda_enyaq Map.empty, Map.empty)
   in car_skoda_enyaq \<in> set cars_data \<and> catalog_reachable car_skoda_enyaq Map.empty (fst sl, snd sl)
      \<and> hd (finance_rows car_skoda_enyaq (fst sl)) \<in> set (finance_rows car_skoda_enyaq (fst sl))
      \<and> snd (snd (hd (finance_rows car_skoda_enyaq (fst sl)))) \<noteq> None
      \<and> loan_years (fst sl) = 7"
proof -
  let ?sl = "catalog_run car_skoda_enyaq [Cat_years 0, Cat_years 7, Cat_tab Finance_page]
              (catalog_open car_skoda_enyaq Map.empty, Map.empty)"
  obtain st ls where sl: "?sl = (st, ls)" by (cases ?sl)
  have c: "car_skoda_enyaq \<in> set cars_data" by (simp add: cars_data_def)
  have r: "catalog_reachable car_skoda_enyaq Map.empty (st, ls)"
    unfolding sl [symmetric] by (rule catalog_run_reachable [OF catalog_reachable.start])
  have y: "loan_years st = 7" using sl [symmetric] by (simp add: catalog_open_def)
  have ne: "finance_rows car_skoda_enyaq st \<noteq> []"
    by (simp add: finance_rows_def car_skoda_enyaq_def)
  then have h: "hd (finance_rows car_skoda_enyaq st) \<in> set (finance_rows car_skoda_enyaq st)" by simp
  from catalog_finance_rows_defined [OF c r h] y c r h show ?thesis unfolding Let_def sl by simp
qed

end
