(* ===== verification/Settle.thy ===== *)
theory Settle
  imports Garage
begin

text \<open>
  Liveness of the garage's asynchronous work. The callbacks \<^verbatim>\<open>App\<close> leaves pending are
  the results of issued fetches (\<open>in_flight\<close>) and the \<^verbatim>\<open>setTimeout\<close> callbacks
  (\<open>timers\<close>); running one may issue more (a re-fetch timer issues a fetch, the import
  timer may schedule a re-fetch and a notification reset). \<open>drain\<close> is the schedule
  that delivers the oldest fetch result first and otherwise fires the oldest timer; it
  terminates because every callback lowers \<open>pending_weight\<close>, in which a timer weighs
  more than everything it can schedule.
\<close>

primrec timer_weight :: "timer \<Rightarrow> nat" where
  "timer_weight Clear_notification = 1"
| "timer_weight Refetch = 2"
| "timer_weight (Analyze_import u) = 5"

definition pending_weight :: "garage \<Rightarrow> nat" where
  "pending_weight g = length (in_flight g) + sum_list (map timer_weight (timers g))"

function drain :: "bool \<Rightarrow> analyze_outcome \<Rightarrow> garage \<Rightarrow> event list" where
  "drain ok out g =
     (if in_flight g \<noteq> [] then Fetch_arrives 0 # drain ok out (fetch_arrives 0 g)
      else if timers g \<noteq> [] then Fire_timer 0 ok out # drain ok out (fire_timer 0 ok out g)
      else [])"
  by pat_completeness auto

termination
proof (relation "measure (\<lambda>(ok, out, g). pending_weight g)")
  show "wf (measure (\<lambda>(ok, out, g). pending_weight g))" by simp
next
  fix ok out and g :: garage
  assume "in_flight g \<noteq> []"
  then show "((ok, out, fetch_arrives 0 g), ok, out, g) \<in> measure (\<lambda>(ok, out, g). pending_weight g)"
    by (simp add: pending_weight_def fetch_arrives_def remove_nth_def)
next
  fix ok out and g :: garage
  assume "\<not> in_flight g \<noteq> []" and "timers g \<noteq> []"
  then obtain t ts where f: "in_flight g = []" and t: "timers g = t # ts"
    by (cases "timers g") auto
  show "((ok, out, fire_timer 0 ok out g), ok, out, g) \<in> measure (\<lambda>(ok, out, g). pending_weight g)"
    using f t
    by (cases t; cases out)
       (auto simp add: pending_weight_def fire_timer_def remove_nth_def fetch_request_def
          handle_analyze_def add_timer_def notify_def Let_def split: option.split)
qed

declare drain.simps [simp del]

section \<open>Lemmas\<close>

lemma drain_fetch: "in_flight g \<noteq> [] \<Longrightarrow> drain ok out g = Fetch_arrives 0 # drain ok out (fetch_arrives 0 g)"
  by (subst drain.simps) simp

lemma drain_timer:
  "in_flight g = [] \<Longrightarrow> timers g \<noteq> [] \<Longrightarrow> drain ok out g = Fire_timer 0 ok out # drain ok out (fire_timer 0 ok out g)"
  by (subst drain.simps) simp

lemma drain_done: "in_flight g = [] \<Longrightarrow> timers g = [] \<Longrightarrow> drain ok out g = []"
  by (subst drain.simps) simp

lemma weight_fetch_arrives: "in_flight g \<noteq> [] \<Longrightarrow> pending_weight (fetch_arrives 0 g) < pending_weight g"
  by (simp add: pending_weight_def fetch_arrives_def remove_nth_def)

lemma weight_fire_timer:
  assumes "timers g = t # ts"
  shows "pending_weight (fire_timer 0 ok out g) < pending_weight g"
  using assms
  by (cases t; cases out)
     (auto simp add: pending_weight_def fire_timer_def remove_nth_def fetch_request_def
        handle_analyze_def add_timer_def notify_def Let_def split: option.split)

lemma loading_fetch_arrives: "in_flight g \<noteq> [] \<Longrightarrow> \<not> loading (app (fetch_arrives 0 g))"
  by (simp add: fetch_arrives_def fetch_apply_def split: fetch_result.split)

lemma loading_inv_fire_timer:
  assumes "loading (app g) \<longrightarrow> in_flight g \<noteq> []" and "timers g = t # ts"
  shows "loading (app (fire_timer 0 ok out g)) \<longrightarrow> in_flight (fire_timer 0 ok out g) \<noteq> []"
  using assms
  by (cases t; cases out)
     (auto simp add: fire_timer_def remove_nth_def fetch_request_def handle_analyze_def
        add_timer_def notify_def Let_def split: option.split)

lemma drain_settles:
  "in_flight (garage_run (drain ok out g) g) = [] \<and> timers (garage_run (drain ok out g) g) = []"
proof (induction ok out g rule: drain.induct)
  case (1 ok out g)
  show ?case
  proof (cases "in_flight g = []")
    case False
    with "1.IH"(1) show ?thesis by (simp add: drain_fetch)
  next
    case f: True
    show ?thesis
    proof (cases "timers g = []")
      case False
      with f "1.IH"(2) show ?thesis by (simp add: drain_timer)
    next
      case True
      with f show ?thesis by (simp add: drain_done)
    qed
  qed
qed

text \<open>C27. Termination of the pending work with a bound: whatever the fetches and the
  analysis service answer, the garage settles after at most \<open>pending_weight g\<close>
  callbacks (one per pending fetch, and one, two or five per pending notification reset,
  re-fetch or import timer).\<close>

theorem drain_length: "length (drain ok out g) \<le> pending_weight g"
proof (induction ok out g rule: drain.induct)
  case (1 ok out g)
  show ?case
  proof (cases "in_flight g = []")
    case False
    with "1.IH"(1) weight_fetch_arrives [of g] show ?thesis by (simp add: drain_fetch)
  next
    case f: True
    show ?thesis
    proof (cases "timers g")
      case (Cons t ts)
      with f "1.IH"(2) weight_fire_timer [of g t ts ok out] show ?thesis by (simp add: drain_timer)
    next
      case Nil
      with f show ?thesis by (simp add: drain_done)
    qed
  qed
qed

lemma drain_events: "set (drain ok out g) \<subseteq> {Fetch_arrives 0, Fire_timer 0 ok out}"
proof (induction ok out g rule: drain.induct)
  case (1 ok out g)
  then show ?case
    by (cases "in_flight g = []"; cases "timers g = []") (simp_all add: drain_fetch drain_timer drain_done)
qed

lemma drain_loading:
  "(loading (app g) \<longrightarrow> in_flight g \<noteq> []) \<Longrightarrow> \<not> loading (app (garage_run (drain ok out g) g))"
proof (induction ok out g rule: drain.induct)
  case (1 ok out g)
  show ?case
  proof (cases "in_flight g = []")
    case False
    with "1.IH"(1) loading_fetch_arrives [of g] show ?thesis by (simp add: drain_fetch)
  next
    case f: True
    show ?thesis
    proof (cases "timers g")
      case (Cons t ts)
      with f "1.IH"(2) "1.prems" loading_inv_fire_timer [of g t ts ok out] show ?thesis
        by (simp add: drain_timer)
    next
      case Nil
      with f "1.prems" show ?thesis by (simp add: drain_done)
    qed
  qed
qed

section \<open>Properties\<close>

text \<open>C26. Liveness of the garage's asynchronous work: from any state, delivering the
  pending fetch results and firing the pending timers (oldest first) comes to an end with
  no fetch in flight and no timer pending, whatever the outcomes; and when the loading
  flag was set only while a fetch was in flight, the loading indicator is off at the
  end.\<close>

theorem pending_callbacks_settle:
  "set (drain ok out g) \<subseteq> {Fetch_arrives 0, Fire_timer 0 ok out}
   \<and> in_flight (garage_run (drain ok out g) g) = [] \<and> timers (garage_run (drain ok out g) g) = []
   \<and> ((loading (app g) \<longrightarrow> in_flight g \<noteq> []) \<longrightarrow> \<not> loading (app (garage_run (drain ok out g) g)))"
  using drain_events drain_settles drain_loading by blast

section \<open>Witnesses\<close>

text \<open>The mount with an \<^verbatim>\<open>?import=\<close> link leaves a fetch and the import timer
  pending (weight 6); they settle after five callbacks: the fetch result, the import, the
  re-fetch it schedules and that fetch's result, and the notification reset.\<close>

theorem pending_callbacks_settle_witness:
  "let g = garage_run [Mount (Some ''https://x.cz/a'') True] (garage_init [])
   in in_flight g \<noteq> [] \<and> loading (app g)
      \<and> \<not> loading (app (garage_run (drain True (Resp_ok ''m'' ''p'') g) g))
      \<and> timers (garage_run (drain True (Resp_ok ''m'' ''p'') g) g) = []"
proof -
  let ?g = "garage_run [Mount (Some ''https://x.cz/a'') True] (garage_init [])"
  have f: "in_flight ?g \<noteq> [] \<and> loading (app ?g)" by code_simp
  from f pending_callbacks_settle [of True "Resp_ok ''m'' ''p''" ?g] show ?thesis
    by (simp add: Let_def)
qed

end
