(* ===== verification/Storage.thy ===== *)
theory Storage
  imports Garage
begin

text \<open>
  The storage collaborator (Firestore, section 6 of the specification) as an abstract
  contract, and the garage's explicit collection shown to implement it. The contract
  sees the collection as a finite map from document ids to documents
  (\<open>abs_store\<close>); \<^verbatim>\<open>listAll\<close>, \<^verbatim>\<open>deleteOne\<close>, \<^verbatim>\<open>deleteAll\<close>, \<^verbatim>\<open>updateFields\<close> and
  the implicit \<^verbatim>\<open>create\<close> of the analysis collaborator are functions on it, and
  \<open>store_spec_step\<close> says which of them each event of the application performs. The
  implementation is the list \<open>store\<close> of \<open>Garage\<close>, read through \<open>store_abs\<close>
  (\<open>map_of\<close>) while its ids are distinct.
\<close>

section \<open>The storage contract\<close>

type_synonym abs_store = "doc_id \<rightharpoonup> raw_doc"

definition store_abs :: "store \<Rightarrow> abs_store" where
  "store_abs st = map_of st"

text \<open>\<^verbatim>\<open>listAll()\<close>: a list of the stored records, each once, in no particular order.\<close>

definition list_all_spec :: "abs_store \<Rightarrow> store \<Rightarrow> bool" where
  "list_all_spec m xs \<longleftrightarrow> distinct (map fst xs) \<and> map_of xs = m"

definition delete_one_spec :: "doc_id \<Rightarrow> abs_store \<Rightarrow> abs_store" where
  "delete_one_spec i m = m(i := None)"

definition delete_all_spec :: "abs_store \<Rightarrow> abs_store" where
  "delete_all_spec m = Map.empty"

text \<open>\<^verbatim>\<open>updateFields(id, partialFields)\<close> fails for a missing record.\<close>

definition update_fields_spec :: "doc_id \<Rightarrow> car_patch \<Rightarrow> abs_store \<Rightarrow> abs_store option" where
  "update_fields_spec i p m =
     (case m i of None \<Rightarrow> None | Some d \<Rightarrow> Some (m(i \<mapsto> patch_doc p d)))"

text \<open>\<^verbatim>\<open>create\<close>: the analysis service stores a record under an id not in use.\<close>

definition create_spec :: "doc_id \<Rightarrow> raw_doc \<Rightarrow> abs_store \<Rightarrow> abs_store" where
  "create_spec i d m = (case m i of None \<Rightarrow> m(i \<mapsto> d) | Some _ \<Rightarrow> m)"

text \<open>The storage effect of each event: a confirmed and successful delete deletes one
  record, a confirmed and successful bulk delete deletes all, a successful save updates
  the record's fields (and fails, changing nothing, when the record is missing), the
  analysis service creates records; no other event writes.\<close>

fun store_spec_step :: "event \<Rightarrow> abs_store \<Rightarrow> abs_store" where
  "store_spec_step (Delete_car i c ok _) m = (if c \<and> ok then delete_one_spec i m else m)"
| "store_spec_step (Clear_garage c r ok _) m = (if c \<and> r \<and> ok then delete_all_spec m else m)"
| "store_spec_step (Update_car i p ok) m =
     (if ok then (case update_fields_spec i p m of None \<Rightarrow> m | Some m' \<Rightarrow> m') else m)"
| "store_spec_step (Server_creates i d) m = create_spec i d m"
| "store_spec_step _ m = m"

section \<open>Lemmas\<close>

named_theorems store_simps "the store after each handler"

lemma store_handle_delete_car [store_simps]:
  "store (handle_delete_car i c ok fok g) = (if c \<and> ok then delete_doc i (store g) else store g)"
  by (simp add: handle_delete_car_def notify_def add_timer_def fetch_request_def Let_def)

lemma store_handle_clear_garage [store_simps]:
  "store (handle_clear_garage c r ok fok g) = (if c \<and> r \<and> ok then [] else store g)"
  by (simp add: handle_clear_garage_def notify_def add_timer_def fetch_request_def Let_def
      doc_ids_def filter_empty_conv)

lemma store_handle_update_car [store_simps]:
  "store (handle_update_car i p ok g) =
     (if ok \<and> i \<in> set (doc_ids (store g)) then update_doc i p (store g) else store g)"
  by (simp add: handle_update_car_def notify_def add_timer_def Let_def)

lemma store_handle_analyze [store_simps]: "store (handle_analyze a u out g) = store g"
  by (simp add: handle_analyze_def notify_def add_timer_def Let_def
      split: option.split analyze_outcome.split)

lemma store_handle_mount [store_simps]: "store (handle_mount u ok g) = store g"
  by (simp add: handle_mount_def add_timer_def fetch_request_def Let_def split: option.split)

lemma store_catalog_analyze [store_simps]: "store (catalog_analyze u out g) = store g"
  by (simp add: catalog_analyze_def store_handle_analyze Let_def)

lemma store_fire_timer [store_simps]: "store (fire_timer k ok out g) = store g"
  by (simp add: fire_timer_def fetch_request_def store_handle_analyze Let_def
      split: timer.split)

lemma store_fetch_arrives [store_simps]: "store (fetch_arrives k g) = store g"
  by (simp add: fetch_arrives_def)

lemma store_server_creates [store_simps]:
  "store (server_creates i d g) =
     (if i \<in> set (doc_ids (store g)) then store g else store g @ [(i, d)])"
  by (simp add: server_creates_def)

lemma store_set_app [store_simps]: "store (set_app f g) = store g"
  by (simp add: set_app_def)

lemma doc_ids_map_of: "i \<in> set (doc_ids st) \<longleftrightarrow> map_of st i \<noteq> None"
  by (simp add: doc_ids_def map_of_eq_None_iff)

lemma map_of_delete_doc: "map_of (delete_doc i st) = (map_of st)(i := None)"
  by (induction st) (auto simp add: delete_doc_def fun_eq_iff)

lemma map_fst_update_doc [simp]: "map fst (update_doc i p st) = map fst st"
  by (induction st) (simp_all add: update_doc_def)

lemma map_of_update_doc:
  "distinct (map fst st) \<Longrightarrow>
   map_of (update_doc i p st) =
     (case map_of st i of None \<Rightarrow> map_of st | Some d \<Rightarrow> (map_of st)(i \<mapsto> patch_doc p d))"
proof (induction st)
  case Nil
  then show ?case by (simp add: update_doc_def)
next
  case (Cons e st)
  obtain j d where e: "e = (j, d)" by (cases e)
  from Cons have IH: "map_of (update_doc i p st) =
     (case map_of st i of None \<Rightarrow> map_of st | Some d \<Rightarrow> (map_of st)(i \<mapsto> patch_doc p d))"
    by simp
  have "update_doc i p (e # st) = (if j = i then (j, patch_doc p d) else (j, d)) # update_doc i p st"
    by (simp add: update_doc_def e)
  moreover from Cons.prems have "j = i \<Longrightarrow> map_of st i = None"
    by (simp add: e map_of_eq_None_iff)
  ultimately show ?case using IH
    by (auto simp add: e fun_eq_iff split: option.split)
qed

lemma map_of_snoc_fresh:
  "map_of st i = None \<Longrightarrow> map_of (st @ [(i, d)]) = (map_of st)(i \<mapsto> d)"
  by (induction st) (auto simp add: fun_eq_iff simp del: map_of_append)

lemma distinct_delete_doc:
  "distinct (map fst st) \<Longrightarrow> distinct (map fst (delete_doc i st))"
  by (simp add: delete_doc_def distinct_map_filter)

lemmas store_abs_simps = store_abs_def doc_ids_def map_of_delete_doc map_of_update_doc
  distinct_delete_doc map_of_eq_None_iff

text \<open>One step of the application keeps the ids distinct and performs on the abstract
  store exactly the contract's operation for its event.\<close>

lemma garage_step_distinct:
  "distinct (doc_ids (store g)) \<Longrightarrow> distinct (doc_ids (store (garage_step e g)))"
  by (cases e) (auto simp add: store_simps doc_ids_def distinct_delete_doc)

lemma garage_step_store_abs:
  assumes "distinct (doc_ids (store g))"
  shows "store_abs (store (garage_step e g)) = store_spec_step e (store_abs (store g))"
proof (cases e)
  case (Update_car i p ok)
  with assms show ?thesis
    by (auto simp add: store_simps store_abs_simps update_fields_spec_def image_iff
        split: option.split)
next
  case (Server_creates i d)
  then show ?thesis
    by (simp add: store_simps store_abs_def create_spec_def doc_ids_map_of map_of_snoc_fresh
        del: map_of_append split: option.split)
qed (simp_all add: store_simps store_abs_simps delete_one_spec_def delete_all_spec_def)

lemma distinct_query_by_timestamp:
  "distinct (map fst st) \<Longrightarrow> distinct (map fst (query_by_timestamp st))"
proof -
  assume d: "distinct (map fst st)"
  have "mset (map fst (query_by_timestamp st))
        = mset (map fst (filter (\<lambda>e. timestamp (snd e) \<noteq> None) st))"
    by (simp add: query_by_timestamp_def doc_seconds_cmp)
  moreover have "distinct (map fst (filter (\<lambda>e. timestamp (snd e) \<noteq> None) st))"
    using d by (rule distinct_map_filter)
  ultimately show ?thesis by (metis mset_eq_imp_distinct_iff)
qed

lemma garage_run_append [simp]: "garage_run (es @ fs) g = garage_run fs (garage_run es g)"
  by (induction es arbitrary: g) simp_all

section \<open>Properties of the storage collaborator\<close>

text \<open>Document ids stay unique: from a collection with distinct ids, every state the
  application reaches holds a collection with distinct ids (the analysis service creates
  only under fresh ids), so the collection is a finite map.\<close>

theorem storage_ids_distinct:
  assumes "garage_reachable st0 g" and "distinct (doc_ids st0)"
  shows "distinct (doc_ids (store g))"
  using assms
  by (induction rule: garage_reachable.induct) (simp_all add: garage_init_def garage_step_distinct)

text \<open>C17. The application uses the storage contract: for every sequence of events, the
  collection it leaves, read as a map, is what the contract's operations (deleteOne,
  deleteAll, updateFields with its failure on a missing record, create) produce from
  the initial one, event by event.\<close>

theorem storage_refines_contract:
  assumes "distinct (doc_ids (store g))"
  shows "store_abs (store (garage_run es g)) = fold store_spec_step es (store_abs (store g))"
  using assms
proof (induction es arbitrary: g)
  case Nil
  then show ?case by simp
next
  case (Cons e es)
  have "distinct (doc_ids (store (garage_step e g)))"
    using Cons.prems by (rule garage_step_distinct)
  then show ?case
    using Cons.IH garage_step_store_abs [OF Cons.prems] by simp
qed

text \<open>The fetch query meets the contract of \<^verbatim>\<open>listAll\<close> (every stored record,
  each once) exactly when every stored record has a timestamp: the
  \<^verbatim>\<open>orderBy("timestamp")\<close> query leaves out the others.\<close>

theorem fetch_meets_list_all_iff:
  assumes "distinct (doc_ids st)"
  shows "list_all_spec (store_abs st) (query_by_timestamp st)
         \<longleftrightarrow> (\<forall>e\<in>set st. timestamp (snd e) \<noteq> None)"
proof -
  have dq: "distinct (map fst (query_by_timestamp st))"
    using assms by (simp add: doc_ids_def distinct_query_by_timestamp)
  have "list_all_spec (store_abs st) (query_by_timestamp st)
        \<longleftrightarrow> set (query_by_timestamp st) = set st"
    using dq assms by (simp add: list_all_spec_def store_abs_def doc_ids_def map_of_inject_set)
  also have "\<dots> \<longleftrightarrow> (\<forall>e\<in>set st. timestamp (snd e) \<noteq> None)"
    by (auto simp add: set_query_by_timestamp)
  finally show ?thesis .
qed

text \<open>C18. The analysis contract and the single re-fetch: after a successful analysis
  the application re-fetches once, 2000 ms later. When the service has written the new
  record before that re-fetch, the garage shows it; when the write comes after, the
  garage shows the collection as it was, and nothing is left pending that would ever
  fetch again.\<close>

theorem analysis_record_needs_timely_write:
  assumes "timers g = []" and "in_flight g = []"
    and "analyze_request (app g) None \<noteq> None"
    and "i \<notin> set (doc_ids (store g))"
  shows "cars (app (garage_run [Analyze None (Resp_ok m pr), Server_creates i d,
                                Fire_timer 0 True out, Fetch_arrives 0] g))
           = reconcile_all (query_by_timestamp (store g @ [(i, d)]))
         \<and> (let g' = garage_run [Analyze None (Resp_ok m pr), Fire_timer 0 True out,
                                 Server_creates i d, Fetch_arrives 0] g
            in cars (app g') = reconcile_all (query_by_timestamp (store g))
               \<and> store g' = store g @ [(i, d)] \<and> in_flight g' = []
               \<and> Refetch \<notin> set (timers g'))"
  using assms
  by (auto simp add: handle_analyze_def fire_timer_def fetch_arrives_def server_creates_def
      fetch_request_def fetch_apply_def add_timer_def notify_def remove_nth_def Let_def
      store_handle_analyze)

section \<open>Witnesses\<close>

theorem storage_ids_distinct_witness:
  "let st0 = [(''a'', empty_doc), (''b'', empty_doc)];
       g = garage_run [Server_creates ''a'' empty_doc, Server_creates ''c'' empty_doc,
                       Delete_car ''b'' True True True] (garage_init st0)
   in garage_reachable st0 g \<and> distinct (doc_ids st0) \<and> distinct (doc_ids (store g))
      \<and> doc_ids (store g) = [''a'', ''c'']"
proof -
  let ?st0 = "[(''a'', empty_doc), (''b'', empty_doc)]"
  let ?g = "garage_run [Server_creates ''a'' empty_doc, Server_creates ''c'' empty_doc,
                        Delete_car ''b'' True True True] (garage_init ?st0)"
  have r: "garage_reachable ?st0 ?g"
    by (rule garage_run_reachable [OF garage_reachable.start])
  have d: "distinct (doc_ids ?st0)" by (simp add: doc_ids_def)
  have v: "doc_ids (store ?g) = [''a'', ''c'']" by code_simp
  show ?thesis using r d v storage_ids_distinct [OF r d] by (simp add: Let_def)
qed

theorem storage_refines_contract_witness:
  "let g = garage_init [(''a'', empty_doc), (''b'', empty_doc)];
       es = [Delete_car ''a'' True True True, Server_creates ''c'' empty_doc,
             Update_car ''z'' \<lparr>p_notes = [], p_tags = [], p_links = []\<rparr> True]
   in distinct (doc_ids (store g))
      \<and> store_abs (store (garage_run es g)) = fold store_spec_step es (store_abs (store g))
      \<and> store_abs (store (garage_run es g)) ''a'' = None
      \<and> store_abs (store (garage_run es g)) ''c'' = Some empty_doc"
proof -
  let ?g = "garage_init [(''a'', empty_doc), (''b'', empty_doc)]"
  let ?es = "[Delete_car ''a'' True True True, Server_creates ''c'' empty_doc,
              Update_car ''z'' \<lparr>p_notes = [], p_tags = [], p_links = []\<rparr> True]"
  have d: "distinct (doc_ids (store ?g))" by (simp add: garage_init_def doc_ids_def)
  note r = storage_refines_contract [OF d, of ?es]
  have a: "fold store_spec_step ?es (store_abs (store ?g)) ''a'' = None"
    by (simp add: garage_init_def store_abs_def delete_one_spec_def create_spec_def
        update_fields_spec_def)
  have c: "fold store_spec_step ?es (store_abs (store ?g)) ''c'' = Some empty_doc"
    by (simp add: garage_init_def store_abs_def delete_one_spec_def create_spec_def
        update_fields_spec_def)
  show ?thesis using d r a c by (simp add: Let_def)
qed

theorem fetch_meets_list_all_iff_witness:
  "let st = [(''a'', empty_doc\<lparr>timestamp := Some 7\<rparr>), (''b'', empty_doc)]
   in distinct (doc_ids st) \<and> \<not> list_all_spec (store_abs st) (query_by_timestamp st)"
proof -
  let ?st = "[(''a'', empty_doc\<lparr>timestamp := Some 7\<rparr>), (''b'', empty_doc)]"
  have d: "distinct (doc_ids ?st)" by (simp add: doc_ids_def)
  have "\<not> (\<forall>e\<in>set ?st. timestamp (snd e) \<noteq> None)" by (simp add: empty_doc_def)
  then show ?thesis using d fetch_meets_list_all_iff [OF d] by (simp add: Let_def)
qed

theorem analysis_record_needs_timely_write_witness:
  "let g = garage_run [Set_url ''https://x''] (garage_init []);
       d = empty_doc\<lparr>timestamp := Some 1\<rparr>
   in timers g = [] \<and> in_flight g = [] \<and> analyze_request (app g) None \<noteq> None
      \<and> ''n'' \<notin> set (doc_ids (store g))
      \<and> map car_id (cars (app (garage_run [Analyze None (Resp_ok [] []), Server_creates ''n'' d,
                                Fire_timer 0 True Network_error, Fetch_arrives 0] g))) = [''n'']
      \<and> cars (app (garage_run [Analyze None (Resp_ok [] []), Fire_timer 0 True Network_error,
                                Server_creates ''n'' d, Fetch_arrives 0] g)) = []"
proof -
  let ?g = "garage_run [Set_url ''https://x''] (garage_init [])"
  let ?d = "empty_doc\<lparr>timestamp := Some 1\<rparr>"
  have h1: "timers ?g = []" by code_simp
  have h2: "in_flight ?g = []" by code_simp
  have h3: "analyze_request (app ?g) None \<noteq> None" by code_simp
  have h4: "''n'' \<notin> set (doc_ids (store ?g))" by code_simp
  note t = analysis_record_needs_timely_write [OF h1 h2 h3 h4, of "[]" "[]" ?d Network_error]
  have s: "store ?g = []" by code_simp
  have q: "map car_id (reconcile_all (query_by_timestamp [(''n'', ?d)])) = [''n'']" by code_simp
  show ?thesis using h1 h2 h3 h4 t s q by (simp add: Let_def query_by_timestamp_def)
qed

end
