(* ===== verification/Spec2Isabelle.thy ===== *)
theory Spec2Isabelle
  imports Annotations AnimatedPrice CatalogData Settle Storage
begin

text \<open>
  \<^bold>\<open>A verification library for the EV listing catalogue web client\<close>
  (\<^verbatim>\<open>src/web\<close>, a React single-page application over a Firestore collection
  \<^verbatim>\<open>car_analysis_results\<close> and an external analysis service).

  \<^bold>\<open>The program and its parts.\<close> All logic lives in the browser. \<^verbatim>\<open>App.tsx\<close>
  fetches the stored listing documents and reconciles their legacy price fields
  (\<^verbatim>\<open>fetchCars\<close>), collapses duplicate listings (\<^verbatim>\<open>uniqueCars\<close>, with the URL
  normalizer \<^verbatim>\<open>normalizeUrl\<close>), filters and sorts them (\<^verbatim>\<open>processedCars\<close>), renders
  them as cards (\<^verbatim>\<open>CarCard.tsx\<close>) or table rows, and handles deletion, bulk deletion,
  annotation updates and analysis requests. The detail modal (\<^verbatim>\<open>CarDetailModal.tsx\<close>)
  edits notes, tags and external links and passes them to \<^verbatim>\<open>handleUpdateCar\<close>;
  its calculator tab shows \<^verbatim>\<open>ScrollytellingCalculator.tsx\<close>, which turns a listing's
  cost breakdown into an ordered list of cost sections with a running total over the
  sections scrolled into view. The catalogue (\<^verbatim>\<open>BrandGrid.tsx\<close>,
  \<^verbatim>\<open>CatalogDetailModal.tsx\<close>, \<^verbatim>\<open>linkGenerators.ts\<close>, \<^verbatim>\<open>videoUtils.ts\<close>)
  browses static model data and can start an analysis in the garage. Data flows one way:
  stored documents, reconciler, deduplicator, filter and sort, view.

  \<^bold>\<open>Theories\<close>, in import order.
  \<^item> \<open>Prelude\<close>: how JavaScript values are represented: numbers as \<open>int option\<close>
    (\<open>None\<close> for \<^verbatim>\<open>undefined\<close> and \<^verbatim>\<open>NaN\<close>) with \<open>or0\<close>, \<open>truthy\<close>,
    \<open>js_or\<close> for \<^verbatim>\<open>x || 0\<close> and \<^verbatim>\<open>a || b\<close>; strings as character lists with
    \<open>to_lower\<close>, \<open>js_trim\<close>, \<open>js_includes\<close>, \<open>before_query\<close>; and \<open>js_sort\<close>, the
    stable comparator sort \<^verbatim>\<open>Array.prototype.sort\<close> is since ES2019, proved equal to the
    library's \<open>sort_key\<close> for comparators that subtract keys.
  \<^item> \<open>Listing\<close>: the records of \<^verbatim>\<open>types.ts\<close> (\<open>listing_fields\<close>, \<open>car\<close>,
    \<open>cost_breakdown\<close>, \<open>external_link\<close>), a stored document (\<open>raw_doc\<close>) and the
    reconciler \<open>reconcile\<close> of \<^verbatim>\<open>fetchCars\<close> (App.tsx 51--63).
  \<^item> \<open>Dedupe\<close>: \<open>normalize_url\<close>, \<open>dedup_key\<close> and \<open>unique_cars\<close>, the
    newest-first sort followed by a \<open>foldl\<close> of \<open>dedupe_step\<close> (App.tsx 208--241).
  \<^item> \<open>Selection\<close>: \<open>matches_filter\<close> and the comparators \<open>sort_cmp\<close> of
    \<open>processed_cars\<close> (App.tsx 243--270), with the key \<open>sort_key_of\<close> each promises.
  \<^item> \<open>CostBreakdown\<close>: \<open>build_sections\<close>, the reveal state changed by
    \<open>observer_callback\<close>, \<open>current_total\<close>, the warning header, the rendered values
    \<open>calc_view_of\<close>, \<open>route_illustration_of\<close> and the fallback wrapper
    (ScrollytellingCalculator.tsx).
  \<^item> \<open>AnimatedPrice\<close>: the animated total of the calculator as a state machine
    (\<open>anim_state\<close>: the shown number, \<^verbatim>\<open>prevRef\<close>, the pending animation frame and
    what its closure captured), changed by a new value (\<open>anim_set_value\<close>, the effect and
    its cleanup) and by a frame (\<open>anim_tick\<close>), with the ease-out cubic over 600 ms;
    \<open>price_counter_of\<close> is its rendered span.
  \<^item> \<open>StaticData\<close>: the interfaces of the static catalogue data as records.
  \<^item> \<open>Garage\<close>: the \<^verbatim>\<open>App\<close> component as a state machine. A \<open>garage\<close> holds the
    Firestore collection as an explicit \<open>store\<close>, the React state \<open>app_state\<close>, the
    results of fetches issued but not yet applied (\<open>in_flight\<close>), and pending
    \<^verbatim>\<open>setTimeout\<close> callbacks (\<open>timers\<close>). Each handler is one definition
    (\<open>fetch_request\<close> and \<open>fetch_arrives\<close> for the two halves of \<^verbatim>\<open>fetchCars\<close>,
    \<open>handle_delete_car\<close>, \<open>handle_clear_garage\<close>, \<open>handle_update_car\<close>,
    \<open>handle_analyze\<close>, \<open>handle_mount\<close>, \<open>catalog_analyze\<close>, \<open>fire_timer\<close>); the
    outcome of each asynchronous call (confirm dialog, Firestore call, HTTP response) is a
    parameter, and \<open>garage_step\<close> dispatches the events of the render. Interleavings
    are event sequences: a fetch result or a timer may fire at any later step, in any
    order; \<open>garage_reachable\<close> is the set of states some sequence reaches.
  \<^item> \<open>GarageView\<close>: what the render shows of a state: \<open>card_view_of\<close> (CarCard),
    \<open>row_view_of\<close> (table row), \<open>garage_view_of\<close> (garage tab) and
    \<open>app_view_of\<close> (badge, toast, page, modals).
  \<^item> \<open>Annotations\<close>: the detail modal's \<open>editor\<close> state and its operations
    (\<open>add_tag\<close>, \<open>remove_tag\<close>, \<open>add_link\<close>, \<open>remove_link\<close>, \<open>editor_step\<close>),
    the save flow \<open>modal_save\<close> through \<open>handle_update_car\<close> and the effect
    \<open>editor_sync\<close> it triggers, the values of its panes, and \<open>detail_view_of\<close>: the
    whole modal render, the active tab's pane beside the financial panel.
  \<^item> \<open>YouTube\<close>: \<open>extract_youtube_id\<close> (\<^verbatim>\<open>videoUtils.ts\<close>), its regular expression
    written out as the backtracking matcher runs it (\<open>alt_len\<close>, \<open>group7\<close>,
    \<open>yt_search\<close> over the start positions of the greedy prefix, rightmost first),
    and the reference meaning \<open>yt_match_spec\<close>: the id after the rightmost prefix match.
  \<^item> \<open>Links\<close>: \<open>norm\<close>, \<open>encode_uri_component\<close> and the eight generators of
    \<^verbatim>\<open>BazaarLinks\<close> (\<^verbatim>\<open>linkGenerators.ts\<close>), with the decimal printer
    \<open>dec_str\<close> of template literals (a recursion on \<open>int\<close> with a measure), its
    inverse \<open>int_value\<close>, and \<open>truthy_params\<close>: the parameters as the generators'
    \<^verbatim>\<open>if (params?.x)\<close> tests read them.
  \<^item> \<open>Catalog\<close>: the brand grid (\<open>find_detailed_car\<close> over \<open>car_index\<close>,
    \<open>grid_step\<close>, \<open>brand_grid_view\<close>) and the catalogue modal as a state machine:
    a \<open>catalog_modal\<close> record paired with an explicit \<^verbatim>\<open>localStorage\<close> map,
    \<open>catalog_open\<close> (mount and the \<^verbatim>\<open>[car.id]\<close> effect),
    \<open>handle_add_video\<close>, \<open>handle_remove_video\<close>, \<open>click_review\<close>,
    \<open>calculate_monthly\<close>, dispatched by \<open>catalog_step\<close>; \<open>catalog_reachable\<close>
    is the set of states a sequence of events reaches; \<open>catalog_page_of\<close> gives the
    header and the values of the four tabs (\<open>info_page_of\<close>: import field, search
    form as its inputs show it by \<open>form_value\<close>, bazaar links; \<open>finance_page_of\<close>;
    the reviews list, \<open>insurance_tab_of\<close>) with the tab bar \<open>catalog_tab_bar\<close>, and \<open>catalog_card_of\<close> the \<^verbatim>\<open>CatalogCard\<close> tile,
    which the code exports but no component renders.
  \<^item> \<open>CatalogData\<close>: the constant tables \<^verbatim>\<open>CARS_DATA\<close> and \<^verbatim>\<open>BRAND_CATALOG\<close>
    transcribed entry by entry (\<open>cars_data\<close>, \<open>brand_catalog\<close>), and what the grid and
    the modal do with them, evaluated by \<open>code_simp\<close>.
  \<^item> \<open>Storage\<close>: the storage collaborator of section 6 of the specification as an
    abstract contract over a map from ids to records (\<open>store_abs\<close> reads the list store
    as one; \<open>list_all_spec\<close>, \<open>delete_one_spec\<close>, \<open>delete_all_spec\<close>,
    \<open>update_fields_spec\<close>, \<open>create_spec\<close>), and \<open>store_spec_step\<close>, the contract
    operation each event of \<open>Garage\<close> performs; these are modelled from the
    specification, since Firestore is not part of the repository.
  \<^item> \<open>Settle\<close>: the garage's pending asynchronous work. \<open>drain\<close> is the schedule
    that delivers the oldest pending fetch result, else fires the oldest timer; it is a
    \<open>function\<close> whose termination is proved with the measure \<open>pending_weight\<close>
    (a timer weighs more than all the callbacks it can schedule).

  \<^bold>\<open>What is proved.\<close> The reconciler is total and follows the two fallback chains on
  every branch. The deduplicator is idempotent, keeps no two duplicates, represents every
  dropped listing by a kept duplicate at least as recent, never drops listings it cannot
  identify, and outputs a newest-first subsequence of its input; the two-listing cases of
  the specification are proved in general. Filtering and sorting commute, and
  \<open>processed_cars\<close> is the unique stable sorted permutation of the filtered listings.
  The cost sections follow the specified order and inclusion rules with the specified
  amounts; the revealed set is exactly the intersecting ids reported, each once, in
  order of first intersection, for any sequence of observer callbacks, and it holds only
  observed elements in every reachable state (rule induction); every frame of the animated total lies between its start and target and
  rises with time for a rising target, and the first frame after 600 ms shows the
  target. For the garage: every listing shown, and every document of a pending fetch
  result, has a timestamp in every reachable state (rule induction over \<open>garage_reachable\<close>); the optimistic local update of
  \<^verbatim>\<open>handleUpdateCar\<close> equals a re-fetch (a refinement); every branch of the delete,
  bulk-delete and analyse handlers, error paths included; the view agrees with itself
  (empty message, badge, bulk-delete button). Across the components (this theory): in every
  reachable garage state the grid shows the cards of held, dated listings, no two of them
  duplicates and newest first, and the badge counts them. For the editor: tags stay distinct and
  trimmed in every reachable state, adding and removing a tag round-trips, a failed save
  loses nothing.
  For the catalogue: the monthly payment amortizes the loan exactly (against the
  reference \<open>loan_balance\<close>, month by month) and is finite for every positive rate;
  the loan term stays within the slider's range in every reachable state, so no bank row
  shows \<open>NaN\<close>; the user video list and \<^verbatim>\<open>localStorage\<close> agree in every reachable
  state (rule induction over \<open>catalog_reachable\<close>); the model lookup returns only a
  car of the brand; an extracted video id is an 11-character piece of the URL, and the backtracking
  matcher computes exactly the rightmost-match meaning of the pattern (an equivalence);
  the bazaar links depend on the search state only through what the search form shows;
  \<open>encode_uri_component\<close> round-trips through percent-decoding. Over the real tables:
  every finance row of every catalogue car shows a number in every reachable state; the
  tables are well formed for the operations (distinct ids and keys, consistent review
  thumbnails); every slug needs no escaping. For the garage's asynchronous work: the
  pending callbacks always settle, within \<open>pending_weight\<close> steps and whatever the
  outcomes, with nothing pending and the loading indicator off (liveness).

  For storage: the document ids stay distinct in every reachable state (rule induction),
  and every run of the application changes the collection exactly as the contract's
  operations do, event by event (a refinement, by induction over the run, from one
  simulation lemma per event); the fetch query meets the \<^verbatim>\<open>listAll\<close> contract if and only
  if every stored record has a timestamp; after a successful analysis the new record is
  shown only if the service wrote it before the single re-fetch 2000 ms later, and
  otherwise nothing pending ever fetches it.

  \<^bold>\<open>Defects the model exhibits.\<close> Stated in general, over every state that meets
  their conditions, with a concrete witness: overlapping re-fetches resolve in arrival
  order, so after two deletions the older answer can show a deleted listing with nothing
  pending to correct it (\<open>stale_fetch_overwrites\<close>); a stored \<open>id\<close> field replaces the
  document id, so deleting that listing deletes nothing and it reappears
  (\<open>stored_id_field_defeats_delete\<close>); the warning header is lit exactly when one
  section is still hidden once the warnings block is revealed
  (\<open>warning_header_counts_block\<close>); a new value within 600 ms restarts the animated total
  from the last completed target, so the number shown jumps back
  (\<open>animated_total_jumps_back\<close>); a successful save switches the modal back to the
  info tab (\<open>modal_save_success\<close>). Shown on concrete states: the
  garage renders \<^verbatim>\<open>uniqueCars\<close>, so the filter and sort change only the count
  (\<open>filter_count_disagrees_with_grid\<close>); removing a link removes all links
  with its URL; the card and the modal colour a missing SOH differently; a failed fetch
  shows an empty garage without an error. In the catalogue: the YouTube pattern takes the
  first parameter of a watch link as the id (\<open>extract_youtube_id_parameter_order\<close>);
  the accented and the plain spelling of a model name do not match
  (\<open>catalog_detail_pages\<close>: three detail pages of \<^verbatim>\<open>CARS_DATA\<close> are opened by
  no row of the grid); the same video is added twice under two URLs
  (\<open>same_video_added_twice\<close>); Mobile.de receives a price range as two parameters
  (\<open>mobile_de_price_range_split\<close>).

  \<^bold>\<open>Modelling choices.\<close> JavaScript numbers are integers (prices, mileages, scores and
  timestamp seconds are whole numbers in the stored documents); the cost breakdown's EUR
  amounts and the VAT conversion are exact rationals, with \<^verbatim>\<open>Math.round\<close> and
  \<^verbatim>\<open>toFixed(0)\<close> written out. \<^verbatim>\<open>toLowerCase\<close> and \<^verbatim>\<open>trim\<close> are modelled
  on ASCII characters only. React state updates are applied at once, in program order;
  a \<^verbatim>\<open>useEffect\<close> on an object prop runs when the prop is replaced by a new object,
  which in this program happens exactly on the successful branch of
  \<^verbatim>\<open>handleUpdateCar\<close>. No definition needs fuel: every loop of the code is a structural recursion over a
  list or a number, except the decimal printer \<open>dec_str\<close>, whose termination is proved
  with the measure \<open>nat\<close>; concrete runs are evaluated by \<open>code_simp\<close>.

  Catalogue strings are UTF-8 byte strings: \<^verbatim>\<open>normalize("NFD")\<close> with the mark
  removal is modelled for the precomposed letters U+00C0--U+017F, where the catalogue's
  names lie; loan amounts and rates are exact rationals; the search form's numbers are
  whole numbers; \<^verbatim>\<open>localStorage\<close> holds either what \<^verbatim>\<open>JSON.stringify\<close> wrote or
  text \<^verbatim>\<open>JSON.parse\<close> rejects.

  \<^bold>\<open>Not modelled.\<close> Markup, styling,
  fixed drawings (the SVG shapes of \<^verbatim>\<open>RouteIllustration\<close>, \<^verbatim>\<open>BrandIcon\<close>); \<^verbatim>\<open>window.open\<close> and \<^verbatim>\<open>alert\<close> beyond their arguments;
  the internals of Firestore and of the analysis service beyond their observable results.
\<close>

section \<open>Properties across components\<close>

text \<open>The deduplicator keeps only listings of its input.\<close>

lemma set_unique_cars_subset: "set (unique_cars cs) \<subseteq> set cs"
proof
  fix x assume "x \<in> set (unique_cars cs)"
  then obtain y where "y \<in> set (js_sort time_desc_cmp cs)" and "x = y"
    using list_emb_set [OF dedupe_fold_subseq [of "[]" "js_sort time_desc_cmp cs"]]
    by (auto simp add: unique_cars_def)
  then show "x \<in> set cs" by simp
qed

text \<open>C16. What the garage grid shows in every reachable state: the cards of listings
  the garage holds, each with a timestamp (the fetch query), no two of them duplicates and
  newest first (the deduplicator), and the badge counts exactly the cards (the render).\<close>

theorem garage_grid_shows_unique_dated_listings:
  assumes "garage_reachable st0 g"
    and "gv_area (garage_view_of (app g)) = Area_grid cvs"
  shows "\<exists>us. cvs = map card_view_of us
           \<and> set us \<subseteq> set (cars (app g))
           \<and> (\<forall>c\<in>set us. timestamp c \<noteq> None)
           \<and> sorted_wrt (\<lambda>a b. \<not> is_dup a b) us
           \<and> sorted (map (\<lambda>c. - ts_seconds c) us)
           \<and> av_badge (app_view_of (app g)) = Some (length cvs)"
proof -
  let ?us = "unique_cars (cars (app g))"
  from assms(2) have ne: "cars (app g) \<noteq> []" and cv: "cvs = map card_view_of ?us"
    by (auto simp add: garage_view_of_def Let_def split: if_splits)
  have sub: "set ?us \<subseteq> set (cars (app g))" by (rule set_unique_cars_subset)
  have ts: "\<forall>c\<in>set ?us. timestamp c \<noteq> None"
    using garage_reachable_ts_inv [OF assms(1)] sub by (auto simp add: ts_inv_def list_all_iff)
  have nd: "sorted_wrt (\<lambda>a b. \<not> is_dup a b) ?us"
    unfolding unique_cars_def by (rule dedupe_fold_no_dup) simp
  have "subseq ?us (js_sort time_desc_cmp (cars (app g)))"
    using dedupe_fold_subseq [of "[]"] by (simp add: unique_cars_def)
  then have so: "sorted (map (\<lambda>c. - ts_seconds c) ?us)"
    using sorted_by_time by (rule subseq_sorted_map)
  have "?us \<noteq> []" using ne by (simp add: unique_cars_Nil_iff)
  then have b: "av_badge (app_view_of (app g)) = Some (length cvs)"
    by (simp add: app_view_of_def Let_def cv)
  show ?thesis using cv sub ts nd so b by blast
qed

section \<open>Witnesses\<close>

theorem garage_grid_shows_unique_dated_listings_witness:
  "let st0 = [(''a'', empty_doc\<lparr>link := Some ''https://x'', timestamp := Some 7\<rparr>),
              (''b'', empty_doc\<lparr>link := Some ''https://x?ref=2'', timestamp := Some 5\<rparr>)];
       g = garage_run [Mount None True, Fetch_arrives 0] (garage_init st0)
   in garage_reachable st0 g
      \<and> (\<exists>us. gv_area (garage_view_of (app g)) = Area_grid (map card_view_of us)
              \<and> map car_id us = [''a''] \<and> av_badge (app_view_of (app g)) = Some 1)"
proof -
  let ?st0 = "[(''a'', empty_doc\<lparr>link := Some ''https://x'', timestamp := Some 7\<rparr>),
              (''b'', empty_doc\<lparr>link := Some ''https://x?ref=2'', timestamp := Some 5\<rparr>)]"
  let ?g = "garage_run [Mount None True, Fetch_arrives 0] (garage_init ?st0)"
  let ?cvs = "map card_view_of (unique_cars (cars (app ?g)))"
  have r: "garage_reachable ?st0 ?g"
    by (rule garage_run_reachable [OF garage_reachable.start])
  have a: "gv_area (garage_view_of (app ?g)) = Area_grid ?cvs" by code_simp
  have u: "map car_id (unique_cars (cars (app ?g))) = [''a'']" by code_simp
  have b: "av_badge (app_view_of (app ?g)) = Some (length ?cvs)"
    using garage_grid_shows_unique_dated_listings [OF r a] by blast
  have l: "length ?cvs = 1" using arg_cong [OF u, of length] by simp
  show ?thesis unfolding Let_def
    apply (intro conjI r exI [of _ "unique_cars (cars (app ?g))"])
    using a u b l by simp_all
qed

end
